theory Spec2Isabelle
  imports Complex_Main "HOL-Library.Log_Nat" "HOL-Library.AList"
begin

section \<open>Chunked upload utility (frontend/client/src/utils/chunkedUpload.js)\<close>

text \<open>
  The three exported functions of \<^verbatim>\<open>chunkedUpload.js\<close> are embedded as HOL functions:
  \<^item> \<^verbatim>\<open>createFileChunks\<close>: a \<^verbatim>\<open>while\<close> loop over byte offsets.  With a chunk size that
    is not positive the loop never ends, so the loop is a \<^theory_text>\<open>partial_function\<close> in the
    option monad: \<open>None\<close> means that the call does not return.
  \<^item> \<^verbatim>\<open>uploadFileInChunks\<close> and \<^verbatim>\<open>abortChunkedUpload\<close>: \<^verbatim>\<open>async\<close> functions.  Every
    \<^verbatim>\<open>await\<close> suspends the function until the awaited promise settles, so a run is a
    sequence of steps.  A run is modelled by the list of observable events it produces
    (requests sent, responses received, callbacks invoked, console output) together with
    its outcome: \<open>Inr v\<close> when the promise resolves with \<open>v\<close>, \<open>Inl e\<close> when it rejects
    with \<open>e\<close>.  The environment (the \<^verbatim>\<open>fetch\<close> function and the caller's callbacks, which
    may throw) is a parameter of the model.
\<close>

subsection \<open>JavaScript values\<close>

text \<open>JSON documents; numbers that occur in request bodies are integers.\<close>

datatype json =
  JNull
  | JBool bool
  | JNum int
  | JStr string
  | JArr "json list"
  | JObj "(string \<times> json) list"

text \<open>The result of reading a property: \<^verbatim>\<open>undefined\<close> or a value.\<close>

datatype jsval = Undefined | Val json

text \<open>
  Thrown values.  \<open>Error msg\<close> is \<^verbatim>\<open>new Error(msg)\<close>, the only error the module itself
  constructs; the other constructors are errors raised by the platform (a rejected
  \<^verbatim>\<open>fetch\<close>, a body that is not JSON, destructuring \<^verbatim>\<open>null\<close>) or by a callback.
\<close>

datatype exn =
  Error string
  | TypeError string
  | SyntaxError string
  | OtherError string

text \<open>
  Destructuring \<^verbatim>\<open>const { key } = value\<close>: \<^verbatim>\<open>null\<close> cannot be destructured (a
  \<^verbatim>\<open>TypeError\<close>, whose message depends on the engine); an object yields its property or
  \<^verbatim>\<open>undefined\<close>; any other JSON value has no such property.
\<close>

fun destructure :: "json \<Rightarrow> string \<Rightarrow> exn + jsval" where
  "destructure JNull key = Inl (TypeError (''Cannot destructure property '' @ key @ '' of null''))"
| "destructure (JObj props) key =
     Inr (case map_of props key of None \<Rightarrow> Undefined | Some v \<Rightarrow> Val v)"
| "destructure other key = Inr Undefined"

text \<open>
  An object literal with one property, as \<^verbatim>\<open>JSON.stringify\<close> serialises it: a property
  whose value is \<^verbatim>\<open>undefined\<close> is left out.
\<close>

fun json_property :: "string \<Rightarrow> jsval \<Rightarrow> (string \<times> json) list" where
  "json_property key Undefined = []"
| "json_property key (Val v) = [(key, v)]"

text \<open>Decimal rendering of a non-negative integer, as a template literal does it.\<close>

definition digit_char :: "nat \<Rightarrow> char" where
  "digit_char d = ''0123456789'' ! d"

fun decimal :: "nat \<Rightarrow> string" where
  "decimal n = (if n < 10 then [digit_char n] else decimal (n div 10) @ [digit_char (n mod 10)])"

declare decimal.simps [simp del]

subsection \<open>Numbers: binary64 arithmetic and \<^verbatim>\<open>Math.round\<close>\<close>

text \<open>
  JavaScript numbers are IEEE 754 binary64 values.  A finite double is a rational, and
  \<^verbatim>\<open>a / b\<close> and \<^verbatim>\<open>a * b\<close> are the exact quotient and product rounded to the nearest
  double, ties to the even significand.  The model covers normal doubles (53 significant
  bits, no overflow, no subnormals): the progress computation only divides two array
  lengths and multiplies a value in \<open>(0, 1]\<close> by 100.
\<close>

definition round_half_even :: "rat \<Rightarrow> int" where
  "round_half_even x =
     (let f = \<lfloor>x\<rfloor>; r = x - of_int f
      in if r < 1 / 2 then f
         else if 1 / 2 < r then f + 1
         else if even f then f else f + 1)"

text \<open>\<open>ilog2 x\<close> is the exponent \<open>e\<close> with \<open>2\<^sup>e \<le> x < 2\<^bsup>e+1\<^esup>\<close>, for \<open>x > 0\<close>.\<close>

definition ilog2 :: "rat \<Rightarrow> int" where
  "ilog2 x =
     (let (p, q) = quotient_of x; d = bitlen p - bitlen q
      in if power_int 2 d \<le> x then d else d - 1)"

definition float64 :: "rat \<Rightarrow> rat" where
  "float64 x =
     (if x = 0 then 0
      else let a = \<bar>x\<bar>; ulp = power_int 2 (ilog2 a - 52)
           in sgn x * of_int (round_half_even (a / ulp)) * ulp)"

definition js_div :: "rat \<Rightarrow> rat \<Rightarrow> rat" where
  "js_div a b = float64 (a / b)"

definition js_mul :: "rat \<Rightarrow> rat \<Rightarrow> rat" where
  "js_mul a b = float64 (a * b)"

text \<open>\<^verbatim>\<open>Math.round\<close>: the nearest integer, a tie going towards \<open>+\<infinity>\<close>.\<close>

definition Math_round :: "rat \<Rightarrow> int" where
  "Math_round x = \<lfloor>x + 1 / 2\<rfloor>"

subsection \<open>Files and blobs\<close>

record File =
  file_name :: string
  file_size :: int
  file_type :: string

text \<open>A blob cut from a file is the byte range \<open>[blob_start, blob_end)\<close> of that file.\<close>

record blob =
  blob_start :: int
  blob_end :: int

text \<open>
  \<^verbatim>\<open>Blob.slice(start, end)\<close> of the File API: a negative offset counts from the end of
  the file, both offsets are clamped to the file, and an empty span results when the end
  lies before the start.
\<close>

definition slice :: "File \<Rightarrow> int \<Rightarrow> int \<Rightarrow> blob" where
  "slice file start end =
     (let size = file_size file;
          relativeStart = (if start < 0 then max (size + start) 0 else min start size);
          relativeEnd = (if end < 0 then max (size + end) 0 else min end size);
          span = max (relativeEnd - relativeStart) 0
      in \<lparr>blob_start = relativeStart, blob_end = relativeStart + span\<rparr>)"

subsection \<open>\<^verbatim>\<open>createFileChunks\<close>\<close>

definition DEFAULT_CHUNK_SIZE :: int where
  "DEFAULT_CHUNK_SIZE = 1024 * 1024"

partial_function (option) createFileChunks_loop ::
  "File \<Rightarrow> int \<Rightarrow> int \<Rightarrow> blob list \<Rightarrow> blob list option" where
  "createFileChunks_loop file chunkSize start chunks =
     (if start < file_size file then
        let end = min (start + chunkSize) (file_size file);
            chunk = slice file start end
        in createFileChunks_loop file chunkSize end (chunks @ [chunk])
      else Some chunks)"

declare createFileChunks_loop.simps [code]

definition createFileChunks :: "File \<Rightarrow> int \<Rightarrow> blob list option" where
  "createFileChunks file chunkSize = createFileChunks_loop file chunkSize 0 []"

subsection \<open>Requests, responses and events\<close>

datatype form_value = BlobValue blob | OtherValue jsval

datatype body = JsonBody json | FormBody "(string \<times> form_value) list"

record Request =
  req_url :: string
  req_method :: string
  req_headers :: "(string \<times> string) list"
  req_body :: body

text \<open>
  A response as far as the module reads it: the \<^verbatim>\<open>ok\<close> flag, the status text, and what
  \<^verbatim>\<open>response.json()\<close> settles to (it rejects when the body is not JSON).
\<close>

record Response =
  ok :: bool
  statusText :: string
  body_json :: "exn + json"

text \<open>The object passed to the progress callback.\<close>

record progress_info =
  p_uploadId :: jsval
  p_totalChunks :: nat
  p_uploadedChunks :: nat
  p_progress :: int

datatype event =
  Sent Request
  | Received "exn + Response"
  | OnProgress progress_info
  | OnSuccess json
  | OnError exn
  | ConsoleError string exn

text \<open>
  A computation yields the events it produced and then either throws (\<open>Inl\<close>) or returns
  (\<open>Inr\<close>).  \<open>io_bind\<close> is sequencing, \<open>io_catch\<close> is \<^verbatim>\<open>try { ... } catch (error) { ... }\<close>.
\<close>

type_synonym 'a io = "event list \<times> (exn + 'a)"

definition io_return :: "'a \<Rightarrow> 'a io" where
  "io_return x = ([], Inr x)"

definition io_throw :: "exn \<Rightarrow> 'a io" where
  "io_throw e = ([], Inl e)"

definition io_bind :: "'a io \<Rightarrow> ('a \<Rightarrow> 'b io) \<Rightarrow> 'b io" where
  "io_bind m k =
     (case m of
        (t, Inl e) \<Rightarrow> (t, Inl e)
      | (t, Inr x) \<Rightarrow> (case k x of (t', r) \<Rightarrow> (t @ t', r)))"

definition io_catch :: "'a io \<Rightarrow> (exn \<Rightarrow> 'a io) \<Rightarrow> 'a io" where
  "io_catch m handler =
     (case m of
        (t, Inl e) \<Rightarrow> (case handler e of (t', r) \<Rightarrow> (t @ t', r))
      | (t, Inr x) \<Rightarrow> (t, Inr x))"

text \<open>
  \<^verbatim>\<open>await fetch(...)\<close>: the request is sent and the function is suspended until the
  response (or the transport failure) has arrived.
\<close>

definition await_fetch :: "(Request \<Rightarrow> exn + Response) \<Rightarrow> Request \<Rightarrow> Response io" where
  "await_fetch fetch request = ([Sent request, Received (fetch request)], fetch request)"

definition await_json :: "Response \<Rightarrow> json io" where
  "await_json response = ([], body_json response)"

text \<open>
  Calling a callback of the caller: the call is recorded; the callback returns (\<open>None\<close>)
  or throws (\<open>Some e\<close>).
\<close>

definition call :: "('a \<Rightarrow> exn option) \<Rightarrow> ('a \<Rightarrow> event) \<Rightarrow> 'a \<Rightarrow> unit io" where
  "call callback ev x =
     ([ev x], case callback x of None \<Rightarrow> Inr () | Some e \<Rightarrow> Inl e)"

text \<open>\<^verbatim>\<open>{ ...headers, 'Content-Type': 'application/json' }\<close>\<close>

definition json_headers :: "(string \<times> string) list \<Rightarrow> (string \<times> string) list" where
  "json_headers headers = AList.update ''Content-Type'' ''application/json'' headers"

subsection \<open>\<^verbatim>\<open>uploadFileInChunks\<close>\<close>

text \<open>\<^verbatim>\<open>Math.round((uploadedChunks / totalChunks) * 100)\<close>\<close>

definition progress_percent :: "nat \<Rightarrow> nat \<Rightarrow> int" where
  "progress_percent uploadedChunks totalChunks =
     Math_round (js_mul (js_div (of_nat uploadedChunks) (of_nat totalChunks)) 100)"

text \<open>The object literal passed to \<^verbatim>\<open>onProgress\<close>, for a given value of \<open>uploadedChunks\<close>.\<close>

definition progress_report :: "jsval \<Rightarrow> nat \<Rightarrow> nat \<Rightarrow> progress_info" where
  "progress_report uploadId totalChunks uploadedChunks =
     \<lparr>p_uploadId = uploadId, p_totalChunks = totalChunks, p_uploadedChunks = uploadedChunks,
      p_progress = progress_percent uploadedChunks totalChunks\<rparr>"

definition chunk_request ::
  "string \<Rightarrow> (string \<times> string) list \<Rightarrow> jsval \<Rightarrow> blob \<Rightarrow> nat \<Rightarrow> Request" where
  "chunk_request url headers uploadId chunk i =
     (let formData = [(''chunk'', BlobValue chunk),
                      (''chunkIndex'', OtherValue (Val (JNum (int i)))),
                      (''uploadId'', OtherValue uploadId)]
      in \<lparr>req_url = url @ ''/chunk'', req_method = ''POST'', req_headers = headers,
          req_body = FormBody formData\<rparr>)"

text \<open>
  The \<^verbatim>\<open>for\<close> loop over the chunks; \<open>i\<close> and \<open>uploadedChunks\<close> are its two mutable
  variables.  It returns the final value of \<open>uploadedChunks\<close>.
\<close>

function upload_loop ::
  "(Request \<Rightarrow> exn + Response) \<Rightarrow> string \<Rightarrow> (string \<times> string) list \<Rightarrow>
   (progress_info \<Rightarrow> exn option) \<Rightarrow> jsval \<Rightarrow> blob list \<Rightarrow> nat \<Rightarrow> nat \<Rightarrow> nat \<Rightarrow> nat io" where
  "upload_loop fetch url headers onProgress uploadId chunks totalChunks i uploadedChunks =
     (if i < totalChunks then
        let chunk = chunks ! i in
        io_bind (await_fetch fetch (chunk_request url headers uploadId chunk i))
          (\<lambda>chunkResponse.
             if \<not> ok chunkResponse then
               io_throw (Error (''Failed to upload chunk '' @ decimal i @ '': ''
                                @ statusText chunkResponse))
             else
               io_bind
                 (call onProgress OnProgress
                    (progress_report uploadId totalChunks (uploadedChunks + 1)))
                 (\<lambda>_. upload_loop fetch url headers onProgress uploadId chunks totalChunks
                         (i + 1) (uploadedChunks + 1)))
      else io_return uploadedChunks)"
  by pat_completeness auto
termination
  by (relation "measure (\<lambda>(fetch, url, headers, onProgress, uploadId, chunks, totalChunks, i,
                           uploadedChunks). totalChunks - i)") auto

declare upload_loop.simps [simp del]

definition init_request ::
  "string \<Rightarrow> File \<Rightarrow> (string \<times> string) list \<Rightarrow> json \<Rightarrow> nat \<Rightarrow> Request" where
  "init_request url file headers metadata totalChunks =
     \<lparr>req_url = url @ ''/init'', req_method = ''POST'', req_headers = json_headers headers,
      req_body = JsonBody (JObj [(''filename'', JStr (file_name file)),
                                 (''fileSize'', JNum (file_size file)),
                                 (''fileType'', JStr (file_type file)),
                                 (''totalChunks'', JNum (int totalChunks)),
                                 (''metadata'', metadata)])\<rparr>"

definition complete_request :: "string \<Rightarrow> (string \<times> string) list \<Rightarrow> jsval \<Rightarrow> Request" where
  "complete_request url headers uploadId =
     \<lparr>req_url = url @ ''/complete'', req_method = ''POST'', req_headers = json_headers headers,
      req_body = JsonBody (JObj (json_property ''uploadId'' uploadId))\<rparr>"

text \<open>The body of the \<^verbatim>\<open>try\<close> block, once the chunks have been created.\<close>

definition upload_chunks ::
  "(Request \<Rightarrow> exn + Response) \<Rightarrow> string \<Rightarrow> File \<Rightarrow> (string \<times> string) list \<Rightarrow> json \<Rightarrow>
   (progress_info \<Rightarrow> exn option) \<Rightarrow> (json \<Rightarrow> exn option) \<Rightarrow> blob list \<Rightarrow> json io" where
  "upload_chunks fetch url file headers metadata onProgress onSuccess chunks =
     (let totalChunks = length chunks in
      io_bind (await_fetch fetch (init_request url file headers metadata totalChunks))
        (\<lambda>initResponse.
           if \<not> ok initResponse then
             io_throw (Error (''Failed to initialize upload: '' @ statusText initResponse))
           else
             io_bind (await_json initResponse) (\<lambda>initBody.
             io_bind ([], destructure initBody ''uploadId'') (\<lambda>uploadId.
             io_bind (upload_loop fetch url headers onProgress uploadId chunks totalChunks 0 0)
               (\<lambda>uploadedChunks.
             io_bind (await_fetch fetch (complete_request url headers uploadId))
               (\<lambda>completeResponse.
                  if \<not> ok completeResponse then
                    io_throw (Error (''Failed to complete upload: ''
                                     @ statusText completeResponse))
                  else
                    io_bind (await_json completeResponse) (\<lambda>result.
                    io_bind (call onSuccess OnSuccess result) (\<lambda>_.
                    io_return result))))))))"

text \<open>
  The whole function: \<open>None\<close> when \<^verbatim>\<open>createFileChunks\<close> does not return.  The \<^verbatim>\<open>catch\<close>
  block calls \<^verbatim>\<open>onError\<close> and throws the error again.
\<close>

definition uploadFileInChunks ::
  "(Request \<Rightarrow> exn + Response) \<Rightarrow> string \<Rightarrow> File \<Rightarrow> (string \<times> string) list \<Rightarrow> json \<Rightarrow>
   (progress_info \<Rightarrow> exn option) \<Rightarrow> (exn \<Rightarrow> exn option) \<Rightarrow> (json \<Rightarrow> exn option) \<Rightarrow> int \<Rightarrow>
   json io option" where
  "uploadFileInChunks fetch url file headers metadata onProgress onError onSuccess chunkSize =
     (case createFileChunks file chunkSize of
        None \<Rightarrow> None
      | Some chunks \<Rightarrow>
          Some (io_catch
                  (upload_chunks fetch url file headers metadata onProgress onSuccess chunks)
                  (\<lambda>error. io_bind (call onError OnError error) (\<lambda>_. io_throw error))))"

subsection \<open>\<^verbatim>\<open>abortChunkedUpload\<close>\<close>

definition abort_request :: "string \<Rightarrow> (string \<times> string) list \<Rightarrow> jsval \<Rightarrow> Request" where
  "abort_request url headers uploadId =
     \<lparr>req_url = url @ ''/abort'', req_method = ''POST'', req_headers = json_headers headers,
      req_body = JsonBody (JObj (json_property ''uploadId'' uploadId))\<rparr>"

definition abortChunkedUpload ::
  "(Request \<Rightarrow> exn + Response) \<Rightarrow> string \<Rightarrow> jsval \<Rightarrow> (string \<times> string) list \<Rightarrow> json io" where
  "abortChunkedUpload fetch url uploadId headers =
     io_catch
       (io_bind (await_fetch fetch (abort_request url headers uploadId))
          (\<lambda>response.
             if \<not> ok response then
               io_throw (Error (''Failed to abort upload: '' @ statusText response))
             else await_json response))
       (\<lambda>error. (([ConsoleError ''Error aborting upload:'' error], Inl error) :: json io))"

subsection \<open>Auxiliary notions used in the statements below\<close>

text \<open>
  The byte range with index \<open>i\<close> of a partition of \<open>[start, S)\<close> into pieces of
  \<open>C\<close> bytes; it is only used to describe the result of the loop in closed form.
\<close>

definition chunk_at :: "int \<Rightarrow> int \<Rightarrow> int \<Rightarrow> nat \<Rightarrow> blob" where
  "chunk_at S C start i = \<lparr>blob_start = start + int i * C, blob_end = min (start + int i * C + C) S\<rparr>"

text \<open>Projections of a run: the requests sent, and the arguments of the progress callback.\<close>

definition sent_requests :: "event list \<Rightarrow> Request list" where
  "sent_requests trace = concat (map (\<lambda>e. case e of Sent r \<Rightarrow> [r] | _ \<Rightarrow> []) trace)"

definition progress_reports :: "event list \<Rightarrow> progress_info list" where
  "progress_reports trace = concat (map (\<lambda>e. case e of OnProgress p \<Rightarrow> [p] | _ \<Rightarrow> []) trace)"

definition chunk_requests :: "string \<Rightarrow> event list \<Rightarrow> Request list" where
  "chunk_requests url trace = filter (\<lambda>r. req_url r = url @ ''/chunk'') (sent_requests trace)"

text \<open>
  \<open>one_at_a_time busy trace\<close>: no request is sent while another one is waiting for its
  response (\<open>busy\<close> tells whether a request is in flight at the start of the trace), and
  callbacks run only while no request is in flight.  Sending and receiving are separate
  events: a trace in which a second request is sent before the response to the first one
  has arrived has two \<open>Sent\<close> events in a row and is rejected.
\<close>

fun one_at_a_time :: "bool \<Rightarrow> event list \<Rightarrow> bool" where
  "one_at_a_time busy [] = True"
| "one_at_a_time busy (Sent r # es) = (\<not> busy \<and> one_at_a_time True es)"
| "one_at_a_time busy (Received x # es) = (busy \<and> one_at_a_time False es)"
| "one_at_a_time busy (e # es) = (\<not> busy \<and> one_at_a_time busy es)"

text \<open>
  The events of one iteration of the upload loop that sends chunk \<open>j\<close>, receives the
  response and reports progress.
\<close>

definition chunk_round ::
  "(Request \<Rightarrow> exn + Response) \<Rightarrow> string \<Rightarrow> (string \<times> string) list \<Rightarrow> jsval \<Rightarrow> blob list \<Rightarrow>
   nat \<Rightarrow> event list" where
  "chunk_round fetch url headers uploadId chunks j =
     [Sent (chunk_request url headers uploadId (chunks ! j) j),
      Received (fetch (chunk_request url headers uploadId (chunks ! j) j)),
      OnProgress (progress_report uploadId (length chunks) (j + 1))]"

text \<open>The message of the error thrown when the response to chunk \<open>i\<close> is not a success.\<close>

definition chunk_error :: "nat \<Rightarrow> Response \<Rightarrow> exn" where
  "chunk_error i chunkResponse =
     Error (''Failed to upload chunk '' @ decimal i @ '': '' @ statusText chunkResponse)"

text \<open>
  What the three stages of an upload make of the settled \<^verbatim>\<open>fetch\<close> promise: the init
  stage yields the \<^verbatim>\<open>uploadId\<close> read from the body, a chunk stage yields nothing, the
  complete stage yields the parsed body; each one throws on a rejected request (transport
  failure), on a response that is not a success, and where the body has to be read, on a
  body that cannot be read.
\<close>

definition init_outcome :: "exn + Response \<Rightarrow> exn + jsval" where
  "init_outcome settled =
     (case settled of
        Inl e \<Rightarrow> Inl e
      | Inr initResponse \<Rightarrow>
          if \<not> ok initResponse then
            Inl (Error (''Failed to initialize upload: '' @ statusText initResponse))
          else (case body_json initResponse of
                  Inl e \<Rightarrow> Inl e
                | Inr initBody \<Rightarrow> destructure initBody ''uploadId''))"

definition chunk_outcome :: "nat \<Rightarrow> exn + Response \<Rightarrow> exn + unit" where
  "chunk_outcome i settled =
     (case settled of
        Inl e \<Rightarrow> Inl e
      | Inr chunkResponse \<Rightarrow>
          if \<not> ok chunkResponse then Inl (chunk_error i chunkResponse) else Inr ())"

definition complete_outcome :: "exn + Response \<Rightarrow> exn + json" where
  "complete_outcome settled =
     (case settled of
        Inl e \<Rightarrow> Inl e
      | Inr completeResponse \<Rightarrow>
          if \<not> ok completeResponse then
            Inl (Error (''Failed to complete upload: '' @ statusText completeResponse))
          else body_json completeResponse)"

text \<open>
  The error with which the promise of \<^verbatim>\<open>uploadFileInChunks\<close> rejects when the \<^verbatim>\<open>catch\<close>
  block has caught \<open>e\<close>: \<open>e\<close> itself, unless \<^verbatim>\<open>onError\<close> throws.
\<close>

definition rethrown :: "(exn \<Rightarrow> exn option) \<Rightarrow> exn \<Rightarrow> exn" where
  "rethrown onError e = (case onError e of None \<Rightarrow> e | Some e' \<Rightarrow> e')"

text \<open>The events of a request and its response.\<close>

definition exchange :: "(Request \<Rightarrow> exn + Response) \<Rightarrow> Request \<Rightarrow> event list" where
  "exchange fetch request = [Sent request, Received (fetch request)]"

text \<open>The events of the first \<open>m\<close> iterations of the upload loop, all of them complete.\<close>

definition chunk_rounds ::
  "(Request \<Rightarrow> exn + Response) \<Rightarrow> string \<Rightarrow> (string \<times> string) list \<Rightarrow> jsval \<Rightarrow> blob list \<Rightarrow>
   nat \<Rightarrow> event list" where
  "chunk_rounds fetch url headers uploadId chunks m =
     concat (map (chunk_round fetch url headers uploadId chunks) [0..<m])"

text \<open>Further projections of a run: the arguments of the other two callbacks.\<close>

definition success_calls :: "event list \<Rightarrow> json list" where
  "success_calls trace = concat (map (\<lambda>e. case e of OnSuccess v \<Rightarrow> [v] | _ \<Rightarrow> []) trace)"

definition error_calls :: "event list \<Rightarrow> exn list" where
  "error_calls trace = concat (map (\<lambda>e. case e of OnError x \<Rightarrow> [x] | _ \<Rightarrow> []) trace)"

text \<open>
  The number of acknowledged chunks of a run: chunk requests directly followed by a
  response that is a success.
\<close>

fun chunk_acks :: "string \<Rightarrow> event list \<Rightarrow> nat" where
  "chunk_acks url (Sent q # Received (Inr r) # es) =
     (if req_url q = url @ ''/chunk'' \<and> ok r then 1 else 0) + chunk_acks url es"
| "chunk_acks url (e # es) = chunk_acks url es"
| "chunk_acks url [] = 0"

text \<open>
  A field of the form of a multipart request, as the server reads it: the value appended
  under the key, if the body is a form and has that key.
\<close>

definition form_field :: "string \<Rightarrow> Request \<Rightarrow> form_value option" where
  "form_field key request =
     (case req_body request of
        FormBody formData \<Rightarrow> map_of formData key
      | JsonBody v \<Rightarrow> None)"

text \<open>Another projection of a run: the settled \<^verbatim>\<open>fetch\<close> promises, in order.\<close>

definition responses :: "event list \<Rightarrow> (exn + Response) list" where
  "responses trace = concat (map (\<lambda>e. case e of Received x \<Rightarrow> [x] | _ \<Rightarrow> []) trace)"

subsection \<open>Example environments\<close>

text \<open>
  Concrete inputs at which the theorems below are instantiated: a file of 2.5 MiB, and a
  server that creates the session \<^verbatim>\<open>upload-1\<close>, acknowledges every chunk except the one
  with index \<open>failing\<close> (if any), which it answers with status 500, and answers the
  complete request with a description of the artifact.
\<close>

definition example_file :: File where
  "example_file = \<lparr>file_name = ''video.mp4'', file_size = 2621440, file_type = ''video/mp4''\<rparr>"

text \<open>A file of 201 MiB: 201 chunks of the default size.\<close>

definition long_file :: File where
  "long_file =
     \<lparr>file_name = ''archive.zip'', file_size = 210763776, file_type = ''application/zip''\<rparr>"

definition ok_response :: "json \<Rightarrow> Response" where
  "ok_response v = \<lparr>ok = True, statusText = ''OK'', body_json = Inr v\<rparr>"

definition error_response :: Response where
  "error_response =
     \<lparr>ok = False, statusText = ''Internal Server Error'',
      body_json = Inl (SyntaxError ''Unexpected end of JSON input'')\<rparr>"

definition example_artifact :: json where
  "example_artifact = JObj [(''fileId'', JStr ''file-7''), (''size'', JNum 2621440)]"

definition example_server :: "nat option \<Rightarrow> Request \<Rightarrow> exn + Response" where
  "example_server failing request =
     (if req_url request = ''/api/upload/init'' then
        Inr (ok_response (JObj [(''uploadId'', JStr ''upload-1'')]))
      else if req_url request = ''/api/upload/chunk'' then
        (case req_body request of
           FormBody formData \<Rightarrow>
             (case failing of
                Some i \<Rightarrow>
                  if map_of formData ''chunkIndex'' = Some (OtherValue (Val (JNum (int i))))
                  then Inr error_response
                  else Inr (ok_response (JObj []))
              | None \<Rightarrow> Inr (ok_response (JObj [])))
         | JsonBody v \<Rightarrow> Inr error_response)
      else if req_url request = ''/api/upload/complete'' then Inr (ok_response example_artifact)
      else Inr error_response)"

text \<open>
  A network on which every request fails, a server that answers every request with status
  500, and callbacks that do nothing.
\<close>

definition offline :: "Request \<Rightarrow> exn + Response" where
  "offline request = Inl (TypeError ''Failed to fetch'')"

definition unavailable :: "Request \<Rightarrow> exn + Response" where
  "unavailable request = Inr error_response"

definition no_callback :: "'a \<Rightarrow> exn option" where
  "no_callback x = None"

text \<open>
  A server that answers the init request with a success whose body has no \<^verbatim>\<open>uploadId\<close>,
  and a callback that throws.
\<close>

definition lax_server :: "Request \<Rightarrow> exn + Response" where
  "lax_server request =
     (if req_url request = ''/api/upload/init'' then
        Inr (ok_response (JObj [(''session'', JNum 7)]))
      else if req_url request = ''/api/upload/complete'' then
        Inr (ok_response example_artifact)
      else Inr (ok_response (JObj [])))"

definition throwing :: "exn \<Rightarrow> 'a \<Rightarrow> exn option" where
  "throwing e x = Some e"

section \<open>Properties of \<^verbatim>\<open>createFileChunks\<close>\<close>

lemma slice_in_range:
  "0 \<le> start \<Longrightarrow> start \<le> end \<Longrightarrow> end \<le> file_size file \<Longrightarrow>
   slice file start end = \<lparr>blob_start = start, blob_end = end\<rparr>"
  by (simp add: slice_def Let_def)

lemma ceil_div_pos_iff:
  fixes x C :: int
  assumes "0 < C"
  shows "0 < (x + C - 1) div C \<longleftrightarrow> 0 < x"
  using pos_imp_zdiv_pos_iff[OF assms, of "x + C - 1"] by auto

lemma ceil_div_step:
  fixes x C :: int
  assumes "0 < C"
  shows "(x + C - 1) div C = (x - 1) div C + 1"
proof -
  have "x + C - 1 = (x - 1) + C" by simp
  then have "(x + C - 1) div C = ((x - 1) + C) div C" by (rule arg_cong)
  also have "\<dots> = (x - 1) div C + 1"
    using assms by (subst div_add_self2) simp_all
  finally show ?thesis .
qed

lemma div_mod_bounds:
  fixes T C :: int
  assumes "0 < C"
  shows "(T div C) * C \<le> T" and "T < (T div C) * C + C"
proof -
  define q where "q = T div C"
  define r where "r = T mod C"
  have "T = q * C + r" unfolding q_def r_def by simp
  moreover have "0 \<le> r" "r < C" unfolding r_def using assms by simp_all
  ultimately show "q * C \<le> T" and "T < q * C + C" by linarith+
qed

lemma index_less_count_iff:
  fixes S C :: int
  assumes "0 < C"
  shows "int j < (S + C - 1) div C \<longleftrightarrow> int j * C < S"
proof
  let ?T = "S + C - 1"
  assume "int j < ?T div C"
  then have "int j + 1 \<le> ?T div C" by simp
  then have "(int j + 1) * C \<le> (?T div C) * C"
    using assms by (simp only: mult_right_mono less_imp_le)
  also have "\<dots> \<le> ?T" using div_mod_bounds(1)[OF assms] .
  finally have "int j * C + C \<le> S + C - 1" by (simp only: distrib_right mult_1)
  then show "int j * C < S" by linarith
next
  let ?T = "S + C - 1"
  assume "int j * C < S"
  then have "int j * C + C \<le> ?T" by linarith
  then have "(int j + 1) * C \<le> ?T" by (simp only: distrib_right mult_1)
  then have "((int j + 1) * C) div C \<le> ?T div C"
    using assms by (intro zdiv_mono1) simp_all
  then show "int j < ?T div C" using assms by simp
qed

lemma ceiling_div:
  fixes S C :: int
  assumes "0 < C"
  shows "\<lceil>real_of_int S / real_of_int C\<rceil> = (S + C - 1) div C"
proof (rule ceiling_unique)
  define q where "q = (S + C - 1) div C"
  have b: "q * C \<le> S + C - 1" "S + C - 1 < q * C + C"
    unfolding q_def using div_mod_bounds[OF assms, of "S + C - 1"] by simp_all
  have "(q - 1) * C = q * C - C" by (simp add: algebra_simps)
  with b have "(q - 1) * C < S" by linarith
  then have "real_of_int ((q - 1) * C) < real_of_int S" by (simp only: of_int_less_iff)
  then show "real_of_int q - 1 < real_of_int S / real_of_int C"
    using assms by (simp add: pos_less_divide_eq)
  from b have "S \<le> q * C" by linarith
  then have "real_of_int S \<le> real_of_int (q * C)" by (simp only: of_int_le_iff)
  then show "real_of_int S / real_of_int C \<le> real_of_int q"
    using assms by (simp add: pos_divide_le_eq)
qed


lemma createFileChunks_loop_closed_form:
  "0 < C \<Longrightarrow> 0 \<le> start \<Longrightarrow> k = nat ((file_size f - start + C - 1) div C) \<Longrightarrow>
   createFileChunks_loop f C start acc =
     Some (acc @ map (chunk_at (file_size f) C start) [0..<k])"
proof (induction k arbitrary: start acc)
  case 0
  then have "(file_size f - start + C - 1) div C \<le> 0" by simp
  with \<open>0 < C\<close> have "\<not> start < file_size f"
    using ceil_div_pos_iff[of C "file_size f - start"] by simp
  then show ?case by (subst createFileChunks_loop.simps) simp
next
  case (Suc k)
  let ?S = "file_size f"
  from Suc.prems have pos: "0 < (?S - start + C - 1) div C" by simp
  with \<open>0 < C\<close> have lt: "start < ?S"
    using ceil_div_pos_iff[of C "?S - start"] by simp
  let ?e = "min (start + C) ?S"
  have sl: "slice f start ?e = chunk_at ?S C start 0"
    using lt Suc.prems by (simp add: slice_in_range chunk_at_def)
  have k': "k = nat ((?S - ?e + C - 1) div C)"
  proof (cases "start + C \<le> ?S")
    case True
    have "?S - (start + C) + C - 1 = ?S - start - 1" by simp
    then have "(?S - start + C - 1) div C = (?S - (start + C) + C - 1) div C + 1"
      using ceil_div_step[OF \<open>0 < C\<close>, of "?S - start"] by simp
    with Suc.prems True show ?thesis by (simp add: min_def)
  next
    case False
    then have e: "?e = ?S" by simp
    have "(?S - start - 1) div C = 0"
      using False lt by (intro div_pos_pos_trivial) simp_all
    then have "(?S - start + C - 1) div C = 1"
      using ceil_div_step[OF \<open>0 < C\<close>, of "?S - start"] by simp
    with Suc.prems e show ?thesis using \<open>0 < C\<close> by simp
  qed
  have rest: "map (chunk_at ?S C ?e) [0..<k] = map (chunk_at ?S C start) [Suc 0..<Suc k]"
  proof (cases "start + C \<le> ?S")
    case True
    then have "?e = start + C" by simp
    then show ?thesis
      by (simp add: map_Suc_upt[symmetric] chunk_at_def algebra_simps del: upt_Suc)
  next
    case False
    then have e: "?e = ?S" by simp
    with k' \<open>0 < C\<close> have "k = 0" by simp
    then show ?thesis by simp
  qed
  have "createFileChunks_loop f C start acc =
        createFileChunks_loop f C ?e (acc @ [slice f start ?e])"
    using lt by (subst createFileChunks_loop.simps) (simp add: Let_def)
  also have "\<dots> = Some ((acc @ [slice f start ?e]) @ map (chunk_at ?S C ?e) [0..<k])"
    using Suc.IH[OF \<open>0 < C\<close> _ k'] lt Suc.prems \<open>0 < C\<close> by simp
  also have "\<dots> = Some (acc @ map (chunk_at ?S C start) [0..<Suc k])"
    unfolding rest sl by (simp add: upt_conv_Cons del: upt_Suc)
  finally show ?case .
qed

lemma createFileChunks_closed_form:
  assumes "0 < C"
  shows "createFileChunks f C =
           Some (map (chunk_at (file_size f) C 0) [0..<nat ((file_size f + C - 1) div C)])"
  unfolding createFileChunks_def
  using createFileChunks_loop_closed_form[OF assms, of 0 _ f "[]"] by simp

lemma createFileChunks_loop_diverges:
  assumes "createFileChunks_loop f C start acc = Some y"
  shows "\<not> (C \<le> 0 \<and> start < file_size f)"
  using assms
proof (induction rule: createFileChunks_loop.raw_induct[rotated 1, consumes 1])
  case (1 loop f C start acc y)
  show ?case
  proof
    assume a: "C \<le> 0 \<and> start < file_size f"
    then have "loop f C (min (start + C) (file_size f))
                 (acc @ [slice f start (min (start + C) (file_size f))]) = Some y"
      using 1(2) by (simp add: Let_def)
    from 1(1)[OF this] a show False by auto
  qed
qed

lemma createFileChunks_diverges:
  assumes "C \<le> 0" and "0 < file_size f"
  shows "createFileChunks f C = None"
proof (cases "createFileChunks f C")
  case None
  then show ?thesis .
next
  case (Some y)
  then show ?thesis
    using createFileChunks_loop_diverges[of f C 0 "[]" y] assms
    by (simp add: createFileChunks_def)
qed

lemma createFileChunks_empty:
  assumes "file_size f \<le> 0"
  shows "createFileChunks f C = Some []"
  unfolding createFileChunks_def using assms
  by (subst createFileChunks_loop.simps) simp

lemma chunk_count_nonneg:
  fixes S C :: int
  assumes "0 \<le> S" "0 < C"
  shows "0 \<le> (S + C - 1) div C"
  using assms by (simp add: pos_imp_zdiv_nonneg_iff)

lemma createFileChunks_indexed:
  assumes S: "0 \<le> file_size f" and C: "0 < C"
  shows "\<exists>chunks. createFileChunks f C = Some chunks
      \<and> int (length chunks) = (file_size f + C - 1) div C
      \<and> file_size f \<le> int (length chunks) * C
      \<and> (\<forall>i<length chunks. int i * C < file_size f
            \<and> blob_start (chunks ! i) = int i * C
            \<and> blob_end (chunks ! i) = min (int i * C + C) (file_size f))"
proof -
  define S where "S = file_size f"
  define k where "k = nat ((S + C - 1) div C)"
  define chunks where "chunks = map (chunk_at S C 0) [0..<k]"
  have len: "length chunks = k" by (simp add: chunks_def)
  have nth: "chunks ! i = chunk_at S C 0 i" if "i < k" for i
    using that by (simp add: chunks_def)
  have kint: "int k = (S + C - 1) div C"
    unfolding k_def using chunk_count_nonneg[of S C] S C by (simp add: S_def)
  have inside: "int i * C < S" if "i < k" for i
    using that index_less_count_iff[OF C, of i S] kint by simp
  have top: "S \<le> int k * C"
    using index_less_count_iff[OF C, of k S] kint by simp
  have "createFileChunks f C = Some chunks"
    using createFileChunks_closed_form[OF C, of f] by (simp add: chunks_def k_def S_def)
  moreover have "\<forall>i<length chunks. int i * C < S
            \<and> blob_start (chunks ! i) = int i * C
            \<and> blob_end (chunks ! i) = min (int i * C + C) S"
    using nth inside len by (simp add: chunk_at_def)
  ultimately show ?thesis using len kint top unfolding S_def by blast
qed

text \<open>
  \<^bold>\<open>Claim C1.\<close>  For every file size \<open>S \<ge> 0\<close> and chunk size \<open>C > 0\<close>,
  \<^verbatim>\<open>createFileChunks\<close> returns a list of byte ranges with \<open>\<lceil>S / C\<rceil>\<close> elements (none when
  \<open>S = 0\<close>).  The range with index \<open>i\<close> is \<open>[i * C, min (i * C + C) S)\<close> and is not empty;
  the first range starts at 0 and the last one ends at \<open>S\<close>; each range ends where the
  next one starts; two different ranges are disjoint; together the ranges are exactly
  \<open>[0, S)\<close>; every range but the last has length \<open>C\<close>, and the last one has at most \<open>C\<close>
  bytes.
\<close>

theorem createFileChunks_partition:
  assumes S: "0 \<le> file_size file" and C: "0 < chunkSize"
  shows "\<exists>chunks. createFileChunks file chunkSize = Some chunks
      \<and> int (length chunks) = \<lceil>real_of_int (file_size file) / real_of_int chunkSize\<rceil>
      \<and> (file_size file = 0 \<longrightarrow> chunks = [])
      \<and> (\<forall>i<length chunks.
            blob_start (chunks ! i) = int i * chunkSize
          \<and> blob_end (chunks ! i) = min (int i * chunkSize + chunkSize) (file_size file)
          \<and> blob_start (chunks ! i) < blob_end (chunks ! i))
      \<and> (chunks \<noteq> [] \<longrightarrow> blob_start (hd chunks) = 0 \<and> blob_end (last chunks) = file_size file)
      \<and> (\<forall>i. Suc i < length chunks \<longrightarrow> blob_end (chunks ! i) = blob_start (chunks ! Suc i))
      \<and> (\<forall>i j. i < j \<longrightarrow> j < length chunks \<longrightarrow>
            {blob_start (chunks ! i)..<blob_end (chunks ! i)}
              \<inter> {blob_start (chunks ! j)..<blob_end (chunks ! j)} = {})
      \<and> (\<Union>c\<in>set chunks. {blob_start c..<blob_end c}) = {0..<file_size file}
      \<and> (\<forall>i. Suc i < length chunks \<longrightarrow>
            blob_end (chunks ! i) - blob_start (chunks ! i) = chunkSize)
      \<and> (chunks \<noteq> [] \<longrightarrow> blob_end (last chunks) - blob_start (last chunks) \<le> chunkSize)"
proof -
  define S where "S = file_size file"
  from createFileChunks_indexed[OF S C] obtain chunks where
    c1: "createFileChunks file chunkSize = Some chunks" and
    kint0: "int (length chunks) = (S + chunkSize - 1) div chunkSize" and
    top0: "S \<le> int (length chunks) * chunkSize" and
    ix: "\<forall>i<length chunks. int i * chunkSize < S
            \<and> blob_start (chunks ! i) = int i * chunkSize
            \<and> blob_end (chunks ! i) = min (int i * chunkSize + chunkSize) S"
    unfolding S_def by blast
  define k where "k = length chunks"
  have len: "length chunks = k" by (simp add: k_def)
  have kint: "int k = (S + chunkSize - 1) div chunkSize" using kint0 len by simp
  have top: "S \<le> int k * chunkSize" using top0 len by simp
  have inside: "int i * chunkSize < S" if "i < k" for i
    using that ix len by simp
  have st: "blob_start (chunks ! i) = int i * chunkSize" if "i < k" for i
    using that ix len by simp
  have en: "blob_end (chunks ! i) = min (int i * chunkSize + chunkSize) S" if "i < k" for i
    using that ix len by simp
  have nonempty: "blob_start (chunks ! i) < blob_end (chunks ! i)" if "i < k" for i
    using st[OF that] en[OF that] inside[OF that] C by simp
  have full: "blob_end (chunks ! i) = int i * chunkSize + chunkSize" if "Suc i < k" for i
  proof -
    have "int (Suc i) * chunkSize < S" using inside[OF that] .
    then have "int i * chunkSize + chunkSize < S" by (simp add: algebra_simps)
    moreover have "i < k" using that by simp
    ultimately show ?thesis using en[of i] by simp
  qed
  have st_mono: "blob_start (chunks ! i) + chunkSize \<le> blob_start (chunks ! j)"
    if "i < j" "j < k" for i j
  proof -
    have "int i + 1 \<le> int j" using that by simp
    then have "(int i + 1) * chunkSize \<le> int j * chunkSize"
      using C by (simp only: mult_right_mono less_imp_le)
    then show ?thesis using st[of i] st[of j] that by (simp add: algebra_simps)
  qed
  have c2: "int (length chunks) = \<lceil>real_of_int S / real_of_int chunkSize\<rceil>"
    using ceiling_div[OF C, of S] kint len by simp
  have c3: "S = 0 \<longrightarrow> chunks = []"
  proof
    assume "S = 0"
    then have "(S + chunkSize - 1) div chunkSize = 0" using C by simp
    then show "chunks = []" using kint len by simp
  qed
  have c4: "\<forall>i<length chunks.
            blob_start (chunks ! i) = int i * chunkSize
          \<and> blob_end (chunks ! i) = min (int i * chunkSize + chunkSize) S
          \<and> blob_start (chunks ! i) < blob_end (chunks ! i)"
    using st en nonempty len by simp
  have c5: "chunks \<noteq> [] \<longrightarrow> blob_start (hd chunks) = 0 \<and> blob_end (last chunks) = S"
  proof
    assume ne: "chunks \<noteq> []"
    then have kpos: "0 < k" using len by auto
    have "hd chunks = chunks ! 0" using ne by (simp add: hd_conv_nth)
    then have h: "blob_start (hd chunks) = 0" using st[OF kpos] by simp
    have l: "last chunks = chunks ! (k - 1)" using ne len by (simp add: last_conv_nth)
    have "int (k - 1) * chunkSize + chunkSize = int k * chunkSize"
      using kpos by (simp add: algebra_simps of_nat_diff)
    then have "blob_end (chunks ! (k - 1)) = S"
      using en[of "k - 1"] kpos top len by simp
    with h l show "blob_start (hd chunks) = 0 \<and> blob_end (last chunks) = S" by simp
  qed
  have c6: "\<forall>i. Suc i < length chunks \<longrightarrow> blob_end (chunks ! i) = blob_start (chunks ! Suc i)"
    using full st len by (simp add: algebra_simps)
  have c7: "\<forall>i j. i < j \<longrightarrow> j < length chunks \<longrightarrow>
            {blob_start (chunks ! i)..<blob_end (chunks ! i)}
              \<inter> {blob_start (chunks ! j)..<blob_end (chunks ! j)} = {}"
  proof (intro allI impI)
    fix i j assume ij: "i < j" "j < length chunks"
    then have "i < k" "j < k" using len by simp_all
    have "blob_end (chunks ! i) \<le> blob_start (chunks ! i) + chunkSize"
      using en[OF \<open>i < k\<close>] st[OF \<open>i < k\<close>] by simp
    also have "\<dots> \<le> blob_start (chunks ! j)" using st_mono[OF ij(1) \<open>j < k\<close>] .
    finally show "{blob_start (chunks ! i)..<blob_end (chunks ! i)}
              \<inter> {blob_start (chunks ! j)..<blob_end (chunks ! j)} = {}" by auto
  qed
  have c8: "(\<Union>c\<in>set chunks. {blob_start c..<blob_end c}) = {0..<S}"
  proof (intro equalityI subsetI)
    fix x assume "x \<in> (\<Union>c\<in>set chunks. {blob_start c..<blob_end c})"
    then obtain i where i: "i < k" "x \<in> {blob_start (chunks ! i)..<blob_end (chunks ! i)}"
      using len by (auto simp: in_set_conv_nth)
    have lo: "0 \<le> int i * chunkSize" using C by simp
    have "int i * chunkSize \<le> x" "x < S" using i st[OF i(1)] en[OF i(1)] by simp_all
    with lo have "0 \<le> x" "x < S" by linarith+
    then show "x \<in> {0..<S}" by simp
  next
    fix x assume x: "x \<in> {0..<S}"
    define i where "i = nat (x div chunkSize)"
    have q: "0 \<le> x div chunkSize" using x C by (simp add: pos_imp_zdiv_nonneg_iff)
    then have ii: "int i = x div chunkSize" by (simp add: i_def)
    have b: "int i * chunkSize \<le> x" "x < int i * chunkSize + chunkSize"
      using div_mod_bounds[OF C, of x] ii by simp_all
    have "int i * chunkSize < S" using b x by simp
    then have ik: "i < k" using index_less_count_iff[OF C, of i S] kint by simp
    have "x \<in> {blob_start (chunks ! i)..<blob_end (chunks ! i)}"
      using st[OF ik] en[OF ik] b x by simp
    moreover have "chunks ! i \<in> set chunks" using ik len by simp
    ultimately show "x \<in> (\<Union>c\<in>set chunks. {blob_start c..<blob_end c})" by blast
  qed
  have c9: "\<forall>i. Suc i < length chunks \<longrightarrow>
            blob_end (chunks ! i) - blob_start (chunks ! i) = chunkSize"
    using full st len by simp
  have c10: "chunks \<noteq> [] \<longrightarrow> blob_end (last chunks) - blob_start (last chunks) \<le> chunkSize"
  proof
    assume ne: "chunks \<noteq> []"
    then have kpos: "0 < k" using len by auto
    have l: "last chunks = chunks ! (k - 1)" using ne len by (simp add: last_conv_nth)
    show "blob_end (last chunks) - blob_start (last chunks) \<le> chunkSize"
      using en[of "k - 1"] st[of "k - 1"] kpos l by simp
  qed
  from c1 c2 c3 c4 c5 c6 c7 c8 c9 c10 show ?thesis
    unfolding S_def by blast
qed

text \<open>A file of 5 bytes cut into chunks of 2 bytes: three ranges, the last of one byte.\<close>

theorem createFileChunks_partition_witness:
  "0 \<le> file_size \<lparr>file_name = ''notes.txt'', file_size = 5, file_type = ''text/plain''\<rparr>
   \<and> (0::int) < 2
   \<and> createFileChunks \<lparr>file_name = ''notes.txt'', file_size = 5, file_type = ''text/plain''\<rparr> 2
       = Some [\<lparr>blob_start = 0, blob_end = 2\<rparr>, \<lparr>blob_start = 2, blob_end = 4\<rparr>,
               \<lparr>blob_start = 4, blob_end = 5\<rparr>]
   \<and> (\<exists>chunks.
         createFileChunks \<lparr>file_name = ''notes.txt'', file_size = 5, file_type = ''text/plain''\<rparr> 2
           = Some chunks
       \<and> int (length chunks) = 3
       \<and> (\<Union>c\<in>set chunks. {blob_start c..<blob_end c}) = {0..<5})"
proof -
  let ?f = "\<lparr>file_name = ''notes.txt'', file_size = 5, file_type = ''text/plain''\<rparr>"
  have h1: "0 \<le> file_size ?f" by simp
  have h2: "(0::int) < 2" by simp
  have ev: "createFileChunks ?f 2
       = Some [\<lparr>blob_start = 0, blob_end = 2\<rparr>, \<lparr>blob_start = 2, blob_end = 4\<rparr>,
               \<lparr>blob_start = 4, blob_end = 5\<rparr>]"
    by code_simp
  have sz: "file_size ?f = 5" by simp
  have cl: "\<lceil>real_of_int 5 / real_of_int 2\<rceil> = (3::int)" by simp
  have ex: "\<exists>chunks. createFileChunks ?f 2 = Some chunks
       \<and> int (length chunks) = \<lceil>real_of_int (file_size ?f) / real_of_int 2\<rceil>
       \<and> (\<Union>c\<in>set chunks. {blob_start c..<blob_end c}) = {0..<file_size ?f}"
    using createFileChunks_partition[OF h1 h2]
    by (elim exE conjE) (intro exI conjI; assumption)
  have ex': "\<exists>chunks. createFileChunks ?f 2 = Some chunks
       \<and> int (length chunks) = 3
       \<and> (\<Union>c\<in>set chunks. {blob_start c..<blob_end c}) = {0..<5}"
    using ex unfolding sz cl .
  show ?thesis by (intro conjI h1 h2 ev ex')
qed

text \<open>
  \<^bold>\<open>Claim C8.\<close>  \<^verbatim>\<open>createFileChunks\<close> is deterministic and cannot fail: the result
  depends on the file only through its size, so two files of the same size (whatever
  their names, types and contents) and the same chunk size give the same outcome, and
  for a positive chunk size this outcome is a list of byte ranges.  The function has no
  \<^verbatim>\<open>throw\<close> and calls nothing that throws; its model has no error value.
\<close>

theorem createFileChunks_deterministic:
  assumes "file_size file1 = file_size file2"
  shows "createFileChunks file1 chunkSize = createFileChunks file2 chunkSize
       \<and> (0 < chunkSize \<longrightarrow>
            (\<exists>chunks. createFileChunks file1 chunkSize = Some chunks
                    \<and> createFileChunks file2 chunkSize = Some chunks))"
proof (cases "0 < chunkSize")
  case True
  then show ?thesis
    using createFileChunks_closed_form[of chunkSize file1]
          createFileChunks_closed_form[of chunkSize file2] assms by simp
next
  case False
  show ?thesis
  proof (cases "0 < file_size file1")
    case True
    then show ?thesis
      using False assms createFileChunks_diverges[of chunkSize file1]
            createFileChunks_diverges[of chunkSize file2] by simp
  next
    case f: False
    then show ?thesis
      using False assms createFileChunks_empty[of file1 chunkSize]
            createFileChunks_empty[of file2 chunkSize] by simp
  qed
qed

text \<open>Two different files of 5 bytes, chunk size 2: the same three ranges.\<close>

theorem createFileChunks_deterministic_witness:
  "file_size \<lparr>file_name = ''a.txt'', file_size = 5, file_type = ''text/plain''\<rparr>
     = file_size \<lparr>file_name = ''b.bin'', file_size = 5, file_type = ''application/octet-stream''\<rparr>
   \<and> \<lparr>file_name = ''a.txt'', file_size = 5, file_type = ''text/plain''\<rparr>
     \<noteq> \<lparr>file_name = ''b.bin'', file_size = 5, file_type = ''application/octet-stream''\<rparr>
   \<and> (0::int) < 2
   \<and> createFileChunks \<lparr>file_name = ''a.txt'', file_size = 5, file_type = ''text/plain''\<rparr> 2
     = createFileChunks
         \<lparr>file_name = ''b.bin'', file_size = 5, file_type = ''application/octet-stream''\<rparr> 2
   \<and> createFileChunks \<lparr>file_name = ''a.txt'', file_size = 5, file_type = ''text/plain''\<rparr> 2
     = Some [\<lparr>blob_start = 0, blob_end = 2\<rparr>, \<lparr>blob_start = 2, blob_end = 4\<rparr>,
             \<lparr>blob_start = 4, blob_end = 5\<rparr>]"
proof -
  let ?a = "\<lparr>file_name = ''a.txt'', file_size = 5, file_type = ''text/plain''\<rparr>"
  let ?b = "\<lparr>file_name = ''b.bin'', file_size = 5, file_type = ''application/octet-stream''\<rparr>"
  have h: "file_size ?a = file_size ?b" by simp
  have ne: "?a \<noteq> ?b" by simp
  have ev: "createFileChunks ?a 2
     = Some [\<lparr>blob_start = 0, blob_end = 2\<rparr>, \<lparr>blob_start = 2, blob_end = 4\<rparr>,
             \<lparr>blob_start = 4, blob_end = 5\<rparr>]"
    by code_simp
  from createFileChunks_deterministic[OF h, of 2]
  have "createFileChunks ?a 2 = createFileChunks ?b 2" by blast
  with h ne ev show ?thesis by simp
qed

text \<open>
  \<^bold>\<open>Claim C9.\<close>  With \<open>S \<ge> 0\<close> and \<open>C \<ge> 1\<close> the loop of \<^verbatim>\<open>createFileChunks\<close> ends.
  Every iteration appends one chunk, so the number of iterations is the length of the
  result, which is at most \<open>S\<close>.  The chunk of an iteration spans from the value of
  \<^verbatim>\<open>start\<close> before the iteration to its value after it: the offset grows by at least 1,
  never exceeds \<open>S\<close>, and the next iteration goes on from it.  With \<open>C \<le> 0\<close> and \<open>S > 0\<close>
  the call does not return.
\<close>

theorem createFileChunks_terminates:
  "(0 \<le> file_size file \<longrightarrow> 1 \<le> chunkSize \<longrightarrow>
      (\<exists>chunks. createFileChunks file chunkSize = Some chunks
         \<and> int (length chunks) \<le> file_size file
         \<and> (\<forall>i<length chunks.
               blob_start (chunks ! i) + 1 \<le> blob_end (chunks ! i)
             \<and> blob_end (chunks ! i) \<le> file_size file)
         \<and> (\<forall>i. Suc i < length chunks \<longrightarrow> blob_start (chunks ! Suc i) = blob_end (chunks ! i))))
   \<and> (chunkSize \<le> 0 \<longrightarrow> 0 < file_size file \<longrightarrow> createFileChunks file chunkSize = None)"
proof (intro conjI impI)
  assume S: "0 \<le> file_size file" and C1: "1 \<le> chunkSize"
  then have C: "0 < chunkSize" by simp
  define S where "S = file_size file"
  from createFileChunks_indexed[OF \<open>0 \<le> file_size file\<close> C] obtain chunks where
    c1: "createFileChunks file chunkSize = Some chunks" and
    ix: "\<forall>i<length chunks. int i * chunkSize < S
            \<and> blob_start (chunks ! i) = int i * chunkSize
            \<and> blob_end (chunks ! i) = min (int i * chunkSize + chunkSize) S"
    unfolding S_def by blast
  have len: "int (length chunks) \<le> S"
  proof (cases "length chunks")
    case 0
    then show ?thesis using S by (simp add: S_def)
  next
    case (Suc m)
    then have "int m * chunkSize < S" using ix by simp
    moreover have "int m * 1 \<le> int m * chunkSize"
      using C1 by (intro mult_left_mono) simp_all
    ultimately show ?thesis using Suc by simp
  qed
  have step: "\<forall>i<length chunks.
               blob_start (chunks ! i) + 1 \<le> blob_end (chunks ! i)
             \<and> blob_end (chunks ! i) \<le> S"
    using ix C1 by auto
  have next_start: "\<forall>i. Suc i < length chunks \<longrightarrow> blob_start (chunks ! Suc i) = blob_end (chunks ! i)"
  proof (intro allI impI)
    fix i assume i: "Suc i < length chunks"
    then have "int (Suc i) * chunkSize < S" using ix by blast
    then have "int i * chunkSize + chunkSize < S" by (simp add: algebra_simps)
    moreover have "i < length chunks" using i by simp
    ultimately show "blob_start (chunks ! Suc i) = blob_end (chunks ! i)"
      using ix i by (simp add: algebra_simps)
  qed
  from c1 len step next_start
  show "\<exists>chunks. createFileChunks file chunkSize = Some chunks
         \<and> int (length chunks) \<le> file_size file
         \<and> (\<forall>i<length chunks.
               blob_start (chunks ! i) + 1 \<le> blob_end (chunks ! i)
             \<and> blob_end (chunks ! i) \<le> file_size file)
         \<and> (\<forall>i. Suc i < length chunks \<longrightarrow> blob_start (chunks ! Suc i) = blob_end (chunks ! i))"
    unfolding S_def by blast
next
  assume "chunkSize \<le> 0" and "0 < file_size file"
  then show "createFileChunks file chunkSize = None"
    by (rule createFileChunks_diverges)
qed

text \<open>
  A file of 5 bytes: chunk size 2 gives a result of at most 5 chunks; chunk sizes 0 and
  \<open>-3\<close> give no result.
\<close>

theorem createFileChunks_terminates_witness:
  "0 \<le> file_size \<lparr>file_name = ''notes.txt'', file_size = 5, file_type = ''text/plain''\<rparr>
   \<and> (1::int) \<le> 2
   \<and> (\<exists>chunks.
         createFileChunks \<lparr>file_name = ''notes.txt'', file_size = 5, file_type = ''text/plain''\<rparr> 2
           = Some chunks
       \<and> int (length chunks) \<le> 5)
   \<and> (0::int) \<le> 0
   \<and> 0 < file_size \<lparr>file_name = ''notes.txt'', file_size = 5, file_type = ''text/plain''\<rparr>
   \<and> createFileChunks \<lparr>file_name = ''notes.txt'', file_size = 5, file_type = ''text/plain''\<rparr> 0
       = None
   \<and> createFileChunks \<lparr>file_name = ''notes.txt'', file_size = 5, file_type = ''text/plain''\<rparr> (- 3)
       = None"
proof -
  let ?f = "\<lparr>file_name = ''notes.txt'', file_size = 5, file_type = ''text/plain''\<rparr>"
  have h1: "0 \<le> file_size ?f" "0 < file_size ?f" by simp_all
  from createFileChunks_terminates[of ?f 2] h1
  have a: "\<exists>chunks. createFileChunks ?f 2 = Some chunks \<and> int (length chunks) \<le> 5"
    by auto
  from createFileChunks_terminates[of ?f 0] h1
  have b: "createFileChunks ?f 0 = None" by simp
  from createFileChunks_terminates[of ?f "- 3"] h1
  have c: "createFileChunks ?f (- 3) = None" by simp
  from a b c h1 show ?thesis by simp
qed

section \<open>Runs of \<^verbatim>\<open>uploadFileInChunks\<close>\<close>

subsection \<open>Sequencing\<close>

lemma io_bind_throw [simp]: "io_bind (t, Inl e) k = (t, Inl e)"
  by (simp add: io_bind_def)

lemma io_bind_return [simp]: "io_bind (t, Inr x) k = (t @ fst (k x), snd (k x))"
  by (simp add: io_bind_def split: prod.splits)

lemma io_catch_return [simp]: "io_catch (t, Inr x) h = (t, Inr x)"
  by (simp add: io_catch_def)

lemma io_catch_throw [simp]: "io_catch (t, Inl e) h = (t @ fst (h e), snd (h e))"
  by (simp add: io_catch_def split: prod.splits)

lemma sent_requests_simps [simp]:
  "sent_requests [] = []"
  "sent_requests (Sent r # es) = r # sent_requests es"
  "sent_requests (Received x # es) = sent_requests es"
  "sent_requests (OnProgress p # es) = sent_requests es"
  "sent_requests (OnSuccess v # es) = sent_requests es"
  "sent_requests (OnError e # es) = sent_requests es"
  "sent_requests (ConsoleError s e # es) = sent_requests es"
  "sent_requests (xs @ ys) = sent_requests xs @ sent_requests ys"
  by (simp_all add: sent_requests_def)

lemma progress_reports_simps [simp]:
  "progress_reports [] = []"
  "progress_reports (Sent r # es) = progress_reports es"
  "progress_reports (Received x # es) = progress_reports es"
  "progress_reports (OnProgress p # es) = p # progress_reports es"
  "progress_reports (OnSuccess v # es) = progress_reports es"
  "progress_reports (OnError e # es) = progress_reports es"
  "progress_reports (ConsoleError s e # es) = progress_reports es"
  "progress_reports (xs @ ys) = progress_reports xs @ progress_reports ys"
  by (simp_all add: progress_reports_def)

lemma chunk_requests_append [simp]:
  "chunk_requests url (xs @ ys) = chunk_requests url xs @ chunk_requests url ys"
  by (simp add: chunk_requests_def)

lemma chunk_requests_Nil [simp]: "chunk_requests url [] = []"
  by (simp add: chunk_requests_def)

lemma success_calls_simps [simp]:
  "success_calls [] = []"
  "success_calls (Sent r # es) = success_calls es"
  "success_calls (Received x # es) = success_calls es"
  "success_calls (OnProgress p # es) = success_calls es"
  "success_calls (OnSuccess v # es) = v # success_calls es"
  "success_calls (OnError e # es) = success_calls es"
  "success_calls (ConsoleError s e # es) = success_calls es"
  "success_calls (xs @ ys) = success_calls xs @ success_calls ys"
  by (simp_all add: success_calls_def)

lemma error_calls_simps [simp]:
  "error_calls [] = []"
  "error_calls (Sent r # es) = error_calls es"
  "error_calls (Received x # es) = error_calls es"
  "error_calls (OnProgress p # es) = error_calls es"
  "error_calls (OnSuccess v # es) = error_calls es"
  "error_calls (OnError e # es) = e # error_calls es"
  "error_calls (ConsoleError s e # es) = error_calls es"
  "error_calls (xs @ ys) = error_calls xs @ error_calls ys"
  by (simp_all add: error_calls_def)

subsection \<open>One iteration of the upload loop\<close>

lemma upload_loop_done:
  assumes "\<not> i < totalChunks"
  shows "upload_loop fetch url headers onProgress uploadId chunks totalChunks i u = ([], Inr u)"
  using assms by (simp add: upload_loop.simps io_return_def)

lemma upload_loop_failed:
  assumes "i < totalChunks"
    and "chunk_outcome i (fetch (chunk_request url headers uploadId (chunks ! i) i)) = Inl e"
  shows "upload_loop fetch url headers onProgress uploadId chunks totalChunks i u =
           (exchange fetch (chunk_request url headers uploadId (chunks ! i) i), Inl e)"
  using assms
  by (simp add: upload_loop.simps[of _ _ _ _ _ _ _ i] await_fetch_def io_throw_def
        chunk_outcome_def chunk_error_def exchange_def io_bind_def
      split: sum.splits if_splits)

lemma upload_loop_callback_throws:
  assumes "i < totalChunks"
    and "chunk_outcome i (fetch (chunk_request url headers uploadId (chunks ! i) i)) = Inr ()"
    and "onProgress (progress_report uploadId totalChunks (u + 1)) = Some e"
  shows "upload_loop fetch url headers onProgress uploadId chunks totalChunks i u =
           (exchange fetch (chunk_request url headers uploadId (chunks ! i) i)
              @ [OnProgress (progress_report uploadId totalChunks (u + 1))], Inl e)"
  using assms
  by (simp add: upload_loop.simps[of _ _ _ _ _ _ _ i] await_fetch_def call_def
        chunk_outcome_def exchange_def io_bind_def
      split: sum.splits if_splits)

lemma upload_loop_continue:
  assumes "i < totalChunks"
    and "chunk_outcome i (fetch (chunk_request url headers uploadId (chunks ! i) i)) = Inr ()"
    and "onProgress (progress_report uploadId totalChunks (u + 1)) = None"
  shows "upload_loop fetch url headers onProgress uploadId chunks totalChunks i u =
           (exchange fetch (chunk_request url headers uploadId (chunks ! i) i)
              @ [OnProgress (progress_report uploadId totalChunks (u + 1))]
              @ fst (upload_loop fetch url headers onProgress uploadId chunks totalChunks
                       (i + 1) (u + 1)),
            snd (upload_loop fetch url headers onProgress uploadId chunks totalChunks
                   (i + 1) (u + 1)))"
  using assms
  by (simp add: upload_loop.simps[of _ _ _ _ _ _ _ i] await_fetch_def call_def
        chunk_outcome_def exchange_def io_bind_def
      split: sum.splits if_splits prod.splits)

lemma chunk_round_exchange:
  "chunk_round fetch url headers uploadId chunks j =
     exchange fetch (chunk_request url headers uploadId (chunks ! j) j)
       @ [OnProgress (progress_report uploadId (length chunks) (j + 1))]"
  by (simp add: chunk_round_def exchange_def)

lemma concat_rounds_Cons:
  assumes "i < m"
  shows "concat (map f [i..<m]) = f i @ concat (map f [Suc i..<m])"
  using assms by (simp add: upt_conv_Cons)

lemma upload_loop_shape:
  assumes "i \<le> length chunks"
  shows "\<exists>m. i \<le> m \<and> m \<le> length chunks
     \<and> (\<forall>j. i \<le> j \<longrightarrow> j < m \<longrightarrow>
            chunk_outcome j (fetch (chunk_request url headers uploadId (chunks ! j) j)) = Inr ()
          \<and> onProgress (progress_report uploadId (length chunks) (j + 1)) = None)
     \<and> ( (m = length chunks
          \<and> upload_loop fetch url headers onProgress uploadId chunks (length chunks) i i =
              (concat (map (chunk_round fetch url headers uploadId chunks) [i..<m]),
               Inr (length chunks)))
        \<or> (m < length chunks
          \<and> (\<exists>e. chunk_outcome m (fetch (chunk_request url headers uploadId (chunks ! m) m)) = Inl e
             \<and> upload_loop fetch url headers onProgress uploadId chunks (length chunks) i i =
                (concat (map (chunk_round fetch url headers uploadId chunks) [i..<m])
                   @ exchange fetch (chunk_request url headers uploadId (chunks ! m) m),
                 Inl e)))
        \<or> (m < length chunks
          \<and> (\<exists>e. chunk_outcome m (fetch (chunk_request url headers uploadId (chunks ! m) m)) = Inr ()
             \<and> onProgress (progress_report uploadId (length chunks) (m + 1)) = Some e
             \<and> upload_loop fetch url headers onProgress uploadId chunks (length chunks) i i =
                (concat (map (chunk_round fetch url headers uploadId chunks) [i..<Suc m]),
                 Inl e))))"
  using assms
proof (induction "length chunks - i" arbitrary: i)
  case 0
  then have i: "i = length chunks" by simp
  show ?case
    by (rule exI[of _ i]) (auto simp: i upload_loop_done)
next
  case (Suc d)
  let ?n = "length chunks"
  let ?req = "\<lambda>j. chunk_request url headers uploadId (chunks ! j) j"
  let ?round = "chunk_round fetch url headers uploadId chunks"
  let ?loop = "upload_loop fetch url headers onProgress uploadId chunks ?n"
  from Suc.hyps have lt: "i < ?n" by simp
  show ?case
  proof (cases "chunk_outcome i (fetch (?req i))")
    case (Inl e)
    show ?thesis
      by (rule exI[of _ i])
         (use lt Inl in \<open>auto simp: upload_loop_failed[where fetch = fetch]\<close>)
  next
    case (Inr u)
    then have acked: "chunk_outcome i (fetch (?req i)) = Inr ()" by simp
    show ?thesis
    proof (cases "onProgress (progress_report uploadId ?n (i + 1))")
      case (Some e)
      show ?thesis
        by (rule exI[of _ i])
           (use lt acked Some in
             \<open>auto simp: upload_loop_callback_throws[where fetch = fetch and onProgress = onProgress]
                 chunk_round_exchange\<close>)
    next
      case None
      have step: "?loop i i = (?round i @ fst (?loop (i + 1) (i + 1)), snd (?loop (i + 1) (i + 1)))"
        using upload_loop_continue[where fetch = fetch and onProgress = onProgress and u = i,
                OF lt acked None]
        by (simp add: chunk_round_exchange)
      have d: "d = ?n - (i + 1)" using Suc.hyps by simp
      have le: "i + 1 \<le> ?n" using lt by simp
      from Suc.hyps(1)[OF d le] obtain m where
        m: "i + 1 \<le> m" "m \<le> ?n" and
        before: "\<forall>j. i + 1 \<le> j \<longrightarrow> j < m \<longrightarrow>
            chunk_outcome j (fetch (?req j)) = Inr ()
          \<and> onProgress (progress_report uploadId ?n (j + 1)) = None" and
        cases: "(m = ?n \<and> ?loop (i + 1) (i + 1) = (concat (map ?round [i + 1..<m]), Inr ?n))
        \<or> (m < ?n \<and> (\<exists>e. chunk_outcome m (fetch (?req m)) = Inl e
             \<and> ?loop (i + 1) (i + 1) =
                (concat (map ?round [i + 1..<m]) @ exchange fetch (?req m), Inl e)))
        \<or> (m < ?n \<and> (\<exists>e. chunk_outcome m (fetch (?req m)) = Inr ()
             \<and> onProgress (progress_report uploadId ?n (m + 1)) = Some e
             \<and> ?loop (i + 1) (i + 1) = (concat (map ?round [i + 1..<Suc m]), Inl e)))"
        by blast
      have im: "i < m" using m by simp
      have before': "\<forall>j. i \<le> j \<longrightarrow> j < m \<longrightarrow>
            chunk_outcome j (fetch (?req j)) = Inr ()
          \<and> onProgress (progress_report uploadId ?n (j + 1)) = None"
      proof (intro allI impI)
        fix j assume j: "i \<le> j" "j < m"
        show "chunk_outcome j (fetch (?req j)) = Inr ()
              \<and> onProgress (progress_report uploadId ?n (j + 1)) = None"
        proof (cases "j = i")
          case True
          then show ?thesis using acked None by simp
        next
          case False
          then have "i + 1 \<le> j" using j by simp
          then show ?thesis using before j by blast
        qed
      qed
      have c1: "concat (map ?round [i..<m]) = ?round i @ concat (map ?round [i + 1..<m])"
        using concat_rounds_Cons[OF im] by simp
      have c2: "concat (map ?round [i..<Suc m]) = ?round i @ concat (map ?round [i + 1..<Suc m])"
        using concat_rounds_Cons[of i "Suc m"] im by simp
      show ?thesis
        apply (rule exI[of _ m])
        using cases im m before' unfolding step c1 c2
        by (elim disjE conjE exE) simp_all
    qed
  qed
qed

lemma upload_chunks_unfold:
  "upload_chunks fetch url file headers metadata onProgress onSuccess chunks =
     (case init_outcome (fetch (init_request url file headers metadata (length chunks))) of
        Inl e \<Rightarrow> (exchange fetch (init_request url file headers metadata (length chunks)), Inl e)
      | Inr uploadId \<Rightarrow>
          (case upload_loop fetch url headers onProgress uploadId chunks (length chunks) 0 0 of
             (t, Inl e) \<Rightarrow>
               (exchange fetch (init_request url file headers metadata (length chunks)) @ t, Inl e)
           | (t, Inr u) \<Rightarrow>
               (case complete_outcome (fetch (complete_request url headers uploadId)) of
                  Inl e \<Rightarrow>
                    (exchange fetch (init_request url file headers metadata (length chunks)) @ t
                       @ exchange fetch (complete_request url headers uploadId), Inl e)
                | Inr v \<Rightarrow>
                    (exchange fetch (init_request url file headers metadata (length chunks)) @ t
                       @ exchange fetch (complete_request url headers uploadId) @ [OnSuccess v],
                     case onSuccess v of None \<Rightarrow> Inr v | Some e \<Rightarrow> Inl e))))"
  by (simp add: upload_chunks_def Let_def init_outcome_def complete_outcome_def exchange_def
        await_fetch_def await_json_def call_def io_throw_def io_return_def io_bind_def
      split: sum.splits prod.splits option.splits)

lemma uploadFileInChunks_unfold:
  assumes "createFileChunks file chunkSize = Some chunks"
  shows "uploadFileInChunks fetch url file headers metadata onProgress onError onSuccess chunkSize =
     Some (case upload_chunks fetch url file headers metadata onProgress onSuccess chunks of
             (t, Inl e) \<Rightarrow> (t @ [OnError e], Inl (rethrown onError e))
           | (t, Inr v) \<Rightarrow> (t, Inr v))"
  using assms
  by (simp add: uploadFileInChunks_def io_catch_def call_def io_throw_def io_bind_def rethrown_def
      split: sum.splits prod.splits option.splits)

lemma upload_run_shape:
  assumes chunks: "createFileChunks file chunkSize = Some chunks"
  shows "\<exists>trace result.
     uploadFileInChunks fetch url file headers metadata onProgress onError onSuccess chunkSize
       = Some (trace, result)
   \<and> ( (\<exists>e. init_outcome (fetch (init_request url file headers metadata (length chunks))) = Inl e
          \<and> trace = exchange fetch (init_request url file headers metadata (length chunks))
                      @ [OnError e]
          \<and> result = Inl (rethrown onError e))
     \<or> (\<exists>uploadId m.
            init_outcome (fetch (init_request url file headers metadata (length chunks)))
              = Inr uploadId
          \<and> m \<le> length chunks
          \<and> (\<forall>j<m. chunk_outcome j (fetch (chunk_request url headers uploadId (chunks ! j) j))
                       = Inr ()
                   \<and> onProgress (progress_report uploadId (length chunks) (j + 1)) = None)
          \<and> ( (m < length chunks
               \<and> (\<exists>e. chunk_outcome m (fetch (chunk_request url headers uploadId (chunks ! m) m))
                         = Inl e
                  \<and> trace = exchange fetch (init_request url file headers metadata (length chunks))
                      @ chunk_rounds fetch url headers uploadId chunks m
                      @ exchange fetch (chunk_request url headers uploadId (chunks ! m) m)
                      @ [OnError e]
                  \<and> result = Inl (rethrown onError e)))
             \<or> (m < length chunks
               \<and> (\<exists>e. chunk_outcome m (fetch (chunk_request url headers uploadId (chunks ! m) m))
                         = Inr ()
                  \<and> onProgress (progress_report uploadId (length chunks) (m + 1)) = Some e
                  \<and> trace = exchange fetch (init_request url file headers metadata (length chunks))
                      @ chunk_rounds fetch url headers uploadId chunks (Suc m)
                      @ [OnError e]
                  \<and> result = Inl (rethrown onError e)))
             \<or> (m = length chunks
               \<and> (\<exists>e. complete_outcome (fetch (complete_request url headers uploadId)) = Inl e
                  \<and> trace = exchange fetch (init_request url file headers metadata (length chunks))
                      @ chunk_rounds fetch url headers uploadId chunks (length chunks)
                      @ exchange fetch (complete_request url headers uploadId)
                      @ [OnError e]
                  \<and> result = Inl (rethrown onError e)))
             \<or> (m = length chunks
               \<and> (\<exists>v e. complete_outcome (fetch (complete_request url headers uploadId)) = Inr v
                  \<and> onSuccess v = Some e
                  \<and> trace = exchange fetch (init_request url file headers metadata (length chunks))
                      @ chunk_rounds fetch url headers uploadId chunks (length chunks)
                      @ exchange fetch (complete_request url headers uploadId)
                      @ [OnSuccess v, OnError e]
                  \<and> result = Inl (rethrown onError e)))
             \<or> (m = length chunks
               \<and> (\<exists>v. complete_outcome (fetch (complete_request url headers uploadId)) = Inr v
                  \<and> onSuccess v = None
                  \<and> trace = exchange fetch (init_request url file headers metadata (length chunks))
                      @ chunk_rounds fetch url headers uploadId chunks (length chunks)
                      @ exchange fetch (complete_request url headers uploadId)
                      @ [OnSuccess v]
                  \<and> result = Inr v)))))"
proof (cases "init_outcome (fetch (init_request url file headers metadata (length chunks)))")
  case (Inl e)
  show ?thesis
    unfolding uploadFileInChunks_unfold[OF chunks] upload_chunks_unfold
    using Inl by simp
next
  case (Inr uploadId)
  let ?n = "length chunks"
  let ?req = "\<lambda>j. chunk_request url headers uploadId (chunks ! j) j"
  let ?loop = "upload_loop fetch url headers onProgress uploadId chunks ?n 0 0"
  from upload_loop_shape[of 0 chunks fetch url headers uploadId onProgress] obtain m where
    m: "m \<le> ?n" and
    before: "\<forall>j<m. chunk_outcome j (fetch (?req j)) = Inr ()
          \<and> onProgress (progress_report uploadId ?n (j + 1)) = None" and
    cases: "(m = ?n \<and> ?loop = (chunk_rounds fetch url headers uploadId chunks m, Inr ?n))
        \<or> (m < ?n \<and> (\<exists>e. chunk_outcome m (fetch (?req m)) = Inl e
             \<and> ?loop = (chunk_rounds fetch url headers uploadId chunks m
                          @ exchange fetch (?req m), Inl e)))
        \<or> (m < ?n \<and> (\<exists>e. chunk_outcome m (fetch (?req m)) = Inr ()
             \<and> onProgress (progress_report uploadId ?n (m + 1)) = Some e
             \<and> ?loop = (chunk_rounds fetch url headers uploadId chunks (Suc m), Inl e)))"
    unfolding chunk_rounds_def by auto
  let ?run = "uploadFileInChunks fetch url file headers metadata onProgress onError onSuccess
                chunkSize"
  let ?init = "exchange fetch (init_request url file headers metadata (length chunks))"
  let ?rounds = "chunk_rounds fetch url headers uploadId chunks"
  let ?complete = "exchange fetch (complete_request url headers uploadId)"
  from cases show ?thesis
  proof (elim disjE conjE exE)
    assume all: "m = ?n" and loop: "?loop = (?rounds m, Inr ?n)"
    show ?thesis
    proof (cases "complete_outcome (fetch (complete_request url headers uploadId))")
      case (Inl e)
      have "?run = Some (?init @ ?rounds ?n @ ?complete @ [OnError e], Inl (rethrown onError e))"
        unfolding uploadFileInChunks_unfold[OF chunks] upload_chunks_unfold
        using Inr loop all Inl by simp
      with Inr all before Inl m show ?thesis by blast
    next
      case v: (Inr v)
      show ?thesis
      proof (cases "onSuccess v")
        case None
        have "?run = Some (?init @ ?rounds ?n @ ?complete @ [OnSuccess v], Inr v)"
          unfolding uploadFileInChunks_unfold[OF chunks] upload_chunks_unfold
          using Inr loop all v None by simp
        with Inr all before v None m show ?thesis by blast
      next
        case (Some e)
        have "?run = Some (?init @ ?rounds ?n @ ?complete @ [OnSuccess v, OnError e],
                           Inl (rethrown onError e))"
          unfolding uploadFileInChunks_unfold[OF chunks] upload_chunks_unfold
          using Inr loop all v Some by simp
        with Inr all before v Some m show ?thesis by blast
      qed
    qed
  next
    fix e
    assume lt: "m < ?n" and out: "chunk_outcome m (fetch (?req m)) = Inl e"
      and loop: "?loop = (?rounds m @ exchange fetch (?req m), Inl e)"
    have "?run = Some (?init @ ?rounds m @ exchange fetch (?req m) @ [OnError e],
                       Inl (rethrown onError e))"
      unfolding uploadFileInChunks_unfold[OF chunks] upload_chunks_unfold
      using Inr loop by simp
    with Inr before m lt out show ?thesis by blast
  next
    fix e
    assume lt: "m < ?n" and out: "chunk_outcome m (fetch (?req m)) = Inr ()"
      and cb: "onProgress (progress_report uploadId ?n (m + 1)) = Some e"
      and loop: "?loop = (?rounds (Suc m), Inl e)"
    have "?run = Some (?init @ ?rounds (Suc m) @ [OnError e], Inl (rethrown onError e))"
      unfolding uploadFileInChunks_unfold[OF chunks] upload_chunks_unfold
      using Inr loop by simp
    with Inr before m lt out cb show ?thesis by blast
  qed
qed

subsection \<open>Projections of the parts of a run\<close>

lemma exchange_projections [simp]:
  "sent_requests (exchange fetch q) = [q]"
  "progress_reports (exchange fetch q) = []"
  "success_calls (exchange fetch q) = []"
  "error_calls (exchange fetch q) = []"
  by (simp_all add: exchange_def)

lemma chunk_round_projections [simp]:
  "sent_requests (chunk_round fetch url headers uploadId chunks j)
     = [chunk_request url headers uploadId (chunks ! j) j]"
  "progress_reports (chunk_round fetch url headers uploadId chunks j)
     = [progress_report uploadId (length chunks) (j + 1)]"
  "success_calls (chunk_round fetch url headers uploadId chunks j) = []"
  "error_calls (chunk_round fetch url headers uploadId chunks j) = []"
  by (simp_all add: chunk_round_def)

lemma chunk_rounds_0 [simp]: "chunk_rounds fetch url headers uploadId chunks 0 = []"
  by (simp add: chunk_rounds_def)

lemma chunk_rounds_Suc:
  "chunk_rounds fetch url headers uploadId chunks (Suc m)
     = chunk_rounds fetch url headers uploadId chunks m
         @ chunk_round fetch url headers uploadId chunks m"
  by (simp add: chunk_rounds_def)

lemma sent_requests_chunk_rounds [simp]:
  "sent_requests (chunk_rounds fetch url headers uploadId chunks m)
     = map (\<lambda>j. chunk_request url headers uploadId (chunks ! j) j) [0..<m]"
  by (induction m) (simp_all add: chunk_rounds_Suc)

lemma progress_reports_chunk_rounds [simp]:
  "progress_reports (chunk_rounds fetch url headers uploadId chunks m)
     = map (progress_report uploadId (length chunks)) [1..<Suc m]"
  by (induction m) (simp_all add: chunk_rounds_Suc)

lemma success_calls_chunk_rounds [simp]:
  "success_calls (chunk_rounds fetch url headers uploadId chunks m) = []"
  by (induction m) (simp_all add: chunk_rounds_Suc)

lemma error_calls_chunk_rounds [simp]:
  "error_calls (chunk_rounds fetch url headers uploadId chunks m) = []"
  by (induction m) (simp_all add: chunk_rounds_Suc)

lemma req_url_simps [simp]:
  "req_url (init_request url file headers metadata n) = url @ ''/init''"
  "req_url (chunk_request url headers uploadId chunk j) = url @ ''/chunk''"
  "req_url (complete_request url headers uploadId) = url @ ''/complete''"
  "req_url (abort_request url headers uploadId) = url @ ''/abort''"
  by (simp_all add: init_request_def chunk_request_def complete_request_def abort_request_def)

lemma chunk_requests_Cons [simp]:
  "chunk_requests url (Sent q # es)
     = (if req_url q = url @ ''/chunk'' then q # chunk_requests url es else chunk_requests url es)"
  "chunk_requests url (Received x # es) = chunk_requests url es"
  "chunk_requests url (OnProgress p # es) = chunk_requests url es"
  "chunk_requests url (OnSuccess v # es) = chunk_requests url es"
  "chunk_requests url (OnError e # es) = chunk_requests url es"
  "chunk_requests url (ConsoleError s e # es) = chunk_requests url es"
  by (simp_all add: chunk_requests_def)

lemma chunk_requests_exchange [simp]:
  "chunk_requests url (exchange fetch q) = (if req_url q = url @ ''/chunk'' then [q] else [])"
  by (simp add: exchange_def)

lemma chunk_requests_chunk_rounds [simp]:
  "chunk_requests url (chunk_rounds fetch url headers uploadId chunks m)
     = map (\<lambda>j. chunk_request url headers uploadId (chunks ! j) j) [0..<m]"
  by (induction m) (simp_all add: chunk_rounds_Suc chunk_round_def)

subsection \<open>Acknowledged chunks\<close>

lemma chunk_outcome_acked:
  "chunk_outcome j settled = Inr () \<longleftrightarrow> (\<exists>r. settled = Inr r \<and> ok r)"
  by (auto simp: chunk_outcome_def split: sum.splits)

lemma chunk_acks_exchange:
  "chunk_acks url (exchange fetch q @ es)
     = (if req_url q = url @ ''/chunk'' \<and> (\<exists>r. fetch q = Inr r \<and> ok r) then 1 else 0)
         + chunk_acks url es"
  by (cases "fetch q") (auto simp: exchange_def)

lemma chunk_acks_callbacks [simp]:
  "chunk_acks url (OnProgress p # es) = chunk_acks url es"
  "chunk_acks url (OnSuccess v # es) = chunk_acks url es"
  "chunk_acks url (OnError e # es) = chunk_acks url es"
  by simp_all

lemma chunk_acks_chunk_round:
  assumes "chunk_outcome j (fetch (chunk_request url headers uploadId (chunks ! j) j)) = Inr ()"
  shows "chunk_acks url (chunk_round fetch url headers uploadId chunks j @ es)
           = 1 + chunk_acks url es"
  using assms chunk_acks_exchange[of url fetch "chunk_request url headers uploadId (chunks ! j) j"
                 "OnProgress (progress_report uploadId (length chunks) (j + 1)) # es"]
  by (simp add: chunk_round_exchange chunk_outcome_acked)

lemma chunk_acks_chunk_rounds:
  assumes "\<forall>j<m. chunk_outcome j (fetch (chunk_request url headers uploadId (chunks ! j) j))
                    = Inr ()"
  shows "chunk_acks url (chunk_rounds fetch url headers uploadId chunks m @ es)
           = m + chunk_acks url es"
  using assms
proof (induction m arbitrary: es)
  case 0
  then show ?case by simp
next
  case (Suc m)
  then show ?case
    by (simp add: chunk_rounds_Suc chunk_acks_chunk_round)
qed

subsection \<open>One request at a time\<close>

lemma one_at_a_time_exchange [simp]:
  "one_at_a_time False (exchange fetch q @ es) = one_at_a_time False es"
  by (simp add: exchange_def)

lemma one_at_a_time_chunk_round [simp]:
  "one_at_a_time False (chunk_round fetch url headers uploadId chunks j @ es)
     = one_at_a_time False es"
  by (simp add: chunk_round_def)

lemma one_at_a_time_chunk_rounds [simp]:
  "one_at_a_time False (chunk_rounds fetch url headers uploadId chunks m @ es)
     = one_at_a_time False es"
  by (induction m arbitrary: es) (simp_all add: chunk_rounds_Suc)

subsection \<open>Runs determined by the environment\<close>

lemma upload_loop_rounds:
  assumes "i \<le> m" and "m \<le> length chunks"
    and "\<forall>j. i \<le> j \<longrightarrow> j < m \<longrightarrow>
            chunk_outcome j (fetch (chunk_request url headers uploadId (chunks ! j) j)) = Inr ()
          \<and> onProgress (progress_report uploadId (length chunks) (j + 1)) = None"
  shows "upload_loop fetch url headers onProgress uploadId chunks (length chunks) i i =
           (concat (map (chunk_round fetch url headers uploadId chunks) [i..<m])
              @ fst (upload_loop fetch url headers onProgress uploadId chunks (length chunks) m m),
            snd (upload_loop fetch url headers onProgress uploadId chunks (length chunks) m m))"
  using assms
proof (induction "m - i" arbitrary: i)
  case 0
  then have "i = m" by simp
  then show ?case by simp
next
  case (Suc d)
  let ?n = "length chunks"
  let ?loop = "upload_loop fetch url headers onProgress uploadId chunks ?n"
  let ?round = "chunk_round fetch url headers uploadId chunks"
  from Suc.hyps have im: "i < m" by simp
  then have lt: "i < ?n" using Suc.prems by simp
  have acked: "chunk_outcome i (fetch (chunk_request url headers uploadId (chunks ! i) i)) = Inr ()"
    and cb: "onProgress (progress_report uploadId ?n (i + 1)) = None"
    using Suc.prems(3) im by auto
  have step: "?loop i i = (?round i @ fst (?loop (i + 1) (i + 1)), snd (?loop (i + 1) (i + 1)))"
    using upload_loop_continue[where fetch = fetch and onProgress = onProgress and u = i,
            OF lt acked cb]
    by (simp add: chunk_round_exchange)
  have d: "d = m - (i + 1)" using Suc.hyps by simp
  have rest: "?loop (i + 1) (i + 1) =
           (concat (map ?round [i + 1..<m]) @ fst (?loop m m), snd (?loop m m))"
    using Suc.hyps(1)[OF d] im Suc.prems by simp
  show ?case
    unfolding step rest using concat_rounds_Cons[OF im, of ?round] by simp
qed

lemma upload_loop_all_acked:
  assumes "\<forall>j<length chunks.
            chunk_outcome j (fetch (chunk_request url headers uploadId (chunks ! j) j)) = Inr ()
          \<and> onProgress (progress_report uploadId (length chunks) (j + 1)) = None"
  shows "upload_loop fetch url headers onProgress uploadId chunks (length chunks) 0 0 =
           (chunk_rounds fetch url headers uploadId chunks (length chunks), Inr (length chunks))"
  using upload_loop_rounds[of 0 "length chunks" chunks fetch url headers uploadId onProgress] assms
  by (simp add: upload_loop_done chunk_rounds_def)

lemma upload_loop_fails_at:
  assumes "i < length chunks"
    and "\<forall>j<i. chunk_outcome j (fetch (chunk_request url headers uploadId (chunks ! j) j)) = Inr ()
          \<and> onProgress (progress_report uploadId (length chunks) (j + 1)) = None"
    and "chunk_outcome i (fetch (chunk_request url headers uploadId (chunks ! i) i)) = Inl e"
  shows "upload_loop fetch url headers onProgress uploadId chunks (length chunks) 0 0 =
           (chunk_rounds fetch url headers uploadId chunks i
              @ exchange fetch (chunk_request url headers uploadId (chunks ! i) i), Inl e)"
  using upload_loop_rounds[of 0 i chunks fetch url headers uploadId onProgress] assms
        upload_loop_failed[where fetch = fetch and onProgress = onProgress and u = i and i = i
          and totalChunks = "length chunks" and chunks = chunks and url = url
          and headers = headers and uploadId = uploadId and e = e]
  by (simp add: chunk_rounds_def)

lemma run_init_failed:
  assumes "createFileChunks file chunkSize = Some chunks"
    and "init_outcome (fetch (init_request url file headers metadata (length chunks))) = Inl e"
  shows "uploadFileInChunks fetch url file headers metadata onProgress onError onSuccess chunkSize
           = Some (exchange fetch (init_request url file headers metadata (length chunks))
                     @ [OnError e],
                   Inl (rethrown onError e))"
  using assms(2) by (simp add: uploadFileInChunks_unfold[OF assms(1)] upload_chunks_unfold)

lemma run_chunk_failed:
  assumes "createFileChunks file chunkSize = Some chunks"
    and "init_outcome (fetch (init_request url file headers metadata (length chunks)))
           = Inr uploadId"
    and "i < length chunks"
    and "\<forall>j<i. chunk_outcome j (fetch (chunk_request url headers uploadId (chunks ! j) j)) = Inr ()
          \<and> onProgress (progress_report uploadId (length chunks) (j + 1)) = None"
    and "chunk_outcome i (fetch (chunk_request url headers uploadId (chunks ! i) i)) = Inl e"
  shows "uploadFileInChunks fetch url file headers metadata onProgress onError onSuccess chunkSize
           = Some (exchange fetch (init_request url file headers metadata (length chunks))
                     @ chunk_rounds fetch url headers uploadId chunks i
                     @ exchange fetch (chunk_request url headers uploadId (chunks ! i) i)
                     @ [OnError e],
                   Inl (rethrown onError e))"
  using assms(2)
    upload_loop_fails_at[where fetch = fetch and onProgress = onProgress, OF assms(3,4,5)]
  by (simp add: uploadFileInChunks_unfold[OF assms(1)] upload_chunks_unfold)

lemma run_succeeded:
  assumes "createFileChunks file chunkSize = Some chunks"
    and "init_outcome (fetch (init_request url file headers metadata (length chunks)))
           = Inr uploadId"
    and "\<forall>j<length chunks.
            chunk_outcome j (fetch (chunk_request url headers uploadId (chunks ! j) j)) = Inr ()
          \<and> onProgress (progress_report uploadId (length chunks) (j + 1)) = None"
    and "complete_outcome (fetch (complete_request url headers uploadId)) = Inr v"
    and "onSuccess v = None"
  shows "uploadFileInChunks fetch url file headers metadata onProgress onError onSuccess chunkSize
           = Some (exchange fetch (init_request url file headers metadata (length chunks))
                     @ chunk_rounds fetch url headers uploadId chunks (length chunks)
                     @ exchange fetch (complete_request url headers uploadId)
                     @ [OnSuccess v],
                   Inr v)"
  using assms(2,4,5)
    upload_loop_all_acked[where fetch = fetch and onProgress = onProgress, OF assms(3)]
  by (simp add: uploadFileInChunks_unfold[OF assms(1)] upload_chunks_unfold)

section \<open>\<^verbatim>\<open>abortChunkedUpload\<close>\<close>

lemma abortChunkedUpload_unfold:
  "abortChunkedUpload fetch url uploadId headers =
     (case fetch (abort_request url headers uploadId) of
        Inl e \<Rightarrow>
          (exchange fetch (abort_request url headers uploadId)
             @ [ConsoleError ''Error aborting upload:'' e], Inl e)
      | Inr response \<Rightarrow>
          if \<not> ok response then
            (exchange fetch (abort_request url headers uploadId)
               @ [ConsoleError ''Error aborting upload:''
                    (Error (''Failed to abort upload: '' @ statusText response))],
             Inl (Error (''Failed to abort upload: '' @ statusText response)))
          else (case body_json response of
                  Inl e \<Rightarrow>
                    (exchange fetch (abort_request url headers uploadId)
                       @ [ConsoleError ''Error aborting upload:'' e], Inl e)
                | Inr v \<Rightarrow> (exchange fetch (abort_request url headers uploadId), Inr v)))"
  by (simp add: abortChunkedUpload_def exchange_def await_fetch_def await_json_def io_throw_def
        io_bind_def io_catch_def
      split: sum.splits prod.splits)

text \<open>
  Claim C4 says that a failed abort request is logged but not passed on to the caller.
  The \<^verbatim>\<open>catch\<close> block of \<^verbatim>\<open>abortChunkedUpload\<close> logs the error and throws it again:
  on a response with status 500 the promise rejects.
\<close>

theorem abort_failure_is_rethrown_counterexample:
  "abortChunkedUpload
     (\<lambda>request. Inr \<lparr>ok = False, statusText = ''Internal Server Error'',
                       body_json = Inr JNull\<rparr>)
     ''/api/upload'' (Val (JStr ''upload-1'')) [(''Authorization'', ''Bearer token'')]
   = ([Sent (abort_request ''/api/upload'' [(''Authorization'', ''Bearer token'')]
               (Val (JStr ''upload-1''))),
       Received (Inr \<lparr>ok = False, statusText = ''Internal Server Error'',
                        body_json = Inr JNull\<rparr>),
       ConsoleError ''Error aborting upload:''
         (Error ''Failed to abort upload: Internal Server Error'')],
      Inl (Error ''Failed to abort upload: Internal Server Error''))"
  by (simp add: abortChunkedUpload_unfold exchange_def)

section \<open>Claims about \<^verbatim>\<open>uploadFileInChunks\<close>\<close>

subsection \<open>The error message names the chunk\<close>

lemma digit_char_inject:
  assumes "a < 10" and "b < 10" and "digit_char a = digit_char b"
  shows "a = b"
proof -
  have "distinct ''0123456789''" by simp
  then show ?thesis
    using assms by (simp add: digit_char_def nth_eq_iff_index_eq)
qed

lemma digit_char_not_colon:
  assumes "a < 10"
  shows "digit_char a \<noteq> CHR '':''"
proof -
  have "digit_char a \<in> set ''0123456789''"
    unfolding digit_char_def using assms by (intro nth_mem) simp
  then show ?thesis by auto
qed

lemma decimal_no_colon: "CHR '':'' \<notin> set (decimal n)"
proof (induction n rule: decimal.induct)
  case (1 n)
  show ?case
  proof (cases "n < 10")
    case True
    then show ?thesis using digit_char_not_colon[of n] by (simp add: decimal.simps[of n])
  next
    case False
    then show ?thesis
      using 1 digit_char_not_colon[of "n mod 10"] by (simp add: decimal.simps[of n])
  qed
qed

lemma decimal_not_Nil: "decimal n \<noteq> []"
  by (simp add: decimal.simps[of n])

lemma decimal_inject: "decimal a = decimal b \<Longrightarrow> a = b"
proof (induction a arbitrary: b rule: decimal.induct)
  case (1 a)
  show ?case
  proof (cases "a < 10")
    case a: True
    show ?thesis
    proof (cases "b < 10")
      case True
      then show ?thesis
        using a "1.prems" digit_char_inject[of a b]
        by (simp add: decimal.simps[of a] decimal.simps[of b])
    next
      case False
      then show ?thesis
        using a "1.prems" decimal_not_Nil[of "b div 10"]
        by (simp add: decimal.simps[of a] decimal.simps[of b])
    qed
  next
    case a: False
    show ?thesis
    proof (cases "b < 10")
      case True
      then show ?thesis
        using a "1.prems" decimal_not_Nil[of "a div 10"]
        by (simp add: decimal.simps[of a] decimal.simps[of b])
    next
      case False
      with a "1.prems" have eq: "decimal (a div 10) = decimal (b div 10)"
        "digit_char (a mod 10) = digit_char (b mod 10)"
        by (simp_all add: decimal.simps[of a] decimal.simps[of b])
      have "a div 10 = b div 10" using "1.IH"[OF a eq(1)] .
      moreover have "a mod 10 = b mod 10"
        using digit_char_inject[OF _ _ eq(2)] by simp
      ultimately show ?thesis by (metis div_mult_mod_eq)
    qed
  qed
qed

lemma split_at_colon:
  assumes "CHR '':'' \<notin> set xs" and "CHR '':'' \<notin> set ys"
    and "xs @ CHR '':'' # r = ys @ CHR '':'' # r'"
  shows "xs = ys"
  using assms
proof (induction xs arbitrary: ys)
  case Nil
  then show ?case by (cases ys) auto
next
  case (Cons x xs)
  then show ?case by (cases ys) auto
qed

lemma chunk_error_inject:
  assumes "chunk_error i r = chunk_error j r'"
  shows "i = j"
proof -
  from assms have "decimal i @ CHR '':'' # CHR '' '' # statusText r
                 = decimal j @ CHR '':'' # CHR '' '' # statusText r'"
    by (simp add: chunk_error_def)
  then have "decimal i = decimal j"
    using split_at_colon[OF decimal_no_colon decimal_no_colon] by blast
  then show ?thesis by (rule decimal_inject)
qed

lemma chunk_message_inject:
  assumes "Error (''Failed to upload chunk '' @ decimal i @ '': '' @ text)
         = Error (''Failed to upload chunk '' @ decimal j @ '': '' @ text')"
  shows "i = j"
proof -
  from assms have "decimal i @ CHR '':'' # CHR '' '' # text
                 = decimal j @ CHR '':'' # CHR '' '' # text'"
    by simp
  then have "decimal i = decimal j"
    using split_at_colon[OF decimal_no_colon decimal_no_colon] by blast
  then show ?thesis by (rule decimal_inject)
qed


subsection \<open>Failure of a chunk\<close>

lemma chunk_request_inject:
  "chunk_request url headers uploadId c j = chunk_request url headers uploadId c' j' \<Longrightarrow> j = j'"
  by (simp add: chunk_request_def)

lemma init_outcome_rejected: "init_outcome (Inl e) = Inl e"
  by (simp add: init_outcome_def)

lemma init_outcome_not_ok:
  "\<not> ok r \<Longrightarrow> init_outcome (Inr r) = Inl (Error (''Failed to initialize upload: '' @ statusText r))"
  by (simp add: init_outcome_def)

lemma chunk_outcome_not_ok: "\<not> ok r \<Longrightarrow> chunk_outcome i (Inr r) = Inl (chunk_error i r)"
  by (simp add: chunk_outcome_def)

lemma complete_outcome_ok: "ok r \<Longrightarrow> complete_outcome (Inr r) = body_json r"
  by (simp add: complete_outcome_def)

text \<open>
  \<^bold>\<open>Claim C3.\<close>  Suppose the run reaches chunk \<open>i\<close> (the session was initialised, the
  chunks before \<open>i\<close> were acknowledged and reported) and the response to the request for
  chunk \<open>i\<close> is not a success.  Then the function throws the error
  \<^verbatim>\<open>Failed to upload chunk i: statusText\<close>, a message that no other index produces; the
  \<^verbatim>\<open>catch\<close> block
  passes it to \<^verbatim>\<open>onError\<close> and the promise rejects with it (with what \<^verbatim>\<open>onError\<close> throws,
  if it throws).  The chunk requests of the run are those for the indices \<open>0, \<dots>, i\<close>,
  once each: no chunk with a higher index is sent, the request for chunk \<open>i\<close> is not
  repeated, and no complete request is sent.
\<close>

theorem chunk_failure_stops_upload:
  assumes chunks: "createFileChunks file chunkSize = Some chunks"
    and init: "init_outcome (fetch (init_request url file headers metadata (length chunks)))
                 = Inr uploadId"
    and i: "i < length chunks"
    and before: "\<forall>j<i.
           chunk_outcome j (fetch (chunk_request url headers uploadId (chunks ! j) j)) = Inr ()
         \<and> onProgress (progress_report uploadId (length chunks) (j + 1)) = None"
    and response: "fetch (chunk_request url headers uploadId (chunks ! i) i) = Inr response"
    and not_ok: "\<not> ok response"
  shows "\<exists>trace error.
      error = Error (''Failed to upload chunk '' @ decimal i @ '': '' @ statusText response)
    \<and> (\<forall>j text. error = Error (''Failed to upload chunk '' @ decimal j @ '': '' @ text)
           \<longrightarrow> j = i)
    \<and> uploadFileInChunks fetch url file headers metadata onProgress onError onSuccess chunkSize
        = Some (trace, Inl (rethrown onError error))
    \<and> trace = exchange fetch (init_request url file headers metadata (length chunks))
              @ chunk_rounds fetch url headers uploadId chunks i
              @ [Sent (chunk_request url headers uploadId (chunks ! i) i),
                 Received (Inr response), OnError error]
    \<and> error_calls trace = [error]
    \<and> chunk_requests url trace
        = map (\<lambda>j. chunk_request url headers uploadId (chunks ! j) j) [0..<Suc i]
    \<and> (\<forall>j>i. chunk_request url headers uploadId (chunks ! j) j \<notin> set (sent_requests trace))
    \<and> count_list (sent_requests trace) (chunk_request url headers uploadId (chunks ! i) i) = 1
    \<and> (\<forall>q\<in>set (sent_requests trace). req_url q \<noteq> url @ ''/complete'')"
proof -
  let ?req = "\<lambda>j. chunk_request url headers uploadId (chunks ! j) j"
  let ?init = "init_request url file headers metadata (length chunks)"
  define error where "error = chunk_error i response"
  define trace where "trace = exchange fetch ?init
              @ chunk_rounds fetch url headers uploadId chunks i
              @ exchange fetch (?req i) @ [OnError error]"
  have out: "chunk_outcome i (fetch (?req i)) = Inl error"
    using response not_ok by (simp add: chunk_outcome_not_ok error_def)
  have run: "uploadFileInChunks fetch url file headers metadata onProgress onError onSuccess
               chunkSize = Some (trace, Inl (rethrown onError error))"
    unfolding trace_def
    by (rule run_chunk_failed[where fetch = fetch and onProgress = onProgress,
              OF chunks init i before out])
  have e: "error = Error (''Failed to upload chunk '' @ decimal i @ '': '' @ statusText response)"
    by (simp add: error_def chunk_error_def)
  have ident: "\<forall>j text. error = Error (''Failed to upload chunk '' @ decimal j @ '': '' @ text)
           \<longrightarrow> j = i"
    unfolding e using chunk_message_inject by blast
  have t: "trace = exchange fetch ?init @ chunk_rounds fetch url headers uploadId chunks i
              @ [Sent (?req i), Received (Inr response), OnError error]"
    by (simp add: trace_def exchange_def response)
  have ec: "error_calls trace = [error]" by (simp add: trace_def)
  have sent: "sent_requests trace = ?init # map ?req [0..<i] @ [?req i]"
    by (simp add: trace_def)
  have cr: "chunk_requests url trace = map ?req [0..<Suc i]"
    by (simp add: trace_def)
  have init_ne: "?init \<noteq> ?req j" for j
  proof
    assume "?init = ?req j"
    then have "req_url ?init = req_url (?req j)" by simp
    then show False by simp
  qed
  have higher: "\<forall>j>i. ?req j \<notin> set (sent_requests trace)"
  proof (intro allI impI)
    fix j assume "i < j"
    then show "?req j \<notin> set (sent_requests trace)"
      using init_ne[of j] unfolding sent by (auto dest!: chunk_request_inject)
  qed
  have "count_list (map ?req [0..<i]) (?req i) = 0"
    by (auto simp: count_list_0_iff dest!: chunk_request_inject)
  then have once: "count_list (sent_requests trace) (?req i) = 1"
    using init_ne[of i] unfolding sent by simp
  have nocomplete: "\<forall>q\<in>set (sent_requests trace). req_url q \<noteq> url @ ''/complete''"
    unfolding sent by auto
  show ?thesis
    by (rule exI[of _ trace], rule exI[of _ error])
       (intro conjI e ident run t ec cr higher once nocomplete)
qed

lemma example_chunks:
  "createFileChunks example_file DEFAULT_CHUNK_SIZE
     = Some [\<lparr>blob_start = 0, blob_end = 1048576\<rparr>,
             \<lparr>blob_start = 1048576, blob_end = 2097152\<rparr>,
             \<lparr>blob_start = 2097152, blob_end = 2621440\<rparr>]"
  by code_simp

lemma rethrown_no_callback [simp]: "rethrown no_callback e = e"
  by (simp add: rethrown_def no_callback_def)

lemma decimal_digit: "n < 10 \<Longrightarrow> decimal n = [digit_char n]"
  by (simp add: decimal.simps)

text \<open>
  The example server rejecting chunk 1 of the three chunks of the example file: the run
  fails with \<^verbatim>\<open>Failed to upload chunk 1: Internal Server Error\<close> after the requests for
  chunks 0 and 1.
\<close>

theorem chunk_failure_stops_upload_witness:
  "createFileChunks example_file DEFAULT_CHUNK_SIZE
     = Some [\<lparr>blob_start = 0, blob_end = 1048576\<rparr>,
             \<lparr>blob_start = 1048576, blob_end = 2097152\<rparr>,
             \<lparr>blob_start = 2097152, blob_end = 2621440\<rparr>]
   \<and> init_outcome (example_server (Some 1)
         (init_request ''/api/upload'' example_file [] (JObj []) 3))
       = Inr (Val (JStr ''upload-1''))
   \<and> chunk_outcome 0 (example_server (Some 1)
         (chunk_request ''/api/upload'' [] (Val (JStr ''upload-1''))
            \<lparr>blob_start = 0, blob_end = 1048576\<rparr> 0)) = Inr ()
   \<and> example_server (Some 1)
         (chunk_request ''/api/upload'' [] (Val (JStr ''upload-1''))
            \<lparr>blob_start = 1048576, blob_end = 2097152\<rparr> 1) = Inr error_response
   \<and> \<not> ok error_response
   \<and> (\<exists>trace.
         uploadFileInChunks (example_server (Some 1)) ''/api/upload'' example_file [] (JObj [])
           no_callback no_callback no_callback DEFAULT_CHUNK_SIZE
           = Some (trace, Inl (Error ''Failed to upload chunk 1: Internal Server Error''))
       \<and> error_calls trace = [Error ''Failed to upload chunk 1: Internal Server Error'']
       \<and> chunk_requests ''/api/upload'' trace
           = [chunk_request ''/api/upload'' [] (Val (JStr ''upload-1''))
                \<lparr>blob_start = 0, blob_end = 1048576\<rparr> 0,
              chunk_request ''/api/upload'' [] (Val (JStr ''upload-1''))
                \<lparr>blob_start = 1048576, blob_end = 2097152\<rparr> 1])"
proof -
  let ?chunks = "[\<lparr>blob_start = 0, blob_end = 1048576\<rparr>,
             \<lparr>blob_start = 1048576, blob_end = 2097152\<rparr>,
             \<lparr>blob_start = 2097152, blob_end = 2621440\<rparr>]"
  let ?fetch = "example_server (Some 1)"
  let ?id = "Val (JStr ''upload-1'')"
  have h2: "init_outcome (?fetch (init_request ''/api/upload'' example_file [] (JObj []) 3)) = Inr ?id"
    by code_simp
  have h2': "init_outcome (?fetch (init_request ''/api/upload'' example_file [] (JObj [])
               (length ?chunks))) = Inr ?id"
    by code_simp
  have h3: "1 < length ?chunks" by simp
  have h4: "chunk_outcome 0 (?fetch (chunk_request ''/api/upload'' [] ?id
               \<lparr>blob_start = 0, blob_end = 1048576\<rparr> 0)) = Inr ()"
    by code_simp
  have h4': "\<forall>j<1. chunk_outcome j (?fetch (chunk_request ''/api/upload'' [] ?id (?chunks ! j) j))
                 = Inr ()
               \<and> no_callback (progress_report ?id (length ?chunks) (j + 1)) = None"
  proof (intro allI impI)
    fix j :: nat assume "j < 1"
    then have j: "j = 0" by simp
    show "chunk_outcome j (?fetch (chunk_request ''/api/upload'' [] ?id (?chunks ! j) j)) = Inr ()
               \<and> no_callback (progress_report ?id (length ?chunks) (j + 1)) = None"
      unfolding j by code_simp
  qed
  have h5: "?fetch (chunk_request ''/api/upload'' [] ?id
               \<lparr>blob_start = 1048576, blob_end = 2097152\<rparr> 1) = Inr error_response"
    by code_simp
  have h5': "?fetch (chunk_request ''/api/upload'' [] ?id (?chunks ! 1) 1) = Inr error_response"
    by code_simp
  have h6: "\<not> ok error_response" by (simp add: error_response_def)
  have msg: "Error (''Failed to upload chunk '' @ decimal 1 @ '': '' @ statusText error_response)
               = Error ''Failed to upload chunk 1: Internal Server Error''"
    by code_simp
  have reqs: "map (\<lambda>j. chunk_request ''/api/upload'' [] ?id (?chunks ! j) j) [0..<Suc 1]
      = [chunk_request ''/api/upload'' [] ?id \<lparr>blob_start = 0, blob_end = 1048576\<rparr> 0,
         chunk_request ''/api/upload'' [] ?id \<lparr>blob_start = 1048576, blob_end = 2097152\<rparr> 1]"
    by code_simp
  have ex: "\<exists>trace error.
      error = Error (''Failed to upload chunk '' @ decimal 1 @ '': '' @ statusText error_response)
    \<and> uploadFileInChunks ?fetch ''/api/upload'' example_file [] (JObj [])
           no_callback no_callback no_callback DEFAULT_CHUNK_SIZE
        = Some (trace, Inl (rethrown no_callback error))
    \<and> error_calls trace = [error]
    \<and> chunk_requests ''/api/upload'' trace
        = map (\<lambda>j. chunk_request ''/api/upload'' [] ?id (?chunks ! j) j) [0..<Suc 1]"
    using chunk_failure_stops_upload[where fetch = ?fetch and onProgress = no_callback
            and onError = no_callback and onSuccess = no_callback,
            OF example_chunks h2' h3 h4' h5' h6]
    by (elim exE conjE) (intro exI conjI; assumption)
  have ex': "\<exists>trace.
         uploadFileInChunks ?fetch ''/api/upload'' example_file [] (JObj [])
           no_callback no_callback no_callback DEFAULT_CHUNK_SIZE
           = Some (trace, Inl (Error ''Failed to upload chunk 1: Internal Server Error''))
       \<and> error_calls trace = [Error ''Failed to upload chunk 1: Internal Server Error'']
       \<and> chunk_requests ''/api/upload'' trace
           = [chunk_request ''/api/upload'' [] ?id \<lparr>blob_start = 0, blob_end = 1048576\<rparr> 0,
              chunk_request ''/api/upload'' [] ?id
                \<lparr>blob_start = 1048576, blob_end = 2097152\<rparr> 1]"
    using ex unfolding msg reqs rethrown_no_callback by (elim exE conjE) (intro exI conjI; simp)
  show ?thesis by (intro conjI example_chunks h2 h4 h5 h6 ex')
qed

lemma upload_run_cases
  [consumes 2, case_names init_failed chunk_failed progress_threw complete_failed
     success_threw succeeded]:
  assumes chunks: "createFileChunks file chunkSize = Some chunks"
    and run: "uploadFileInChunks fetch url file headers metadata onProgress onError onSuccess
                chunkSize = Some (trace, result)"
    and init_failed: "\<And>e.
        init_outcome (fetch (init_request url file headers metadata (length chunks))) = Inl e \<Longrightarrow>
        trace = exchange fetch (init_request url file headers metadata (length chunks))
                  @ [OnError e] \<Longrightarrow>
        result = Inl (rethrown onError e) \<Longrightarrow> P"
    and chunk_failed: "\<And>uploadId m e.
        init_outcome (fetch (init_request url file headers metadata (length chunks)))
          = Inr uploadId \<Longrightarrow>
        m < length chunks \<Longrightarrow>
        \<forall>j<m. chunk_outcome j (fetch (chunk_request url headers uploadId (chunks ! j) j)) = Inr ()
              \<and> onProgress (progress_report uploadId (length chunks) (j + 1)) = None \<Longrightarrow>
        chunk_outcome m (fetch (chunk_request url headers uploadId (chunks ! m) m)) = Inl e \<Longrightarrow>
        trace = exchange fetch (init_request url file headers metadata (length chunks))
                  @ chunk_rounds fetch url headers uploadId chunks m
                  @ exchange fetch (chunk_request url headers uploadId (chunks ! m) m)
                  @ [OnError e] \<Longrightarrow>
        result = Inl (rethrown onError e) \<Longrightarrow> P"
    and progress_threw: "\<And>uploadId m e.
        init_outcome (fetch (init_request url file headers metadata (length chunks)))
          = Inr uploadId \<Longrightarrow>
        m < length chunks \<Longrightarrow>
        \<forall>j<m. chunk_outcome j (fetch (chunk_request url headers uploadId (chunks ! j) j)) = Inr ()
              \<and> onProgress (progress_report uploadId (length chunks) (j + 1)) = None \<Longrightarrow>
        chunk_outcome m (fetch (chunk_request url headers uploadId (chunks ! m) m)) = Inr () \<Longrightarrow>
        onProgress (progress_report uploadId (length chunks) (m + 1)) = Some e \<Longrightarrow>
        trace = exchange fetch (init_request url file headers metadata (length chunks))
                  @ chunk_rounds fetch url headers uploadId chunks (Suc m)
                  @ [OnError e] \<Longrightarrow>
        result = Inl (rethrown onError e) \<Longrightarrow> P"
    and complete_failed: "\<And>uploadId e.
        init_outcome (fetch (init_request url file headers metadata (length chunks)))
          = Inr uploadId \<Longrightarrow>
        \<forall>j<length chunks.
              chunk_outcome j (fetch (chunk_request url headers uploadId (chunks ! j) j)) = Inr ()
              \<and> onProgress (progress_report uploadId (length chunks) (j + 1)) = None \<Longrightarrow>
        complete_outcome (fetch (complete_request url headers uploadId)) = Inl e \<Longrightarrow>
        trace = exchange fetch (init_request url file headers metadata (length chunks))
                  @ chunk_rounds fetch url headers uploadId chunks (length chunks)
                  @ exchange fetch (complete_request url headers uploadId)
                  @ [OnError e] \<Longrightarrow>
        result = Inl (rethrown onError e) \<Longrightarrow> P"
    and success_threw: "\<And>uploadId v e.
        init_outcome (fetch (init_request url file headers metadata (length chunks)))
          = Inr uploadId \<Longrightarrow>
        \<forall>j<length chunks.
              chunk_outcome j (fetch (chunk_request url headers uploadId (chunks ! j) j)) = Inr ()
              \<and> onProgress (progress_report uploadId (length chunks) (j + 1)) = None \<Longrightarrow>
        complete_outcome (fetch (complete_request url headers uploadId)) = Inr v \<Longrightarrow>
        onSuccess v = Some e \<Longrightarrow>
        trace = exchange fetch (init_request url file headers metadata (length chunks))
                  @ chunk_rounds fetch url headers uploadId chunks (length chunks)
                  @ exchange fetch (complete_request url headers uploadId)
                  @ [OnSuccess v, OnError e] \<Longrightarrow>
        result = Inl (rethrown onError e) \<Longrightarrow> P"
    and succeeded: "\<And>uploadId v.
        init_outcome (fetch (init_request url file headers metadata (length chunks)))
          = Inr uploadId \<Longrightarrow>
        \<forall>j<length chunks.
              chunk_outcome j (fetch (chunk_request url headers uploadId (chunks ! j) j)) = Inr ()
              \<and> onProgress (progress_report uploadId (length chunks) (j + 1)) = None \<Longrightarrow>
        complete_outcome (fetch (complete_request url headers uploadId)) = Inr v \<Longrightarrow>
        onSuccess v = None \<Longrightarrow>
        trace = exchange fetch (init_request url file headers metadata (length chunks))
                  @ chunk_rounds fetch url headers uploadId chunks (length chunks)
                  @ exchange fetch (complete_request url headers uploadId)
                  @ [OnSuccess v] \<Longrightarrow>
        result = Inr v \<Longrightarrow> P"
  shows P
proof -
  from upload_run_shape[OF chunks, of fetch url headers metadata onProgress onError onSuccess]
  obtain trace' result' where
    run': "uploadFileInChunks fetch url file headers metadata onProgress onError onSuccess
             chunkSize = Some (trace', result')" and
    shape: "(\<exists>e. init_outcome (fetch (init_request url file headers metadata (length chunks))) = Inl e
          \<and> trace' = exchange fetch (init_request url file headers metadata (length chunks))
                      @ [OnError e]
          \<and> result' = Inl (rethrown onError e))
     \<or> (\<exists>uploadId m.
            init_outcome (fetch (init_request url file headers metadata (length chunks)))
              = Inr uploadId
          \<and> m \<le> length chunks
          \<and> (\<forall>j<m. chunk_outcome j (fetch (chunk_request url headers uploadId (chunks ! j) j))
                       = Inr ()
                   \<and> onProgress (progress_report uploadId (length chunks) (j + 1)) = None)
          \<and> ( (m < length chunks
               \<and> (\<exists>e. chunk_outcome m (fetch (chunk_request url headers uploadId (chunks ! m) m))
                         = Inl e
                  \<and> trace' = exchange fetch (init_request url file headers metadata (length chunks))
                      @ chunk_rounds fetch url headers uploadId chunks m
                      @ exchange fetch (chunk_request url headers uploadId (chunks ! m) m)
                      @ [OnError e]
                  \<and> result' = Inl (rethrown onError e)))
             \<or> (m < length chunks
               \<and> (\<exists>e. chunk_outcome m (fetch (chunk_request url headers uploadId (chunks ! m) m))
                         = Inr ()
                  \<and> onProgress (progress_report uploadId (length chunks) (m + 1)) = Some e
                  \<and> trace' = exchange fetch (init_request url file headers metadata (length chunks))
                      @ chunk_rounds fetch url headers uploadId chunks (Suc m)
                      @ [OnError e]
                  \<and> result' = Inl (rethrown onError e)))
             \<or> (m = length chunks
               \<and> (\<exists>e. complete_outcome (fetch (complete_request url headers uploadId)) = Inl e
                  \<and> trace' = exchange fetch (init_request url file headers metadata (length chunks))
                      @ chunk_rounds fetch url headers uploadId chunks (length chunks)
                      @ exchange fetch (complete_request url headers uploadId)
                      @ [OnError e]
                  \<and> result' = Inl (rethrown onError e)))
             \<or> (m = length chunks
               \<and> (\<exists>v e. complete_outcome (fetch (complete_request url headers uploadId)) = Inr v
                  \<and> onSuccess v = Some e
                  \<and> trace' = exchange fetch (init_request url file headers metadata (length chunks))
                      @ chunk_rounds fetch url headers uploadId chunks (length chunks)
                      @ exchange fetch (complete_request url headers uploadId)
                      @ [OnSuccess v, OnError e]
                  \<and> result' = Inl (rethrown onError e)))
             \<or> (m = length chunks
               \<and> (\<exists>v. complete_outcome (fetch (complete_request url headers uploadId)) = Inr v
                  \<and> onSuccess v = None
                  \<and> trace' = exchange fetch (init_request url file headers metadata (length chunks))
                      @ chunk_rounds fetch url headers uploadId chunks (length chunks)
                      @ exchange fetch (complete_request url headers uploadId)
                      @ [OnSuccess v]
                  \<and> result' = Inr v))))"
    by (elim exE conjE) (rule that; assumption)
  from run run' have eq: "trace' = trace" "result' = result" by simp_all
  from shape show P
    unfolding eq
  proof (elim disjE exE conjE)
    fix e
    assume "init_outcome (fetch (init_request url file headers metadata (length chunks))) = Inl e"
      "trace = exchange fetch (init_request url file headers metadata (length chunks)) @ [OnError e]"
      "result = Inl (rethrown onError e)"
    then show P by (rule init_failed)
  next
    fix uploadId m e
    assume "init_outcome (fetch (init_request url file headers metadata (length chunks)))
              = Inr uploadId"
      "m < length chunks"
      "\<forall>j<m. chunk_outcome j (fetch (chunk_request url headers uploadId (chunks ! j) j)) = Inr ()
              \<and> onProgress (progress_report uploadId (length chunks) (j + 1)) = None"
      "chunk_outcome m (fetch (chunk_request url headers uploadId (chunks ! m) m)) = Inl e"
      "trace = exchange fetch (init_request url file headers metadata (length chunks))
                  @ chunk_rounds fetch url headers uploadId chunks m
                  @ exchange fetch (chunk_request url headers uploadId (chunks ! m) m)
                  @ [OnError e]"
      "result = Inl (rethrown onError e)"
    then show P by (rule chunk_failed)
  next
    fix uploadId m e
    assume "init_outcome (fetch (init_request url file headers metadata (length chunks)))
              = Inr uploadId"
      "m < length chunks"
      "\<forall>j<m. chunk_outcome j (fetch (chunk_request url headers uploadId (chunks ! j) j)) = Inr ()
              \<and> onProgress (progress_report uploadId (length chunks) (j + 1)) = None"
      "chunk_outcome m (fetch (chunk_request url headers uploadId (chunks ! m) m)) = Inr ()"
      "onProgress (progress_report uploadId (length chunks) (m + 1)) = Some e"
      "trace = exchange fetch (init_request url file headers metadata (length chunks))
                  @ chunk_rounds fetch url headers uploadId chunks (Suc m)
                  @ [OnError e]"
      "result = Inl (rethrown onError e)"
    then show P by (rule progress_threw)
  next
    fix uploadId m e
    assume "init_outcome (fetch (init_request url file headers metadata (length chunks)))
              = Inr uploadId"
      "m = length chunks"
      "\<forall>j<m. chunk_outcome j (fetch (chunk_request url headers uploadId (chunks ! j) j)) = Inr ()
              \<and> onProgress (progress_report uploadId (length chunks) (j + 1)) = None"
      "complete_outcome (fetch (complete_request url headers uploadId)) = Inl e"
      "trace = exchange fetch (init_request url file headers metadata (length chunks))
                  @ chunk_rounds fetch url headers uploadId chunks (length chunks)
                  @ exchange fetch (complete_request url headers uploadId)
                  @ [OnError e]"
      "result = Inl (rethrown onError e)"
    then show P using complete_failed[of uploadId e] by simp
  next
    fix uploadId m v e
    assume "init_outcome (fetch (init_request url file headers metadata (length chunks)))
              = Inr uploadId"
      "m = length chunks"
      "\<forall>j<m. chunk_outcome j (fetch (chunk_request url headers uploadId (chunks ! j) j)) = Inr ()
              \<and> onProgress (progress_report uploadId (length chunks) (j + 1)) = None"
      "complete_outcome (fetch (complete_request url headers uploadId)) = Inr v"
      "onSuccess v = Some e"
      "trace = exchange fetch (init_request url file headers metadata (length chunks))
                  @ chunk_rounds fetch url headers uploadId chunks (length chunks)
                  @ exchange fetch (complete_request url headers uploadId)
                  @ [OnSuccess v, OnError e]"
      "result = Inl (rethrown onError e)"
    then show P using success_threw[of uploadId v e] by simp
  next
    fix uploadId m v
    assume "init_outcome (fetch (init_request url file headers metadata (length chunks)))
              = Inr uploadId"
      "m = length chunks"
      "\<forall>j<m. chunk_outcome j (fetch (chunk_request url headers uploadId (chunks ! j) j)) = Inr ()
              \<and> onProgress (progress_report uploadId (length chunks) (j + 1)) = None"
      "complete_outcome (fetch (complete_request url headers uploadId)) = Inr v"
      "onSuccess v = None"
      "trace = exchange fetch (init_request url file headers metadata (length chunks))
                  @ chunk_rounds fetch url headers uploadId chunks (length chunks)
                  @ exchange fetch (complete_request url headers uploadId)
                  @ [OnSuccess v]"
      "result = Inr v"
    then show P using succeeded[of uploadId v] by simp
  qed
qed

lemma init_outcome_Inr:
  "init_outcome settled = Inr uploadId \<longleftrightarrow>
     (\<exists>initResponse initBody. settled = Inr initResponse \<and> ok initResponse
        \<and> body_json initResponse = Inr initBody
        \<and> destructure initBody ''uploadId'' = Inr uploadId)"
  by (auto simp: init_outcome_def split: sum.splits)

lemma map_upt_snoc: "map f [0..<m] @ [f m] = map f [0..<Suc m]"
  by simp

lemma form_field_chunk_request [simp]:
  "form_field ''chunk'' (chunk_request url headers uploadId chunk j) = Some (BlobValue chunk)"
  "form_field ''chunkIndex'' (chunk_request url headers uploadId chunk j)
     = Some (OtherValue (Val (JNum (int j))))"
  "form_field ''uploadId'' (chunk_request url headers uploadId chunk j)
     = Some (OtherValue uploadId)"
  by (simp_all add: form_field_def chunk_request_def)

lemma destructure_Inr:
  "destructure initBody key = Inr uploadId \<longleftrightarrow>
     initBody \<noteq> JNull
   \<and> uploadId = (case initBody of
                   JObj props \<Rightarrow> (case map_of props key of None \<Rightarrow> Undefined | Some v \<Rightarrow> Val v)
                 | _ \<Rightarrow> Undefined)"
  by (cases initBody) auto

lemma started_run_sends_first_chunk:
  assumes chunks: "createFileChunks file chunkSize = Some chunks"
    and run: "uploadFileInChunks fetch url file headers metadata onProgress onError onSuccess
                chunkSize = Some (trace, result)"
    and init: "init_outcome (fetch (init_request url file headers metadata (length chunks)))
                 = Inr uploadId"
    and nonempty: "chunks \<noteq> []"
  shows "\<exists>m. 0 < m \<and> m \<le> length chunks
     \<and> chunk_requests url trace
         = map (\<lambda>j. chunk_request url headers uploadId (chunks ! j) j) [0..<m]"
  using chunks run
proof (cases rule: upload_run_cases)
  case (init_failed e)
  with init show ?thesis by simp
next
  case (chunk_failed u m e)
  from chunk_failed(1) init have u: "u = uploadId" by simp
  show ?thesis
    by (rule exI[of _ "Suc m"]) (use chunk_failed(2,5) in \<open>simp add: u\<close>)
next
  case (progress_threw u m e)
  from progress_threw(1) init have u: "u = uploadId" by simp
  show ?thesis
    by (rule exI[of _ "Suc m"]) (use progress_threw(2,6) in \<open>simp add: u\<close>)
next
  case (complete_failed u e)
  from complete_failed(1) init have u: "u = uploadId" by simp
  show ?thesis
    by (rule exI[of _ "length chunks"]) (use nonempty complete_failed(4) in \<open>simp add: u\<close>)
next
  case (success_threw u v e)
  from success_threw(1) init have u: "u = uploadId" by simp
  show ?thesis
    by (rule exI[of _ "length chunks"]) (use nonempty success_threw(5) in \<open>simp add: u\<close>)
next
  case (succeeded u v)
  from succeeded(1) init have u: "u = uploadId" by simp
  show ?thesis
    by (rule exI[of _ "length chunks"]) (use nonempty succeeded(5) in \<open>simp add: u\<close>)
qed

text \<open>
  Claim C7 says that chunks are sent only after a valid session identifier has been
  obtained from the init response.  The function takes the \<^verbatim>\<open>uploadId\<close> property of the
  body of the init response and does not look at it: when the init request is answered
  with a success whose body has no \<^verbatim>\<open>uploadId\<close>, all chunks are sent with the
  \<^verbatim>\<open>uploadId\<close> \<^verbatim>\<open>undefined\<close>, and the upload resolves.
\<close>

theorem chunks_sent_without_uploadId_counterexample:
  "uploadFileInChunks lax_server ''/api/upload'' example_file [] (JObj [])
     no_callback no_callback no_callback DEFAULT_CHUNK_SIZE
   = Some ([Sent (init_request ''/api/upload'' example_file [] (JObj []) 3),
            Received (Inr (ok_response (JObj [(''session'', JNum 7)]))),
            Sent (chunk_request ''/api/upload'' [] Undefined
                    \<lparr>blob_start = 0, blob_end = 1048576\<rparr> 0),
            Received (Inr (ok_response (JObj []))),
            OnProgress \<lparr>p_uploadId = Undefined, p_totalChunks = 3,
                         p_uploadedChunks = 1, p_progress = 33\<rparr>,
            Sent (chunk_request ''/api/upload'' [] Undefined
                    \<lparr>blob_start = 1048576, blob_end = 2097152\<rparr> 1),
            Received (Inr (ok_response (JObj []))),
            OnProgress \<lparr>p_uploadId = Undefined, p_totalChunks = 3,
                         p_uploadedChunks = 2, p_progress = 67\<rparr>,
            Sent (chunk_request ''/api/upload'' [] Undefined
                    \<lparr>blob_start = 2097152, blob_end = 2621440\<rparr> 2),
            Received (Inr (ok_response (JObj []))),
            OnProgress \<lparr>p_uploadId = Undefined, p_totalChunks = 3,
                         p_uploadedChunks = 3, p_progress = 100\<rparr>,
            Sent (complete_request ''/api/upload'' [] Undefined),
            Received (Inr (ok_response example_artifact)),
            OnSuccess example_artifact],
           Inr example_artifact)"
  by code_simp

text \<open>
  \<^bold>\<open>Claim C7, amended.\<close>  If the init request fails, by a transport failure (the \<^verbatim>\<open>fetch\<close>
  promise rejects) or by a response that is not a success, the run consists of the init
  request, its outcome and the call of \<^verbatim>\<open>onError\<close>; the promise rejects with the error of
  the transport as it is, or with \<^verbatim>\<open>Failed to initialize upload: statusText\<close>, and no
  chunk request is sent.  In every run that sends a chunk request, the init request came
  first, its response was a success whose JSON body was read and is not \<^verbatim>\<open>null\<close>, and
  every chunk request carries the \<^verbatim>\<open>uploadId\<close> property of that body: \<^verbatim>\<open>undefined\<close> when
  the body has no such property.  The value is not checked: whenever the init response is
  a success with a body other than \<^verbatim>\<open>null\<close> and the file is not empty, the first chunk is
  sent with that value.
\<close>

theorem init_failure_sends_no_chunk:
  assumes chunks: "createFileChunks file chunkSize = Some chunks"
  shows "(\<forall>e. fetch (init_request url file headers metadata (length chunks)) = Inl e \<longrightarrow>
          (\<exists>trace.
             uploadFileInChunks fetch url file headers metadata onProgress onError onSuccess
               chunkSize = Some (trace, Inl (rethrown onError e))
           \<and> trace = [Sent (init_request url file headers metadata (length chunks)),
                      Received (Inl e), OnError e]
           \<and> chunk_requests url trace = []))
    \<and> (\<forall>response.
          fetch (init_request url file headers metadata (length chunks)) = Inr response \<longrightarrow>
          \<not> ok response \<longrightarrow>
          (\<exists>trace error.
             error = Error (''Failed to initialize upload: '' @ statusText response)
           \<and> uploadFileInChunks fetch url file headers metadata onProgress onError onSuccess
               chunkSize = Some (trace, Inl (rethrown onError error))
           \<and> trace = [Sent (init_request url file headers metadata (length chunks)),
                      Received (Inr response), OnError error]
           \<and> chunk_requests url trace = []))
    \<and> (\<forall>trace result.
          uploadFileInChunks fetch url file headers metadata onProgress onError onSuccess
            chunkSize = Some (trace, result) \<longrightarrow>
          chunk_requests url trace \<noteq> [] \<longrightarrow>
          (\<exists>initResponse initBody uploadId m rest.
              fetch (init_request url file headers metadata (length chunks)) = Inr initResponse
            \<and> ok initResponse
            \<and> body_json initResponse = Inr initBody
            \<and> initBody \<noteq> JNull
            \<and> uploadId = (case initBody of
                            JObj props \<Rightarrow> (case map_of props ''uploadId'' of
                                             None \<Rightarrow> Undefined | Some v \<Rightarrow> Val v)
                          | _ \<Rightarrow> Undefined)
            \<and> trace = Sent (init_request url file headers metadata (length chunks))
                        # Received (Inr initResponse) # rest
            \<and> chunk_requests url trace
                = map (\<lambda>j. chunk_request url headers uploadId (chunks ! j) j) [0..<m]
            \<and> (\<forall>q\<in>set (chunk_requests url trace).
                  form_field ''uploadId'' q = Some (OtherValue uploadId))))
    \<and> (\<forall>initResponse initBody.
          fetch (init_request url file headers metadata (length chunks)) = Inr initResponse \<longrightarrow>
          ok initResponse \<longrightarrow>
          body_json initResponse = Inr initBody \<longrightarrow>
          initBody \<noteq> JNull \<longrightarrow>
          chunks \<noteq> [] \<longrightarrow>
          (\<exists>trace result.
              uploadFileInChunks fetch url file headers metadata onProgress onError onSuccess
                chunkSize = Some (trace, result)
            \<and> chunk_requests url trace \<noteq> []
            \<and> hd (chunk_requests url trace)
                = chunk_request url headers
                    (case initBody of
                       JObj props \<Rightarrow> (case map_of props ''uploadId'' of
                                        None \<Rightarrow> Undefined | Some v \<Rightarrow> Val v)
                     | _ \<Rightarrow> Undefined)
                    (chunks ! 0) 0))"
proof (intro conjI allI impI)
  fix e
  assume rejected: "fetch (init_request url file headers metadata (length chunks)) = Inl e"
  then have "init_outcome (fetch (init_request url file headers metadata (length chunks))) = Inl e"
    by (simp add: init_outcome_rejected)
  from run_init_failed[where fetch = fetch and onProgress = onProgress and onError = onError
         and onSuccess = onSuccess, OF chunks this]
  show "\<exists>trace.
             uploadFileInChunks fetch url file headers metadata onProgress onError onSuccess
               chunkSize = Some (trace, Inl (rethrown onError e))
           \<and> trace = [Sent (init_request url file headers metadata (length chunks)),
                      Received (Inl e), OnError e]
           \<and> chunk_requests url trace = []"
    using rejected by (simp add: exchange_def)
next
  fix response
  assume response: "fetch (init_request url file headers metadata (length chunks)) = Inr response"
    and "\<not> ok response"
  then have "init_outcome (fetch (init_request url file headers metadata (length chunks)))
               = Inl (Error (''Failed to initialize upload: '' @ statusText response))"
    by (simp add: init_outcome_not_ok)
  from run_init_failed[where fetch = fetch and onProgress = onProgress and onError = onError
         and onSuccess = onSuccess, OF chunks this]
  show "\<exists>trace error.
             error = Error (''Failed to initialize upload: '' @ statusText response)
           \<and> uploadFileInChunks fetch url file headers metadata onProgress onError onSuccess
               chunkSize = Some (trace, Inl (rethrown onError error))
           \<and> trace = [Sent (init_request url file headers metadata (length chunks)),
                      Received (Inr response), OnError error]
           \<and> chunk_requests url trace = []"
    using response by (simp add: exchange_def)
next
  fix trace result
  let ?init = "init_request url file headers metadata (length chunks)"
  let ?goal = "\<lambda>trace. \<exists>initResponse initBody uploadId m rest.
              fetch ?init = Inr initResponse
            \<and> ok initResponse
            \<and> body_json initResponse = Inr initBody
            \<and> initBody \<noteq> JNull
            \<and> uploadId = (case initBody of
                            JObj props \<Rightarrow> (case map_of props ''uploadId'' of
                                             None \<Rightarrow> Undefined | Some v \<Rightarrow> Val v)
                          | _ \<Rightarrow> Undefined)
            \<and> trace = Sent ?init # Received (Inr initResponse) # rest
            \<and> chunk_requests url trace
                = map (\<lambda>j. chunk_request url headers uploadId (chunks ! j) j) [0..<m]
            \<and> (\<forall>q\<in>set (chunk_requests url trace).
                  form_field ''uploadId'' q = Some (OtherValue uploadId))"
  assume run: "uploadFileInChunks fetch url file headers metadata onProgress onError onSuccess
            chunkSize = Some (trace, result)"
    and sent: "chunk_requests url trace \<noteq> []"
  have started: "?goal trace"
    if init: "init_outcome (fetch ?init) = Inr uploadId"
      and trace: "trace = exchange fetch ?init @ rest"
      and reqs: "chunk_requests url rest
                   = map (\<lambda>j. chunk_request url headers uploadId (chunks ! j) j) [0..<m]"
    for uploadId rest m
  proof -
    from init obtain initResponse initBody where
      r: "fetch ?init = Inr initResponse" "ok initResponse"
         "body_json initResponse = Inr initBody" "destructure initBody ''uploadId'' = Inr uploadId"
      unfolding init_outcome_Inr by blast
    from r(4) have d: "initBody \<noteq> JNull"
        "uploadId = (case initBody of
                       JObj props \<Rightarrow> (case map_of props ''uploadId'' of
                                        None \<Rightarrow> Undefined | Some v \<Rightarrow> Val v)
                     | _ \<Rightarrow> Undefined)"
      unfolding destructure_Inr by blast+
    have t: "trace = Sent ?init # Received (Inr initResponse) # rest"
      using trace r(1) by (simp add: exchange_def)
    have q: "chunk_requests url trace
        = map (\<lambda>j. chunk_request url headers uploadId (chunks ! j) j) [0..<m]"
      using trace reqs by simp
    have f: "\<forall>q\<in>set (chunk_requests url trace).
                  form_field ''uploadId'' q = Some (OtherValue uploadId)"
      unfolding q by simp
    show ?thesis
      by (rule exI[of _ initResponse], rule exI[of _ initBody], rule exI[of _ uploadId],
          rule exI[of _ m], rule exI[of _ rest])
         (intro conjI r(1,2,3) d t q f)
  qed
  from chunks run show "?goal trace"
  proof (cases rule: upload_run_cases)
    case (init_failed e)
    then show ?thesis using sent by simp
  next
    case (chunk_failed uploadId m e)
    show ?thesis
      by (rule started[OF chunk_failed(1) chunk_failed(5), of "Suc m"]) simp
  next
    case (progress_threw uploadId m e)
    show ?thesis
      by (rule started[OF progress_threw(1) progress_threw(6), of "Suc m"]) simp
  next
    case (complete_failed uploadId e)
    show ?thesis
      by (rule started[OF complete_failed(1) complete_failed(4), of "length chunks"]) simp
  next
    case (success_threw uploadId v e)
    show ?thesis
      by (rule started[OF success_threw(1) success_threw(5), of "length chunks"]) simp
  next
    case (succeeded uploadId v)
    show ?thesis
      by (rule started[OF succeeded(1) succeeded(5), of "length chunks"]) simp
  qed
next
  fix initResponse initBody
  let ?init = "init_request url file headers metadata (length chunks)"
  let ?id = "case initBody of
               JObj props \<Rightarrow> (case map_of props ''uploadId'' of
                                None \<Rightarrow> Undefined | Some v \<Rightarrow> Val v)
             | _ \<Rightarrow> Undefined"
  assume response: "fetch ?init = Inr initResponse"
    and ok: "ok initResponse"
    and body: "body_json initResponse = Inr initBody"
    and not_null: "initBody \<noteq> JNull"
    and nonempty: "chunks \<noteq> []"
  have "destructure initBody ''uploadId'' = Inr ?id"
    unfolding destructure_Inr using not_null by simp
  with response ok body have init: "init_outcome (fetch ?init) = Inr ?id"
    unfolding init_outcome_Inr by simp
  from upload_run_shape[OF chunks, of fetch url headers metadata onProgress onError onSuccess]
  obtain trace result where
    run: "uploadFileInChunks fetch url file headers metadata onProgress onError onSuccess
            chunkSize = Some (trace, result)"
    by (elim exE conjE) (rule that; assumption)
  from started_run_sends_first_chunk[OF chunks run init nonempty]
  obtain m where m: "0 < m"
    and reqs: "chunk_requests url trace
         = map (\<lambda>j. chunk_request url headers ?id (chunks ! j) j) [0..<m]"
    by blast
  from m have upt: "[0..<m] = 0 # [1..<m]" by (simp add: upt_conv_Cons)
  have sent: "chunk_requests url trace \<noteq> []" unfolding reqs upt by simp
  have first: "hd (chunk_requests url trace) = chunk_request url headers ?id (chunks ! 0) 0"
    unfolding reqs upt by simp
  show "\<exists>trace result.
              uploadFileInChunks fetch url file headers metadata onProgress onError onSuccess
                chunkSize = Some (trace, result)
            \<and> chunk_requests url trace \<noteq> []
            \<and> hd (chunk_requests url trace) = chunk_request url headers ?id (chunks ! 0) 0"
    by (rule exI[of _ trace], rule exI[of _ result]) (intro conjI run sent first)
qed

lemma p_uploadedChunks_progress_report [simp]:
  "p_uploadedChunks (progress_report uploadId n k) = k"
  "p_totalChunks (progress_report uploadId n k) = n"
  "p_uploadId (progress_report uploadId n k) = uploadId"
  "p_progress (progress_report uploadId n k) = progress_percent k n"
  by (simp_all add: progress_report_def)

lemma map_uploadedChunks_reports [simp]:
  "map p_uploadedChunks (map (progress_report uploadId n) ks) = ks"
  by (induction ks) simp_all

lemma map_uploadedChunks_reports_comp [simp]:
  "map (p_uploadedChunks \<circ> progress_report uploadId n) ks = ks"
  by (induction ks) simp_all

lemma chunk_acks_init [simp]:
  "chunk_acks url (exchange fetch (init_request url file headers metadata n) @ es)
     = chunk_acks url es"
  by (simp add: chunk_acks_exchange)

lemma chunk_acks_complete [simp]:
  "chunk_acks url (exchange fetch (complete_request url headers uploadId) @ es)
     = chunk_acks url es"
  by (simp add: chunk_acks_exchange)

lemma chunk_acks_failed_chunk:
  assumes "chunk_outcome m (fetch (chunk_request url headers uploadId c m)) = Inl e"
  shows "chunk_acks url (exchange fetch (chunk_request url headers uploadId c m) @ es)
           = chunk_acks url es"
  using assms by (auto simp: chunk_acks_exchange chunk_outcome_def)

text \<open>
  \<^bold>\<open>Claim C5.\<close>  In every run the values of \<^verbatim>\<open>uploadedChunks\<close> passed to the progress
  callback are \<open>1, 2, \<dots>, c\<close> in this order, where \<open>c\<close> is the number of chunk requests
  of the run that were acknowledged: the first report says 1 and each further
  acknowledged chunk adds exactly 1.
\<close>

theorem uploadedChunks_counts_acknowledged_chunks:
  assumes chunks: "createFileChunks file chunkSize = Some chunks"
    and run: "uploadFileInChunks fetch url file headers metadata onProgress onError onSuccess
                chunkSize = Some (trace, result)"
  shows "map p_uploadedChunks (progress_reports trace) = [1..<Suc (chunk_acks url trace)]
       \<and> chunk_acks url trace \<le> length chunks"
  using chunks run
proof (cases rule: upload_run_cases)
  case (init_failed e)
  then show ?thesis by simp
next
  case (chunk_failed uploadId m e)
  have "chunk_acks url trace = m"
    unfolding chunk_failed(5)
    using chunk_acks_chunk_rounds[of m fetch url headers uploadId chunks] chunk_failed(3)
      chunk_acks_failed_chunk[where fetch = fetch, OF chunk_failed(4)]
    by simp
  then show ?thesis using chunk_failed by simp
next
  case (progress_threw uploadId m e)
  have "\<forall>j<Suc m. chunk_outcome j (fetch (chunk_request url headers uploadId (chunks ! j) j))
                      = Inr ()"
    using progress_threw(3,4) by (auto simp: less_Suc_eq)
  then have "chunk_acks url trace = Suc m"
    unfolding progress_threw(6)
    using chunk_acks_chunk_rounds[of "Suc m" fetch url headers uploadId chunks] by simp
  then show ?thesis using progress_threw by simp
next
  case (complete_failed uploadId e)
  have "chunk_acks url trace = length chunks"
    unfolding complete_failed(4)
    using chunk_acks_chunk_rounds[of "length chunks" fetch url headers uploadId chunks]
      complete_failed(2)
    by simp
  then show ?thesis using complete_failed by simp
next
  case (success_threw uploadId v e)
  have "chunk_acks url trace = length chunks"
    unfolding success_threw(5)
    using chunk_acks_chunk_rounds[of "length chunks" fetch url headers uploadId chunks]
      success_threw(2)
    by simp
  then show ?thesis using success_threw by simp
next
  case (succeeded uploadId v)
  have "chunk_acks url trace = length chunks"
    unfolding succeeded(5)
    using chunk_acks_chunk_rounds[of "length chunks" fetch url headers uploadId chunks]
      succeeded(2)
    by simp
  then show ?thesis using succeeded by simp
qed

lemma example_run_succeeds:
  "uploadFileInChunks (example_server None) ''/api/upload'' example_file [] (JObj [])
     no_callback no_callback no_callback DEFAULT_CHUNK_SIZE
   = Some ([Sent (init_request ''/api/upload'' example_file [] (JObj []) 3),
            Received (Inr (ok_response (JObj [(''uploadId'', JStr ''upload-1'')]))),
            Sent (chunk_request ''/api/upload'' [] (Val (JStr ''upload-1''))
                    \<lparr>blob_start = 0, blob_end = 1048576\<rparr> 0),
            Received (Inr (ok_response (JObj []))),
            OnProgress \<lparr>p_uploadId = Val (JStr ''upload-1''), p_totalChunks = 3,
                         p_uploadedChunks = 1, p_progress = 33\<rparr>,
            Sent (chunk_request ''/api/upload'' [] (Val (JStr ''upload-1''))
                    \<lparr>blob_start = 1048576, blob_end = 2097152\<rparr> 1),
            Received (Inr (ok_response (JObj []))),
            OnProgress \<lparr>p_uploadId = Val (JStr ''upload-1''), p_totalChunks = 3,
                         p_uploadedChunks = 2, p_progress = 67\<rparr>,
            Sent (chunk_request ''/api/upload'' [] (Val (JStr ''upload-1''))
                    \<lparr>blob_start = 2097152, blob_end = 2621440\<rparr> 2),
            Received (Inr (ok_response (JObj []))),
            OnProgress \<lparr>p_uploadId = Val (JStr ''upload-1''), p_totalChunks = 3,
                         p_uploadedChunks = 3, p_progress = 100\<rparr>,
            Sent (complete_request ''/api/upload'' [] (Val (JStr ''upload-1''))),
            Received (Inr (ok_response example_artifact)),
            OnSuccess example_artifact],
           Inr example_artifact)"
  by code_simp

lemma example_run_chunk_1_fails:
  "uploadFileInChunks (example_server (Some 1)) ''/api/upload'' example_file [] (JObj [])
     no_callback no_callback no_callback DEFAULT_CHUNK_SIZE
   = Some ([Sent (init_request ''/api/upload'' example_file [] (JObj []) 3),
            Received (Inr (ok_response (JObj [(''uploadId'', JStr ''upload-1'')]))),
            Sent (chunk_request ''/api/upload'' [] (Val (JStr ''upload-1''))
                    \<lparr>blob_start = 0, blob_end = 1048576\<rparr> 0),
            Received (Inr (ok_response (JObj []))),
            OnProgress \<lparr>p_uploadId = Val (JStr ''upload-1''), p_totalChunks = 3,
                         p_uploadedChunks = 1, p_progress = 33\<rparr>,
            Sent (chunk_request ''/api/upload'' [] (Val (JStr ''upload-1''))
                    \<lparr>blob_start = 1048576, blob_end = 2097152\<rparr> 1),
            Received (Inr error_response),
            OnError (Error ''Failed to upload chunk 1: Internal Server Error'')],
           Inl (Error ''Failed to upload chunk 1: Internal Server Error''))"
  by code_simp

lemma example_run_offline:
  "uploadFileInChunks offline ''/api/upload'' example_file [] (JObj [])
     no_callback no_callback no_callback DEFAULT_CHUNK_SIZE
   = Some ([Sent (init_request ''/api/upload'' example_file [] (JObj []) 3),
            Received (Inl (TypeError ''Failed to fetch'')),
            OnError (TypeError ''Failed to fetch'')],
           Inl (TypeError ''Failed to fetch''))"
  by code_simp

text \<open>
  The example file: three acknowledged chunks are reported as 1, 2, 3; when chunk 1 is
  rejected, the only report is 1.
\<close>

theorem uploadedChunks_counts_acknowledged_chunks_witness:
  "createFileChunks example_file DEFAULT_CHUNK_SIZE
     = Some [\<lparr>blob_start = 0, blob_end = 1048576\<rparr>,
             \<lparr>blob_start = 1048576, blob_end = 2097152\<rparr>,
             \<lparr>blob_start = 2097152, blob_end = 2621440\<rparr>]
   \<and> (\<exists>trace.
         uploadFileInChunks (example_server None) ''/api/upload'' example_file [] (JObj [])
           no_callback no_callback no_callback DEFAULT_CHUNK_SIZE
           = Some (trace, Inr example_artifact)
       \<and> chunk_acks ''/api/upload'' trace = 3
       \<and> map p_uploadedChunks (progress_reports trace) = [1, 2, 3])
   \<and> (\<exists>trace.
         uploadFileInChunks (example_server (Some 1)) ''/api/upload'' example_file [] (JObj [])
           no_callback no_callback no_callback DEFAULT_CHUNK_SIZE
           = Some (trace, Inl (Error ''Failed to upload chunk 1: Internal Server Error''))
       \<and> chunk_acks ''/api/upload'' trace = 1
       \<and> map p_uploadedChunks (progress_reports trace) = [1])"
proof -
  let ?ok = "[Sent (init_request ''/api/upload'' example_file [] (JObj []) 3),
            Received (Inr (ok_response (JObj [(''uploadId'', JStr ''upload-1'')]))),
            Sent (chunk_request ''/api/upload'' [] (Val (JStr ''upload-1''))
                    \<lparr>blob_start = 0, blob_end = 1048576\<rparr> 0),
            Received (Inr (ok_response (JObj []))),
            OnProgress \<lparr>p_uploadId = Val (JStr ''upload-1''), p_totalChunks = 3,
                         p_uploadedChunks = 1, p_progress = 33\<rparr>,
            Sent (chunk_request ''/api/upload'' [] (Val (JStr ''upload-1''))
                    \<lparr>blob_start = 1048576, blob_end = 2097152\<rparr> 1),
            Received (Inr (ok_response (JObj []))),
            OnProgress \<lparr>p_uploadId = Val (JStr ''upload-1''), p_totalChunks = 3,
                         p_uploadedChunks = 2, p_progress = 67\<rparr>,
            Sent (chunk_request ''/api/upload'' [] (Val (JStr ''upload-1''))
                    \<lparr>blob_start = 2097152, blob_end = 2621440\<rparr> 2),
            Received (Inr (ok_response (JObj []))),
            OnProgress \<lparr>p_uploadId = Val (JStr ''upload-1''), p_totalChunks = 3,
                         p_uploadedChunks = 3, p_progress = 100\<rparr>,
            Sent (complete_request ''/api/upload'' [] (Val (JStr ''upload-1''))),
            Received (Inr (ok_response example_artifact)),
            OnSuccess example_artifact]"
  let ?failed = "[Sent (init_request ''/api/upload'' example_file [] (JObj []) 3),
            Received (Inr (ok_response (JObj [(''uploadId'', JStr ''upload-1'')]))),
            Sent (chunk_request ''/api/upload'' [] (Val (JStr ''upload-1''))
                    \<lparr>blob_start = 0, blob_end = 1048576\<rparr> 0),
            Received (Inr (ok_response (JObj []))),
            OnProgress \<lparr>p_uploadId = Val (JStr ''upload-1''), p_totalChunks = 3,
                         p_uploadedChunks = 1, p_progress = 33\<rparr>,
            Sent (chunk_request ''/api/upload'' [] (Val (JStr ''upload-1''))
                    \<lparr>blob_start = 1048576, blob_end = 2097152\<rparr> 1),
            Received (Inr error_response),
            OnError (Error ''Failed to upload chunk 1: Internal Server Error'')]"
  have acks: "chunk_acks ''/api/upload'' ?ok = 3" "chunk_acks ''/api/upload'' ?failed = 1"
    by code_simp+
  have a: "map p_uploadedChunks (progress_reports ?ok) = [1..<Suc (chunk_acks ''/api/upload'' ?ok)]"
    using uploadedChunks_counts_acknowledged_chunks[OF example_chunks example_run_succeeds]
    by (rule conjunct1)
  have b: "map p_uploadedChunks (progress_reports ?failed)
             = [1..<Suc (chunk_acks ''/api/upload'' ?failed)]"
    using uploadedChunks_counts_acknowledged_chunks[OF example_chunks example_run_chunk_1_fails]
    by (rule conjunct1)
  have upt: "[1..<Suc 3] = [1, 2, 3]" "[1..<Suc 1] = [1::nat]" by code_simp+
  have a': "map p_uploadedChunks (progress_reports ?ok) = [1, 2, 3]"
    using a unfolding acks upt .
  have b': "map p_uploadedChunks (progress_reports ?failed) = [1]"
    using b unfolding acks upt .
  show ?thesis
    by (intro conjI example_chunks exI[of _ ?ok] exI[of _ ?failed] example_run_succeeds
          example_run_chunk_1_fails acks a' b')
qed

lemma example_chunks_length:
  "length [\<lparr>blob_start = 0, blob_end = 1048576\<rparr>,
           \<lparr>blob_start = 1048576, blob_end = 2097152\<rparr>,
           \<lparr>blob_start = 2097152, blob_end = 2621440\<rparr>] = 3"
  by simp

text \<open>
  The example file on a network that is down, on a server that answers 500, and on the
  server whose init response has no \<^verbatim>\<open>uploadId\<close>.
\<close>

theorem init_failure_sends_no_chunk_witness:
  "createFileChunks example_file DEFAULT_CHUNK_SIZE
     = Some [\<lparr>blob_start = 0, blob_end = 1048576\<rparr>,
             \<lparr>blob_start = 1048576, blob_end = 2097152\<rparr>,
             \<lparr>blob_start = 2097152, blob_end = 2621440\<rparr>]
   \<and> offline (init_request ''/api/upload'' example_file [] (JObj []) 3)
       = Inl (TypeError ''Failed to fetch'')
   \<and> (\<exists>trace.
         uploadFileInChunks offline ''/api/upload'' example_file [] (JObj [])
           no_callback no_callback no_callback DEFAULT_CHUNK_SIZE
           = Some (trace, Inl (TypeError ''Failed to fetch''))
       \<and> trace = [Sent (init_request ''/api/upload'' example_file [] (JObj []) 3),
                  Received (Inl (TypeError ''Failed to fetch'')),
                  OnError (TypeError ''Failed to fetch'')]
       \<and> chunk_requests ''/api/upload'' trace = [])
   \<and> unavailable (init_request ''/api/upload'' example_file [] (JObj []) 3) = Inr error_response
   \<and> \<not> ok error_response
   \<and> (\<exists>trace error.
         error = Error (''Failed to initialize upload: '' @ statusText error_response)
       \<and> uploadFileInChunks unavailable ''/api/upload'' example_file [] (JObj [])
           no_callback no_callback no_callback DEFAULT_CHUNK_SIZE
           = Some (trace, Inl error)
       \<and> trace = [Sent (init_request ''/api/upload'' example_file [] (JObj []) 3),
                  Received (Inr error_response), OnError error]
       \<and> chunk_requests ''/api/upload'' trace = [])
   \<and> lax_server (init_request ''/api/upload'' example_file [] (JObj []) 3)
       = Inr (ok_response (JObj [(''session'', JNum 7)]))
   \<and> ok (ok_response (JObj [(''session'', JNum 7)]))
   \<and> body_json (ok_response (JObj [(''session'', JNum 7)])) = Inr (JObj [(''session'', JNum 7)])
   \<and> (\<exists>trace result.
         uploadFileInChunks lax_server ''/api/upload'' example_file [] (JObj [])
           no_callback no_callback no_callback DEFAULT_CHUNK_SIZE
           = Some (trace, result)
       \<and> chunk_requests ''/api/upload'' trace \<noteq> []
       \<and> hd (chunk_requests ''/api/upload'' trace)
           = chunk_request ''/api/upload'' [] Undefined \<lparr>blob_start = 0, blob_end = 1048576\<rparr> 0)"
proof -
  let ?init = "init_request ''/api/upload'' example_file [] (JObj []) 3"
  let ?chunks = "[\<lparr>blob_start = 0, blob_end = 1048576\<rparr>,
             \<lparr>blob_start = 1048576, blob_end = 2097152\<rparr>,
             \<lparr>blob_start = 2097152, blob_end = 2621440\<rparr>]"
  let ?body = "JObj [(''session'', JNum 7)]"
  have h1: "offline ?init = Inl (TypeError ''Failed to fetch'')"
    by (simp add: offline_def)
  have h2: "unavailable ?init = Inr error_response"
    by (simp add: unavailable_def)
  have h3: "\<not> ok error_response"
    by (simp add: error_response_def)
  have h4: "lax_server ?init = Inr (ok_response ?body)"
    by (simp add: lax_server_def init_request_def)
  have h5: "ok (ok_response ?body)" by (simp add: ok_response_def)
  have h6: "body_json (ok_response ?body) = Inr ?body" by (simp add: ok_response_def)
  have h7: "?body \<noteq> JNull" by simp
  have h8: "?chunks \<noteq> []" by simp
  note thm1 = init_failure_sends_no_chunk[OF example_chunks, where fetch = offline
      and url = "''/api/upload''" and headers = "[]" and metadata = "JObj []"
      and onProgress = no_callback and onError = no_callback and onSuccess = no_callback,
      unfolded example_chunks_length rethrown_no_callback]
  note thm2 = init_failure_sends_no_chunk[OF example_chunks, where fetch = unavailable
      and url = "''/api/upload''" and headers = "[]" and metadata = "JObj []"
      and onProgress = no_callback and onError = no_callback and onSuccess = no_callback,
      unfolded example_chunks_length rethrown_no_callback]
  note thm3 = init_failure_sends_no_chunk[OF example_chunks, where fetch = lax_server
      and url = "''/api/upload''" and headers = "[]" and metadata = "JObj []"
      and onProgress = no_callback and onError = no_callback and onSuccess = no_callback,
      unfolded example_chunks_length rethrown_no_callback]
  have a: "\<exists>trace.
         uploadFileInChunks offline ''/api/upload'' example_file [] (JObj [])
           no_callback no_callback no_callback DEFAULT_CHUNK_SIZE
           = Some (trace, Inl (TypeError ''Failed to fetch''))
       \<and> trace = [Sent ?init, Received (Inl (TypeError ''Failed to fetch'')),
                  OnError (TypeError ''Failed to fetch'')]
       \<and> chunk_requests ''/api/upload'' trace = []"
    using thm1[THEN conjunct1, rule_format, OF h1] .
  have b: "\<exists>trace error.
         error = Error (''Failed to initialize upload: '' @ statusText error_response)
       \<and> uploadFileInChunks unavailable ''/api/upload'' example_file [] (JObj [])
           no_callback no_callback no_callback DEFAULT_CHUNK_SIZE
           = Some (trace, Inl error)
       \<and> trace = [Sent ?init, Received (Inr error_response), OnError error]
       \<and> chunk_requests ''/api/upload'' trace = []"
    using thm2[THEN conjunct2, THEN conjunct1, rule_format, OF h2 h3] .
  have c: "\<exists>trace result.
         uploadFileInChunks lax_server ''/api/upload'' example_file [] (JObj [])
           no_callback no_callback no_callback DEFAULT_CHUNK_SIZE
           = Some (trace, result)
       \<and> chunk_requests ''/api/upload'' trace \<noteq> []
       \<and> hd (chunk_requests ''/api/upload'' trace)
           = chunk_request ''/api/upload'' [] Undefined \<lparr>blob_start = 0, blob_end = 1048576\<rparr> 0"
    using thm3[THEN conjunct2, THEN conjunct2, THEN conjunct2, rule_format, OF h4 h5 h6 h7 h8]
    by simp
  show ?thesis
    by (intro conjI example_chunks h1 h2 h3 h4 h5 h6 a b c)
qed

text \<open>
  Claim C10 says that on a fully successful upload \<^verbatim>\<open>onError\<close> is not called and the
  function returns the parsed body of the complete response.  The call of \<^verbatim>\<open>onSuccess\<close>
  is inside the \<^verbatim>\<open>try\<close> block: when every request succeeds and \<^verbatim>\<open>onSuccess\<close> throws,
  \<^verbatim>\<open>onError\<close> is called with what it threw and the promise rejects.
\<close>

theorem onSuccess_throws_counterexample:
  "uploadFileInChunks (example_server None) ''/api/upload'' example_file [] (JObj [])
     no_callback no_callback (throwing (OtherError ''render failed'')) DEFAULT_CHUNK_SIZE
   = Some ([Sent (init_request ''/api/upload'' example_file [] (JObj []) 3),
            Received (Inr (ok_response (JObj [(''uploadId'', JStr ''upload-1'')]))),
            Sent (chunk_request ''/api/upload'' [] (Val (JStr ''upload-1''))
                    \<lparr>blob_start = 0, blob_end = 1048576\<rparr> 0),
            Received (Inr (ok_response (JObj []))),
            OnProgress \<lparr>p_uploadId = Val (JStr ''upload-1''), p_totalChunks = 3,
                         p_uploadedChunks = 1, p_progress = 33\<rparr>,
            Sent (chunk_request ''/api/upload'' [] (Val (JStr ''upload-1''))
                    \<lparr>blob_start = 1048576, blob_end = 2097152\<rparr> 1),
            Received (Inr (ok_response (JObj []))),
            OnProgress \<lparr>p_uploadId = Val (JStr ''upload-1''), p_totalChunks = 3,
                         p_uploadedChunks = 2, p_progress = 67\<rparr>,
            Sent (chunk_request ''/api/upload'' [] (Val (JStr ''upload-1''))
                    \<lparr>blob_start = 2097152, blob_end = 2621440\<rparr> 2),
            Received (Inr (ok_response (JObj []))),
            OnProgress \<lparr>p_uploadId = Val (JStr ''upload-1''), p_totalChunks = 3,
                         p_uploadedChunks = 3, p_progress = 100\<rparr>,
            Sent (complete_request ''/api/upload'' [] (Val (JStr ''upload-1''))),
            Received (Inr (ok_response example_artifact)),
            OnSuccess example_artifact,
            OnError (OtherError ''render failed'')],
           Inl (OtherError ''render failed''))"
  by code_simp

text \<open>
  \<^bold>\<open>Claim C10, amended.\<close>  Suppose every request of the upload succeeds: the session is
  initialised, every chunk is acknowledged, and the complete request is answered by a
  success whose body is JSON.  If the progress callback returns every time, \<^verbatim>\<open>onSuccess\<close>
  is called exactly once, with the parsed body of the complete response, after the
  complete response has arrived.  If \<^verbatim>\<open>onSuccess\<close> returns, the promise resolves with that
  same value, \<^verbatim>\<open>onSuccess\<close> was the last step and \<^verbatim>\<open>onError\<close> is not called.  If
  \<^verbatim>\<open>onSuccess\<close> throws, \<^verbatim>\<open>onError\<close> is called with what it threw and the promise rejects
  with it (with what \<^verbatim>\<open>onError\<close> throws, if it throws).  If the progress callback throws
  at some chunk, the upload is not completed: \<^verbatim>\<open>onSuccess\<close> is not called, no complete
  request is sent, \<^verbatim>\<open>onError\<close> is called and the promise rejects.
\<close>

theorem successful_upload_calls_onSuccess_once:
  assumes chunks: "createFileChunks file chunkSize = Some chunks"
    and init: "init_outcome (fetch (init_request url file headers metadata (length chunks)))
                 = Inr uploadId"
    and acked: "\<forall>j<length chunks.
           chunk_outcome j (fetch (chunk_request url headers uploadId (chunks ! j) j)) = Inr ()"
    and complete: "fetch (complete_request url headers uploadId) = Inr completeResponse"
    and ok: "ok completeResponse"
    and body: "body_json completeResponse = Inr result"
  shows "\<exists>trace outcome.
      uploadFileInChunks fetch url file headers metadata onProgress onError onSuccess chunkSize
        = Some (trace, outcome)
    \<and> ((\<forall>j<length chunks.
           onProgress (progress_report uploadId (length chunks) (j + 1)) = None) \<longrightarrow>
          success_calls trace = [result]
        \<and> (onSuccess result = None \<longrightarrow>
              outcome = Inr result
            \<and> error_calls trace = []
            \<and> trace = exchange fetch (init_request url file headers metadata (length chunks))
                @ chunk_rounds fetch url headers uploadId chunks (length chunks)
                @ [Sent (complete_request url headers uploadId), Received (Inr completeResponse),
                   OnSuccess result])
        \<and> (\<forall>e. onSuccess result = Some e \<longrightarrow>
              outcome = Inl (rethrown onError e)
            \<and> error_calls trace = [e]
            \<and> trace = exchange fetch (init_request url file headers metadata (length chunks))
                @ chunk_rounds fetch url headers uploadId chunks (length chunks)
                @ [Sent (complete_request url headers uploadId), Received (Inr completeResponse),
                   OnSuccess result, OnError e]))
    \<and> (\<forall>j e. j < length chunks \<longrightarrow>
          (\<forall>i<j. onProgress (progress_report uploadId (length chunks) (i + 1)) = None) \<longrightarrow>
          onProgress (progress_report uploadId (length chunks) (j + 1)) = Some e \<longrightarrow>
            success_calls trace = []
          \<and> outcome = Inl (rethrown onError e)
          \<and> error_calls trace = [e]
          \<and> (\<forall>q\<in>set (sent_requests trace). req_url q \<noteq> url @ ''/complete''))"
proof -
  let ?n = "length chunks"
  let ?init = "init_request url file headers metadata ?n"
  let ?complete = "complete_request url headers uploadId"
  let ?report = "\<lambda>j. progress_report uploadId ?n (j + 1)"
  let ?first = "\<lambda>trace outcome. (\<forall>j<?n. onProgress (?report j) = None) \<longrightarrow>
          success_calls trace = [result]
        \<and> (onSuccess result = None \<longrightarrow>
              outcome = Inr result
            \<and> error_calls trace = []
            \<and> trace = exchange fetch ?init @ chunk_rounds fetch url headers uploadId chunks ?n
                @ [Sent ?complete, Received (Inr completeResponse), OnSuccess result])
        \<and> (\<forall>e. onSuccess result = Some e \<longrightarrow>
              outcome = Inl (rethrown onError e)
            \<and> error_calls trace = [e]
            \<and> trace = exchange fetch ?init @ chunk_rounds fetch url headers uploadId chunks ?n
                @ [Sent ?complete, Received (Inr completeResponse), OnSuccess result, OnError e])"
  let ?second = "\<lambda>trace outcome. \<forall>j e. j < ?n \<longrightarrow>
          (\<forall>i<j. onProgress (?report i) = None) \<longrightarrow>
          onProgress (?report j) = Some e \<longrightarrow>
            success_calls trace = []
          \<and> outcome = Inl (rethrown onError e)
          \<and> error_calls trace = [e]
          \<and> (\<forall>q\<in>set (sent_requests trace). req_url q \<noteq> url @ ''/complete'')"
  have out: "complete_outcome (fetch ?complete) = Inr result"
    using complete ok body by (simp add: complete_outcome_ok)
  have ex: "exchange fetch ?complete = [Sent ?complete, Received (Inr completeResponse)]"
    using complete by (simp add: exchange_def)
  from upload_run_shape[OF chunks, of fetch url headers metadata onProgress onError onSuccess]
  obtain trace outcome where
    run: "uploadFileInChunks fetch url file headers metadata onProgress onError onSuccess
            chunkSize = Some (trace, outcome)"
    by (elim exE conjE) (rule that; assumption)
  from chunks run have "?first trace outcome \<and> ?second trace outcome"
  proof (cases rule: upload_run_cases)
    case (init_failed e)
    with init show ?thesis by simp
  next
    case (chunk_failed u m e)
    from chunk_failed(1) init have "u = uploadId" by simp
    with chunk_failed(2,4) acked show ?thesis by auto
  next
    case (progress_threw u m e)
    from progress_threw(1) init have u: "u = uploadId" by simp
    note before = progress_threw(3)[unfolded u]
    note threw = progress_threw(5)[unfolded u]
    note trace = progress_threw(6)[unfolded u]
    have first: "?first trace outcome"
      using threw progress_threw(2) by auto
    have second: "?second trace outcome"
    proof (intro allI impI)
      fix j e'
      assume j: "j < ?n"
        and silent: "\<forall>i<j. onProgress (?report i) = None"
        and thrown: "onProgress (?report j) = Some e'"
      have "j = m"
      proof (cases j m rule: linorder_cases)
        case less
        with before thrown show ?thesis by auto
      next
        case greater
        with silent threw show ?thesis by auto
      qed simp
      with thrown threw have e: "e' = e" by simp
      show "success_calls trace = []
          \<and> outcome = Inl (rethrown onError e')
          \<and> error_calls trace = [e']
          \<and> (\<forall>q\<in>set (sent_requests trace). req_url q \<noteq> url @ ''/complete'')"
        unfolding e trace using progress_threw(7) by auto
    qed
    from first second show ?thesis by (rule conjI)
  next
    case (complete_failed u e)
    from complete_failed(1) init have "u = uploadId" by simp
    with complete_failed(3) out show ?thesis by simp
  next
    case (success_threw u v e)
    from success_threw(1) init have u: "u = uploadId" by simp
    from success_threw(3) out have v: "v = result" unfolding u by simp
    note silent = success_threw(2)[unfolded u]
    note threw = success_threw(4)[unfolded v]
    note trace = success_threw(5)[unfolded u v ex]
    have first: "?first trace outcome"
      unfolding trace using threw success_threw(6) by simp
    have second: "?second trace outcome"
      using silent by auto
    from first second show ?thesis by (rule conjI)
  next
    case (succeeded u v)
    from succeeded(1) init have u: "u = uploadId" by simp
    from succeeded(3) out have v: "v = result" unfolding u by simp
    note silent = succeeded(2)[unfolded u]
    note returns = succeeded(4)[unfolded v]
    note trace = succeeded(5)[unfolded u v ex]
    have first: "?first trace outcome"
      unfolding trace using returns succeeded(6) v by simp
    have second: "?second trace outcome"
      using silent by auto
    from first second show ?thesis by (rule conjI)
  qed
  then have first: "?first trace outcome" and second: "?second trace outcome" by blast+
  show ?thesis
    by (rule exI[of _ trace], rule exI[of _ outcome]) (intro conjI run first second)
qed

lemma chunk_rounds_split:
  assumes "j < r"
  shows "chunk_rounds fetch url headers uploadId chunks r
     = chunk_rounds fetch url headers uploadId chunks j
       @ Sent (chunk_request url headers uploadId (chunks ! j) j)
       # Received (fetch (chunk_request url headers uploadId (chunks ! j) j))
       # OnProgress (progress_report uploadId (length chunks) (j + 1))
       # concat (map (chunk_round fetch url headers uploadId chunks) [Suc j..<r])"
proof -
  from assms obtain k where r: "r = j + k" and k: "0 < k"
    by (metis less_imp_add_positive)
  have "[0..<r] = [0..<j] @ [j..<j + k]" unfolding r by (rule upt_add_eq_append) simp
  also have "[j..<j + k] = j # [Suc j..<j + k]" using k by (simp add: upt_conv_Cons)
  finally have "[0..<r] = [0..<j] @ j # [Suc j..<r]" unfolding r .
  then show ?thesis
    by (simp add: chunk_rounds_def chunk_round_def)
qed

lemma round_positions:
  assumes trace: "trace = exchange fetch (init_request url file headers metadata n)
                    @ chunk_rounds fetch url headers uploadId chunks r @ tail"
    and j: "j < r"
  shows "\<exists>before after.
      trace = before @ Sent (chunk_request url headers uploadId (chunks ! j) j)
                # Received (fetch (chunk_request url headers uploadId (chunks ! j) j)) # after
    \<and> chunk_requests url before
        = map (\<lambda>j. chunk_request url headers uploadId (chunks ! j) j) [0..<j]"
proof -
  let ?before = "exchange fetch (init_request url file headers metadata n)
                   @ chunk_rounds fetch url headers uploadId chunks j"
  let ?after = "OnProgress (progress_report uploadId (length chunks) (j + 1))
       # concat (map (chunk_round fetch url headers uploadId chunks) [Suc j..<r]) @ tail"
  have "trace = ?before @ Sent (chunk_request url headers uploadId (chunks ! j) j)
                # Received (fetch (chunk_request url headers uploadId (chunks ! j) j)) # ?after"
    unfolding trace chunk_rounds_split[OF j] by simp
  moreover have "chunk_requests url ?before
        = map (\<lambda>j. chunk_request url headers uploadId (chunks ! j) j) [0..<j]"
    by simp
  ultimately show ?thesis by blast
qed

lemma run_requests:
  assumes chunks: "createFileChunks file chunkSize = Some chunks"
    and run: "uploadFileInChunks fetch url file headers metadata onProgress onError onSuccess
                chunkSize = Some (trace, result)"
  shows "\<exists>uploadId m.
      m \<le> length chunks
    \<and> chunk_requests url trace
        = map (\<lambda>j. chunk_request url headers uploadId (chunks ! j) j) [0..<m]
    \<and> (\<forall>j<m. \<exists>before after.
          trace = before @ Sent (chunk_request url headers uploadId (chunks ! j) j)
                    # Received (fetch (chunk_request url headers uploadId (chunks ! j) j)) # after
        \<and> chunk_requests url before
            = map (\<lambda>j. chunk_request url headers uploadId (chunks ! j) j) [0..<j])
    \<and> (\<forall>j. Suc j < m \<longrightarrow>
          chunk_outcome j (fetch (chunk_request url headers uploadId (chunks ! j) j)) = Inr ())
    \<and> one_at_a_time False trace
    \<and> ((\<exists>v. result = Inr v) \<longrightarrow> m = length chunks)
    \<and> ((\<exists>q\<in>set (sent_requests trace). req_url q = url @ ''/complete'') \<longrightarrow> m = length chunks)
    \<and> (sent_requests trace
          = init_request url file headers metadata (length chunks)
              # map (\<lambda>j. chunk_request url headers uploadId (chunks ! j) j) [0..<m]
       \<or> sent_requests trace
          = init_request url file headers metadata (length chunks)
              # map (\<lambda>j. chunk_request url headers uploadId (chunks ! j) j) [0..<m]
              @ [complete_request url headers uploadId])"
  using chunks run
proof (cases rule: upload_run_cases)
  case (init_failed e)
  show ?thesis
    by (rule exI[of _ Undefined], rule exI[of _ 0]) (simp add: init_failed)
next
  case (chunk_failed uploadId m e)
  let ?q = "\<lambda>j. chunk_request url headers uploadId (chunks ! j) j"
  have pos: "\<forall>j<Suc m. \<exists>before after.
          trace = before @ Sent (?q j) # Received (fetch (?q j)) # after
        \<and> chunk_requests url before = map ?q [0..<j]"
  proof (intro allI impI)
    fix j assume "j < Suc m"
    then consider "j < m" | "j = m" by linarith
    then show "\<exists>before after.
          trace = before @ Sent (?q j) # Received (fetch (?q j)) # after
        \<and> chunk_requests url before = map ?q [0..<j]"
    proof cases
      case 1
      from round_positions[OF chunk_failed(5) 1] show ?thesis .
    next
      case 2
      have "trace = (exchange fetch (init_request url file headers metadata (length chunks))
                      @ chunk_rounds fetch url headers uploadId chunks m)
                    @ Sent (?q m) # Received (fetch (?q m)) # [OnError e]"
        unfolding chunk_failed(5) by (simp add: exchange_def)
      moreover have "chunk_requests url
                       (exchange fetch (init_request url file headers metadata (length chunks))
                          @ chunk_rounds fetch url headers uploadId chunks m) = map ?q [0..<m]"
        by simp
      ultimately show ?thesis unfolding 2 by blast
    qed
  qed
  have rest: "sent_requests trace
          = init_request url file headers metadata (length chunks) # map ?q [0..<Suc m]
       \<or> sent_requests trace
          = init_request url file headers metadata (length chunks) # map ?q [0..<Suc m]
              @ [complete_request url headers uploadId]"
    by (simp add: chunk_failed(5))
  show ?thesis
    by (rule exI[of _ uploadId], rule exI[of _ "Suc m"], intro conjI pos rest)
       (use chunk_failed in \<open>auto simp: less_Suc_eq\<close>)
next
  case (progress_threw uploadId m e)
  let ?q = "\<lambda>j. chunk_request url headers uploadId (chunks ! j) j"
  have pos: "\<forall>j<Suc m. \<exists>before after.
          trace = before @ Sent (?q j) # Received (fetch (?q j)) # after
        \<and> chunk_requests url before = map ?q [0..<j]"
    using round_positions[OF progress_threw(6)] by blast
  have rest: "sent_requests trace
          = init_request url file headers metadata (length chunks) # map ?q [0..<Suc m]
       \<or> sent_requests trace
          = init_request url file headers metadata (length chunks) # map ?q [0..<Suc m]
              @ [complete_request url headers uploadId]"
    by (simp add: progress_threw(6))
  show ?thesis
    by (rule exI[of _ uploadId], rule exI[of _ "Suc m"], intro conjI pos rest)
       (use progress_threw in \<open>auto simp: less_Suc_eq\<close>)
next
  case (complete_failed uploadId e)
  let ?q = "\<lambda>j. chunk_request url headers uploadId (chunks ! j) j"
  have pos: "\<forall>j<length chunks. \<exists>before after.
          trace = before @ Sent (?q j) # Received (fetch (?q j)) # after
        \<and> chunk_requests url before = map ?q [0..<j]"
    using round_positions[OF complete_failed(4)] by blast
  have rest: "sent_requests trace
          = init_request url file headers metadata (length chunks) # map ?q [0..<length chunks]
       \<or> sent_requests trace
          = init_request url file headers metadata (length chunks) # map ?q [0..<length chunks]
              @ [complete_request url headers uploadId]"
    by (simp add: complete_failed(4))
  show ?thesis
    by (rule exI[of _ uploadId], rule exI[of _ "length chunks"], intro conjI pos rest)
       (use complete_failed in \<open>auto simp: less_Suc_eq\<close>)
next
  case (success_threw uploadId v e)
  let ?q = "\<lambda>j. chunk_request url headers uploadId (chunks ! j) j"
  have pos: "\<forall>j<length chunks. \<exists>before after.
          trace = before @ Sent (?q j) # Received (fetch (?q j)) # after
        \<and> chunk_requests url before = map ?q [0..<j]"
    using round_positions[OF success_threw(5)] by blast
  have rest: "sent_requests trace
          = init_request url file headers metadata (length chunks) # map ?q [0..<length chunks]
       \<or> sent_requests trace
          = init_request url file headers metadata (length chunks) # map ?q [0..<length chunks]
              @ [complete_request url headers uploadId]"
    by (simp add: success_threw(5))
  show ?thesis
    by (rule exI[of _ uploadId], rule exI[of _ "length chunks"], intro conjI pos rest)
       (use success_threw in \<open>auto simp: less_Suc_eq\<close>)
next
  case (succeeded uploadId v)
  let ?q = "\<lambda>j. chunk_request url headers uploadId (chunks ! j) j"
  have pos: "\<forall>j<length chunks. \<exists>before after.
          trace = before @ Sent (?q j) # Received (fetch (?q j)) # after
        \<and> chunk_requests url before = map ?q [0..<j]"
    using round_positions[OF succeeded(5)] by blast
  have rest: "sent_requests trace
          = init_request url file headers metadata (length chunks) # map ?q [0..<length chunks]
       \<or> sent_requests trace
          = init_request url file headers metadata (length chunks) # map ?q [0..<length chunks]
              @ [complete_request url headers uploadId]"
    by (simp add: succeeded(5))
  show ?thesis
    by (rule exI[of _ uploadId], rule exI[of _ "length chunks"], intro conjI pos rest)
       (use succeeded in \<open>auto simp: less_Suc_eq\<close>)
qed

lemma take_as_map_nth:
  assumes "m \<le> length xs"
  shows "take m xs = map (\<lambda>j. xs ! j) [0..<m]"
  using assms by (simp add: list_eq_iff_nth_eq)

text \<open>
  \<^bold>\<open>Claim C6.\<close>  In every run the chunk requests are \<open>m\<close> requests, for some \<open>m\<close> up to
  the number of chunks; \<open>m\<close> is the number of chunks whenever the promise resolves and
  whenever the complete request is sent.  The request with position \<open>j\<close> is a
  \<^verbatim>\<open>POST\<close> to \<^verbatim>\<open>url/chunk\<close> whose form holds chunk \<open>j\<close> of the file, the index \<open>j\<close> and the
  \<^verbatim>\<open>uploadId\<close>: the indices are \<open>0, 1, \<dots>, m - 1\<close> in this order, one request per index,
  and no two requests are equal.  In the run, the request for index \<open>j\<close> comes after
  exactly the requests for the indices below \<open>j\<close> and is directly followed by its
  response; the response to every chunk but the last one sent was a success.  No request
  of the run is sent while another one is waiting for its response, and the run sends
  nothing but the init request, the chunk requests and possibly the complete request.
\<close>

theorem chunk_requests_sequential:
  assumes chunks: "createFileChunks file chunkSize = Some chunks"
    and run: "uploadFileInChunks fetch url file headers metadata onProgress onError onSuccess
                chunkSize = Some (trace, result)"
  shows "\<exists>uploadId m.
      m \<le> length chunks
    \<and> chunk_requests url trace
        = map (\<lambda>j. \<lparr>req_url = url @ ''/chunk'', req_method = ''POST'', req_headers = headers,
                     req_body = FormBody [(''chunk'', BlobValue (chunks ! j)),
                                          (''chunkIndex'', OtherValue (Val (JNum (int j)))),
                                          (''uploadId'', OtherValue uploadId)]\<rparr>) [0..<m]
    \<and> map (form_field ''chunkIndex'') (chunk_requests url trace)
        = map (\<lambda>j. Some (OtherValue (Val (JNum (int j))))) [0..<m]
    \<and> map (form_field ''chunk'') (chunk_requests url trace)
        = map (\<lambda>chunk. Some (BlobValue chunk)) (take m chunks)
    \<and> distinct (chunk_requests url trace)
    \<and> (\<forall>j<m. \<exists>before after.
          trace = before @ Sent (chunk_requests url trace ! j)
                    # Received (fetch (chunk_requests url trace ! j)) # after
        \<and> chunk_requests url before = take j (chunk_requests url trace))
    \<and> (\<forall>j. Suc j < m \<longrightarrow> (\<exists>r. fetch (chunk_requests url trace ! j) = Inr r \<and> ok r))
    \<and> one_at_a_time False trace
    \<and> ((\<exists>v. result = Inr v) \<longrightarrow> m = length chunks)
    \<and> ((\<exists>q\<in>set (sent_requests trace). req_url q = url @ ''/complete'') \<longrightarrow> m = length chunks)
    \<and> (sent_requests trace
          = init_request url file headers metadata (length chunks) # chunk_requests url trace
       \<or> sent_requests trace
          = init_request url file headers metadata (length chunks) # chunk_requests url trace
              @ [complete_request url headers uploadId])"
proof -
  from run_requests[OF chunks run] obtain uploadId m where
    m: "m \<le> length chunks"
    and reqs: "chunk_requests url trace
        = map (\<lambda>j. chunk_request url headers uploadId (chunks ! j) j) [0..<m]"
    and pos: "\<forall>j<m. \<exists>before after.
          trace = before @ Sent (chunk_request url headers uploadId (chunks ! j) j)
                    # Received (fetch (chunk_request url headers uploadId (chunks ! j) j)) # after
        \<and> chunk_requests url before
            = map (\<lambda>j. chunk_request url headers uploadId (chunks ! j) j) [0..<j]"
    and acked: "\<forall>j. Suc j < m \<longrightarrow>
          chunk_outcome j (fetch (chunk_request url headers uploadId (chunks ! j) j)) = Inr ()"
    and serial: "one_at_a_time False trace"
    and resolved: "(\<exists>v. result = Inr v) \<longrightarrow> m = length chunks"
    and completed: "(\<exists>q\<in>set (sent_requests trace). req_url q = url @ ''/complete'') \<longrightarrow>
          m = length chunks"
    and all: "sent_requests trace
          = init_request url file headers metadata (length chunks)
              # map (\<lambda>j. chunk_request url headers uploadId (chunks ! j) j) [0..<m]
       \<or> sent_requests trace
          = init_request url file headers metadata (length chunks)
              # map (\<lambda>j. chunk_request url headers uploadId (chunks ! j) j) [0..<m]
              @ [complete_request url headers uploadId]"
    by (elim exE conjE) (rule that; assumption)
  let ?q = "\<lambda>j. chunk_request url headers uploadId (chunks ! j) j"
  have nth: "chunk_requests url trace ! j = ?q j" if "j < m" for j
    unfolding reqs using that by simp
  have tk: "take j (chunk_requests url trace) = map ?q [0..<j]" if "j < m" for j
    unfolding reqs using that by (simp add: take_map)
  have records: "chunk_requests url trace
        = map (\<lambda>j. \<lparr>req_url = url @ ''/chunk'', req_method = ''POST'', req_headers = headers,
                     req_body = FormBody [(''chunk'', BlobValue (chunks ! j)),
                                          (''chunkIndex'', OtherValue (Val (JNum (int j)))),
                                          (''uploadId'', OtherValue uploadId)]\<rparr>) [0..<m]"
    unfolding reqs by (simp add: chunk_request_def)
  have indices: "map (form_field ''chunkIndex'') (chunk_requests url trace)
        = map (\<lambda>j. Some (OtherValue (Val (JNum (int j))))) [0..<m]"
    unfolding reqs by simp
  have blobs: "map (form_field ''chunk'') (chunk_requests url trace)
        = map (\<lambda>chunk. Some (BlobValue chunk)) (take m chunks)"
    unfolding reqs take_as_map_nth[OF m] by simp
  have "inj_on ?q (set [0..<m])"
    by (rule inj_onI) (rule chunk_request_inject)
  then have different: "distinct (chunk_requests url trace)"
    unfolding reqs by (simp add: distinct_map)
  have positions: "\<forall>j<m. \<exists>before after.
          trace = before @ Sent (chunk_requests url trace ! j)
                    # Received (fetch (chunk_requests url trace ! j)) # after
        \<and> chunk_requests url before = take j (chunk_requests url trace)"
  proof (intro allI impI)
    fix j assume j: "j < m"
    from pos j show "\<exists>before after.
          trace = before @ Sent (chunk_requests url trace ! j)
                    # Received (fetch (chunk_requests url trace ! j)) # after
        \<and> chunk_requests url before = take j (chunk_requests url trace)"
      unfolding nth[OF j] tk[OF j] by blast
  qed
  have awaited: "\<forall>j. Suc j < m \<longrightarrow> (\<exists>r. fetch (chunk_requests url trace ! j) = Inr r \<and> ok r)"
  proof (intro allI impI)
    fix j assume j: "Suc j < m"
    then have "j < m" by simp
    from acked j have "chunk_outcome j (fetch (?q j)) = Inr ()" by blast
    then show "\<exists>r. fetch (chunk_requests url trace ! j) = Inr r \<and> ok r"
      unfolding nth[OF \<open>j < m\<close>] by (simp add: chunk_outcome_acked)
  qed
  have all': "sent_requests trace
          = init_request url file headers metadata (length chunks) # chunk_requests url trace
       \<or> sent_requests trace
          = init_request url file headers metadata (length chunks) # chunk_requests url trace
              @ [complete_request url headers uploadId]"
    using all unfolding reqs .
  show ?thesis
    by (rule exI[of _ uploadId], rule exI[of _ m])
       (intro conjI m records indices blobs different positions awaited serial resolved
          completed all')
qed

lemma example_server_acknowledges:
  "chunk_outcome j (example_server None (chunk_request ''/api/upload'' headers uploadId c j))
     = Inr ()"
  by (simp add: example_server_def chunk_request_def chunk_outcome_def ok_response_def)

text \<open>
  The example file on the example server with no failing chunk: with callbacks that
  return, with an \<^verbatim>\<open>onSuccess\<close> that throws, and with an \<^verbatim>\<open>onProgress\<close> that throws.
\<close>

theorem successful_upload_calls_onSuccess_once_witness:
  "createFileChunks example_file DEFAULT_CHUNK_SIZE
     = Some [\<lparr>blob_start = 0, blob_end = 1048576\<rparr>,
             \<lparr>blob_start = 1048576, blob_end = 2097152\<rparr>,
             \<lparr>blob_start = 2097152, blob_end = 2621440\<rparr>]
   \<and> init_outcome (example_server None (init_request ''/api/upload'' example_file [] (JObj []) 3))
       = Inr (Val (JStr ''upload-1''))
   \<and> example_server None (complete_request ''/api/upload'' [] (Val (JStr ''upload-1'')))
       = Inr (ok_response example_artifact)
   \<and> ok (ok_response example_artifact)
   \<and> body_json (ok_response example_artifact) = Inr example_artifact
   \<and> (\<exists>trace.
         uploadFileInChunks (example_server None) ''/api/upload'' example_file [] (JObj [])
           no_callback no_callback no_callback DEFAULT_CHUNK_SIZE
           = Some (trace, Inr example_artifact)
       \<and> success_calls trace = [example_artifact]
       \<and> error_calls trace = [])
   \<and> (\<exists>trace.
         uploadFileInChunks (example_server None) ''/api/upload'' example_file [] (JObj [])
           no_callback no_callback (throwing (OtherError ''render failed'')) DEFAULT_CHUNK_SIZE
           = Some (trace, Inl (OtherError ''render failed''))
       \<and> success_calls trace = [example_artifact]
       \<and> error_calls trace = [OtherError ''render failed''])
   \<and> (\<exists>trace.
         uploadFileInChunks (example_server None) ''/api/upload'' example_file [] (JObj [])
           (throwing (OtherError ''no progress bar'')) no_callback no_callback DEFAULT_CHUNK_SIZE
           = Some (trace, Inl (OtherError ''no progress bar''))
       \<and> success_calls trace = []
       \<and> error_calls trace = [OtherError ''no progress bar''])"
proof -
  let ?chunks = "[\<lparr>blob_start = 0, blob_end = 1048576\<rparr>,
             \<lparr>blob_start = 1048576, blob_end = 2097152\<rparr>,
             \<lparr>blob_start = 2097152, blob_end = 2621440\<rparr>]"
  let ?id = "Val (JStr ''upload-1'')"
  let ?fetch = "example_server None"
  let ?run = "uploadFileInChunks ?fetch ''/api/upload'' example_file [] (JObj [])"
  have h2: "init_outcome (?fetch (init_request ''/api/upload'' example_file [] (JObj []) 3))
              = Inr ?id"
    by code_simp
  have h2': "init_outcome (?fetch (init_request ''/api/upload'' example_file [] (JObj [])
               (length ?chunks))) = Inr ?id"
    unfolding example_chunks_length by (rule h2)
  have h3: "\<forall>j<length ?chunks.
           chunk_outcome j (?fetch (chunk_request ''/api/upload'' [] ?id (?chunks ! j) j)) = Inr ()"
    by (simp only: example_server_acknowledges) simp
  have h4: "?fetch (complete_request ''/api/upload'' [] ?id) = Inr (ok_response example_artifact)"
    by code_simp
  have h5: "ok (ok_response example_artifact)" by (simp add: ok_response_def)
  have h6: "body_json (ok_response example_artifact) = Inr example_artifact"
    by (simp add: ok_response_def)
  have silent: "\<forall>j<length ?chunks.
      no_callback (progress_report ?id (length ?chunks) (j + 1)) = None"
    by (simp add: no_callback_def)
  have returns: "(no_callback :: json \<Rightarrow> exn option) example_artifact = None"
    by (simp add: no_callback_def)
  have throws: "throwing (OtherError ''render failed'') example_artifact
                  = Some (OtherError ''render failed'')"
    by (simp add: throwing_def)
  have first_throws: "throwing (OtherError ''no progress bar'')
                        (progress_report ?id (length ?chunks) (0 + 1))
                  = Some (OtherError ''no progress bar'')"
    by (simp add: throwing_def)
  have a: "\<exists>trace. ?run no_callback no_callback no_callback DEFAULT_CHUNK_SIZE
           = Some (trace, Inr example_artifact)
       \<and> success_calls trace = [example_artifact]
       \<and> error_calls trace = []"
  proof -
    from successful_upload_calls_onSuccess_once[where fetch = ?fetch
            and onProgress = no_callback and onError = no_callback and onSuccess = no_callback,
            OF example_chunks h2' h3 h4 h5 h6]
    obtain trace outcome where
      run: "?run no_callback no_callback no_callback DEFAULT_CHUNK_SIZE = Some (trace, outcome)"
      and first: "(\<forall>j<length ?chunks.
           no_callback (progress_report ?id (length ?chunks) (j + 1)) = None) \<longrightarrow>
          success_calls trace = [example_artifact]
        \<and> (no_callback example_artifact = None \<longrightarrow>
              outcome = Inr example_artifact
            \<and> error_calls trace = []
            \<and> trace = exchange ?fetch (init_request ''/api/upload'' example_file [] (JObj [])
                                        (length ?chunks))
                @ chunk_rounds ?fetch ''/api/upload'' [] ?id ?chunks (length ?chunks)
                @ [Sent (complete_request ''/api/upload'' [] ?id),
                   Received (Inr (ok_response example_artifact)), OnSuccess example_artifact])
        \<and> (\<forall>e. no_callback example_artifact = Some e \<longrightarrow>
              outcome = Inl (rethrown no_callback e)
            \<and> error_calls trace = [e]
            \<and> trace = exchange ?fetch (init_request ''/api/upload'' example_file [] (JObj [])
                                        (length ?chunks))
                @ chunk_rounds ?fetch ''/api/upload'' [] ?id ?chunks (length ?chunks)
                @ [Sent (complete_request ''/api/upload'' [] ?id),
                   Received (Inr (ok_response example_artifact)), OnSuccess example_artifact,
                   OnError e])"
      by (elim exE conjE) (rule that; assumption)
    from first silent have calls: "success_calls trace = [example_artifact]"
      and "no_callback example_artifact = None \<longrightarrow>
              outcome = Inr example_artifact \<and> error_calls trace = []
            \<and> trace = exchange ?fetch (init_request ''/api/upload'' example_file [] (JObj [])
                                        (length ?chunks))
                @ chunk_rounds ?fetch ''/api/upload'' [] ?id ?chunks (length ?chunks)
                @ [Sent (complete_request ''/api/upload'' [] ?id),
                   Received (Inr (ok_response example_artifact)), OnSuccess example_artifact]"
      by blast+
    with returns have outcome: "outcome = Inr example_artifact" and errors: "error_calls trace = []"
      by blast+
    show ?thesis
      by (rule exI[of _ trace]) (intro conjI run[unfolded outcome] calls errors)
  qed
  have b: "\<exists>trace. ?run no_callback no_callback (throwing (OtherError ''render failed''))
             DEFAULT_CHUNK_SIZE = Some (trace, Inl (OtherError ''render failed''))
       \<and> success_calls trace = [example_artifact]
       \<and> error_calls trace = [OtherError ''render failed'']"
  proof -
    from successful_upload_calls_onSuccess_once[where fetch = ?fetch
            and onProgress = no_callback and onError = no_callback
            and onSuccess = "throwing (OtherError ''render failed'')",
            OF example_chunks h2' h3 h4 h5 h6]
    obtain trace outcome where
      run: "?run no_callback no_callback (throwing (OtherError ''render failed''))
              DEFAULT_CHUNK_SIZE = Some (trace, outcome)"
      and first: "(\<forall>j<length ?chunks.
           no_callback (progress_report ?id (length ?chunks) (j + 1)) = None) \<longrightarrow>
          success_calls trace = [example_artifact]
        \<and> (throwing (OtherError ''render failed'') example_artifact = None \<longrightarrow>
              outcome = Inr example_artifact
            \<and> error_calls trace = []
            \<and> trace = exchange ?fetch (init_request ''/api/upload'' example_file [] (JObj [])
                                        (length ?chunks))
                @ chunk_rounds ?fetch ''/api/upload'' [] ?id ?chunks (length ?chunks)
                @ [Sent (complete_request ''/api/upload'' [] ?id),
                   Received (Inr (ok_response example_artifact)), OnSuccess example_artifact])
        \<and> (\<forall>e. throwing (OtherError ''render failed'') example_artifact = Some e \<longrightarrow>
              outcome = Inl (rethrown no_callback e)
            \<and> error_calls trace = [e]
            \<and> trace = exchange ?fetch (init_request ''/api/upload'' example_file [] (JObj [])
                                        (length ?chunks))
                @ chunk_rounds ?fetch ''/api/upload'' [] ?id ?chunks (length ?chunks)
                @ [Sent (complete_request ''/api/upload'' [] ?id),
                   Received (Inr (ok_response example_artifact)), OnSuccess example_artifact,
                   OnError e])"
      by (elim exE conjE) (rule that; assumption)
    from first silent have calls: "success_calls trace = [example_artifact]"
      and "\<forall>e. throwing (OtherError ''render failed'') example_artifact = Some e \<longrightarrow>
              outcome = Inl (rethrown no_callback e)
            \<and> error_calls trace = [e]
            \<and> trace = exchange ?fetch (init_request ''/api/upload'' example_file [] (JObj [])
                                        (length ?chunks))
                @ chunk_rounds ?fetch ''/api/upload'' [] ?id ?chunks (length ?chunks)
                @ [Sent (complete_request ''/api/upload'' [] ?id),
                   Received (Inr (ok_response example_artifact)), OnSuccess example_artifact,
                   OnError e]"
      by blast+
    with throws have "outcome = Inl (rethrown no_callback (OtherError ''render failed''))"
      and errors: "error_calls trace = [OtherError ''render failed'']"
      by blast+
    then have outcome: "outcome = Inl (OtherError ''render failed'')"
      by (simp only: rethrown_no_callback)
    show ?thesis
      by (rule exI[of _ trace]) (intro conjI run[unfolded outcome] calls errors)
  qed
  have c: "\<exists>trace. ?run (throwing (OtherError ''no progress bar'')) no_callback no_callback
             DEFAULT_CHUNK_SIZE = Some (trace, Inl (OtherError ''no progress bar''))
       \<and> success_calls trace = []
       \<and> error_calls trace = [OtherError ''no progress bar'']"
  proof -
    from successful_upload_calls_onSuccess_once[where fetch = ?fetch
            and onProgress = "throwing (OtherError ''no progress bar'')"
            and onError = no_callback and onSuccess = no_callback,
            OF example_chunks h2' h3 h4 h5 h6]
    obtain trace outcome where
      run: "?run (throwing (OtherError ''no progress bar'')) no_callback no_callback
              DEFAULT_CHUNK_SIZE = Some (trace, outcome)"
      and second: "\<forall>j e. j < length ?chunks \<longrightarrow>
          (\<forall>i<j. throwing (OtherError ''no progress bar'')
                    (progress_report ?id (length ?chunks) (i + 1)) = None) \<longrightarrow>
          throwing (OtherError ''no progress bar'')
            (progress_report ?id (length ?chunks) (j + 1)) = Some e \<longrightarrow>
            success_calls trace = []
          \<and> outcome = Inl (rethrown no_callback e)
          \<and> error_calls trace = [e]
          \<and> (\<forall>q\<in>set (sent_requests trace). req_url q \<noteq> ''/api/upload'' @ ''/complete'')"
      by (elim exE conjE) (rule that; assumption)
    have pos: "0 < length ?chunks" by simp
    have none: "\<forall>i<0::nat. throwing (OtherError ''no progress bar'')
                    (progress_report ?id (length ?chunks) (i + 1)) = None"
      by simp
    note inst = second[THEN spec[where x = 0],
        THEN spec[where x = "OtherError ''no progress bar''"]]
    from inst pos none first_throws
    have calls: "success_calls trace = []"
      and "outcome = Inl (rethrown no_callback (OtherError ''no progress bar''))"
      and errors: "error_calls trace = [OtherError ''no progress bar'']"
      by blast+
    then have outcome: "outcome = Inl (OtherError ''no progress bar'')"
      by (simp only: rethrown_no_callback)
    show ?thesis
      by (rule exI[of _ trace]) (intro conjI run[unfolded outcome] calls errors)
  qed
  show ?thesis
    by (intro conjI example_chunks h2 h4 h5 h6 a b c)
qed

text \<open>The three chunk requests of the example file, in order.\<close>

theorem chunk_requests_sequential_witness:
  "createFileChunks example_file DEFAULT_CHUNK_SIZE
     = Some [\<lparr>blob_start = 0, blob_end = 1048576\<rparr>,
             \<lparr>blob_start = 1048576, blob_end = 2097152\<rparr>,
             \<lparr>blob_start = 2097152, blob_end = 2621440\<rparr>]
   \<and> (\<exists>trace.
         uploadFileInChunks (example_server None) ''/api/upload'' example_file [] (JObj [])
           no_callback no_callback no_callback DEFAULT_CHUNK_SIZE
           = Some (trace, Inr example_artifact)
       \<and> map (form_field ''chunkIndex'') (chunk_requests ''/api/upload'' trace)
           = [Some (OtherValue (Val (JNum 0))), Some (OtherValue (Val (JNum 1))),
              Some (OtherValue (Val (JNum 2)))]
       \<and> map (form_field ''chunk'') (chunk_requests ''/api/upload'' trace)
           = [Some (BlobValue \<lparr>blob_start = 0, blob_end = 1048576\<rparr>),
              Some (BlobValue \<lparr>blob_start = 1048576, blob_end = 2097152\<rparr>),
              Some (BlobValue \<lparr>blob_start = 2097152, blob_end = 2621440\<rparr>)]
       \<and> distinct (chunk_requests ''/api/upload'' trace)
       \<and> one_at_a_time False trace)"
proof -
  let ?chunks = "[\<lparr>blob_start = 0, blob_end = 1048576\<rparr>,
             \<lparr>blob_start = 1048576, blob_end = 2097152\<rparr>,
             \<lparr>blob_start = 2097152, blob_end = 2621440\<rparr>]"
  let ?trace = "[Sent (init_request ''/api/upload'' example_file [] (JObj []) 3),
            Received (Inr (ok_response (JObj [(''uploadId'', JStr ''upload-1'')]))),
            Sent (chunk_request ''/api/upload'' [] (Val (JStr ''upload-1''))
                    \<lparr>blob_start = 0, blob_end = 1048576\<rparr> 0),
            Received (Inr (ok_response (JObj []))),
            OnProgress \<lparr>p_uploadId = Val (JStr ''upload-1''), p_totalChunks = 3,
                         p_uploadedChunks = 1, p_progress = 33\<rparr>,
            Sent (chunk_request ''/api/upload'' [] (Val (JStr ''upload-1''))
                    \<lparr>blob_start = 1048576, blob_end = 2097152\<rparr> 1),
            Received (Inr (ok_response (JObj []))),
            OnProgress \<lparr>p_uploadId = Val (JStr ''upload-1''), p_totalChunks = 3,
                         p_uploadedChunks = 2, p_progress = 67\<rparr>,
            Sent (chunk_request ''/api/upload'' [] (Val (JStr ''upload-1''))
                    \<lparr>blob_start = 2097152, blob_end = 2621440\<rparr> 2),
            Received (Inr (ok_response (JObj []))),
            OnProgress \<lparr>p_uploadId = Val (JStr ''upload-1''), p_totalChunks = 3,
                         p_uploadedChunks = 3, p_progress = 100\<rparr>,
            Sent (complete_request ''/api/upload'' [] (Val (JStr ''upload-1''))),
            Received (Inr (ok_response example_artifact)),
            OnSuccess example_artifact]"
  from chunk_requests_sequential[OF example_chunks example_run_succeeds,
         unfolded example_chunks_length]
  obtain m where
    m: "m \<le> 3"
    and indices: "map (form_field ''chunkIndex'') (chunk_requests ''/api/upload'' ?trace)
        = map (\<lambda>j. Some (OtherValue (Val (JNum (int j))))) [0..<m]"
    and blobs: "map (form_field ''chunk'') (chunk_requests ''/api/upload'' ?trace)
        = map (\<lambda>chunk. Some (BlobValue chunk)) (take m ?chunks)"
    and different: "distinct (chunk_requests ''/api/upload'' ?trace)"
    and serial: "one_at_a_time False ?trace"
    and all: "(\<exists>v. (Inr example_artifact :: exn + json) = Inr v) \<longrightarrow> m = 3"
    by (elim exE conjE) (rule that; assumption)
  have m3: "m = 3" using all by simp
  have upt: "[0..<3] = [0, 1, 2::nat]" by code_simp
  have indices': "map (form_field ''chunkIndex'') (chunk_requests ''/api/upload'' ?trace)
           = [Some (OtherValue (Val (JNum 0))), Some (OtherValue (Val (JNum 1))),
              Some (OtherValue (Val (JNum 2)))]"
    using indices unfolding m3 upt by simp
  have blobs': "map (form_field ''chunk'') (chunk_requests ''/api/upload'' ?trace)
           = [Some (BlobValue \<lparr>blob_start = 0, blob_end = 1048576\<rparr>),
              Some (BlobValue \<lparr>blob_start = 1048576, blob_end = 2097152\<rparr>),
              Some (BlobValue \<lparr>blob_start = 2097152, blob_end = 2621440\<rparr>)]"
    using blobs unfolding m3 by simp
  show ?thesis
    by (intro conjI example_chunks, rule exI[of _ ?trace],
        intro conjI example_run_succeeds indices' blobs' different serial)
qed

section \<open>Failures reach the caller\<close>

subsection \<open>Requests that fail\<close>

lemma responses_simps [simp]:
  "responses [] = []"
  "responses (Sent r # es) = responses es"
  "responses (Received x # es) = x # responses es"
  "responses (OnProgress p # es) = responses es"
  "responses (OnSuccess v # es) = responses es"
  "responses (OnError e # es) = responses es"
  "responses (ConsoleError s e # es) = responses es"
  "responses (xs @ ys) = responses xs @ responses ys"
  by (simp_all add: responses_def)

lemma Received_responses: "Received x \<in> set trace \<longleftrightarrow> x \<in> set (responses trace)"
proof (induction trace)
  case Nil
  show ?case by simp
next
  case (Cons e es)
  then show ?case by (cases e) auto
qed

lemma responses_exchange [simp]: "responses (exchange fetch q) = [fetch q]"
  by (simp add: exchange_def)

lemma responses_chunk_rounds [simp]:
  "responses (chunk_rounds fetch url headers uploadId chunks m)
     = map (\<lambda>j. fetch (chunk_request url headers uploadId (chunks ! j) j)) [0..<m]"
  by (induction m) (simp_all add: chunk_rounds_Suc chunk_round_def)

lemma init_outcome_Inl:
  assumes "init_outcome settled = Inl e"
  shows "(\<forall>x. settled = Inl x \<longrightarrow> x = e)
       \<and> (\<forall>r. settled = Inr r \<longrightarrow> \<not> ok r \<longrightarrow> (\<exists>msg. e = Error (msg @ statusText r)))"
  using assms by (auto simp: init_outcome_def split: sum.splits if_splits)

lemma chunk_outcome_Inl:
  assumes "chunk_outcome j settled = Inl e"
  shows "(\<forall>x. settled = Inl x \<longrightarrow> x = e)
       \<and> (\<forall>r. settled = Inr r \<longrightarrow> \<not> ok r \<longrightarrow> (\<exists>msg. e = Error (msg @ statusText r)))"
proof -
  have "\<exists>msg. chunk_error j r = Error (msg @ statusText r)" for r
    unfolding chunk_error_def
    by (rule exI[of _ "''Failed to upload chunk '' @ decimal j @ '': ''"]) simp
  then show ?thesis
    using assms by (auto simp: chunk_outcome_def split: sum.splits if_splits)
qed

lemma complete_outcome_Inl:
  assumes "complete_outcome settled = Inl e"
  shows "(\<forall>x. settled = Inl x \<longrightarrow> x = e)
       \<and> (\<forall>r. settled = Inr r \<longrightarrow> \<not> ok r \<longrightarrow> (\<exists>msg. e = Error (msg @ statusText r)))"
  using assms by (auto simp: complete_outcome_def split: sum.splits if_splits)

lemma complete_outcome_Inr:
  assumes "complete_outcome settled = Inr v"
  shows "\<exists>r. settled = Inr r \<and> ok r"
  using assms by (auto simp: complete_outcome_def split: sum.splits if_splits)

lemma init_outcome_acked:
  assumes "init_outcome settled = Inr uploadId"
  shows "\<exists>r. settled = Inr r \<and> ok r"
  using assms unfolding init_outcome_Inr by blast

lemma rounds_acked:
  assumes "\<forall>j<m. chunk_outcome j (fetch (chunk_request url headers uploadId (chunks ! j) j))
                    = Inr ()"
  shows "\<forall>s\<in>set (map (\<lambda>j. fetch (chunk_request url headers uploadId (chunks ! j) j)) [0..<m]).
           \<exists>r. s = Inr r \<and> ok r"
  using assms by (auto simp: chunk_outcome_acked)

lemma last_failure_surfaces:
  assumes good: "\<forall>s\<in>set pre. \<exists>r. s = Inr r \<and> ok r"
    and stage: "(\<forall>x. s = Inl x \<longrightarrow> x = e)
       \<and> (\<forall>r. s = Inr r \<longrightarrow> \<not> ok r \<longrightarrow> (\<exists>msg. e = Error (msg @ statusText r)))"
    and resp: "responses trace = pre @ [s]"
    and res: "result = Inl (rethrown onError e)"
    and err: "error_calls trace = [e]"
  shows "(\<forall>x. Received (Inl x) \<in> set trace \<longrightarrow>
            result = Inl (rethrown onError x) \<and> error_calls trace = [x])
       \<and> (\<forall>r. Received (Inr r) \<in> set trace \<longrightarrow> \<not> ok r \<longrightarrow>
            (\<exists>msg. result = Inl (rethrown onError (Error (msg @ statusText r)))
                 \<and> error_calls trace = [Error (msg @ statusText r)]))"
proof (intro conjI allI impI)
  fix x
  assume "Received (Inl x) \<in> set trace"
  then have "Inl x \<in> set pre \<or> Inl x = s" unfolding Received_responses resp by auto
  with good have "s = Inl x" by auto
  with stage have "x = e" by simp
  then show "result = Inl (rethrown onError x)" and "error_calls trace = [x]"
    using res err by simp_all
next
  fix r
  assume "Received (Inr r) \<in> set trace" and bad: "\<not> ok r"
  then have "Inr r \<in> set pre \<or> Inr r = s" unfolding Received_responses resp by auto
  with good bad have "s = Inr r" by auto
  with stage bad obtain msg where "e = Error (msg @ statusText r)" by blast
  then show "\<exists>msg. result = Inl (rethrown onError (Error (msg @ statusText r)))
                 \<and> error_calls trace = [Error (msg @ statusText r)]"
    using res err by blast
qed

lemma no_failure_to_surface:
  assumes good: "\<forall>s\<in>set (responses trace). \<exists>r. s = Inr r \<and> ok r"
  shows "(\<forall>x. Received (Inl x) \<in> set trace \<longrightarrow>
            result = Inl (rethrown onError x) \<and> error_calls trace = [x])
       \<and> (\<forall>r. Received (Inr r) \<in> set trace \<longrightarrow> \<not> ok r \<longrightarrow>
            (\<exists>msg. result = Inl (rethrown onError (Error (msg @ statusText r)))
                 \<and> error_calls trace = [Error (msg @ statusText r)]))"
  using good unfolding Received_responses by auto

lemma upload_failures_surface:
  assumes chunks: "createFileChunks file chunkSize = Some chunks"
    and run: "uploadFileInChunks fetch url file headers metadata onProgress onError onSuccess
                chunkSize = Some (trace, result)"
  shows "((\<exists>v. result = Inr v \<and> error_calls trace = []
             \<and> (\<forall>x. Received x \<in> set trace \<longrightarrow> (\<exists>r. x = Inr r \<and> ok r)))
        \<or> (\<exists>e. result = Inl (rethrown onError e) \<and> error_calls trace = [e]
             \<and> last trace = OnError e))
       \<and> (\<forall>x. Received (Inl x) \<in> set trace \<longrightarrow>
            result = Inl (rethrown onError x) \<and> error_calls trace = [x])
       \<and> (\<forall>r. Received (Inr r) \<in> set trace \<longrightarrow> \<not> ok r \<longrightarrow>
            (\<exists>msg. result = Inl (rethrown onError (Error (msg @ statusText r)))
                 \<and> error_calls trace = [Error (msg @ statusText r)]))"
  using chunks run
proof (cases rule: upload_run_cases)
  case (init_failed e)
  let ?init = "init_request url file headers metadata (length chunks)"
  have resp: "responses trace = [] @ [fetch ?init]" unfolding init_failed(2) by simp
  have err: "error_calls trace = [e]" unfolding init_failed(2) by simp
  have last: "last trace = OnError e" unfolding init_failed(2) by simp
  have good: "\<forall>s\<in>set ([] :: (exn + Response) list). \<exists>r. s = Inr r \<and> ok r" by simp
  from last_failure_surfaces[OF good init_outcome_Inl[OF init_failed(1)] resp init_failed(3) err]
    init_failed(3) err last
  show ?thesis by blast
next
  case (chunk_failed uploadId m e)
  let ?init = "init_request url file headers metadata (length chunks)"
  let ?q = "\<lambda>j. chunk_request url headers uploadId (chunks ! j) j"
  have resp: "responses trace = (fetch ?init # map (\<lambda>j. fetch (?q j)) [0..<m]) @ [fetch (?q m)]"
    unfolding chunk_failed(5) by simp
  have err: "error_calls trace = [e]" unfolding chunk_failed(5) by simp
  have last: "last trace = OnError e" unfolding chunk_failed(5) by simp
  have acked: "\<forall>j<m. chunk_outcome j (fetch (?q j)) = Inr ()" using chunk_failed(3) by blast
  have good: "\<forall>s\<in>set (fetch ?init # map (\<lambda>j. fetch (?q j)) [0..<m]). \<exists>r. s = Inr r \<and> ok r"
    using init_outcome_acked[OF chunk_failed(1)] rounds_acked[OF acked] by simp
  from last_failure_surfaces[OF good chunk_outcome_Inl[OF chunk_failed(4)] resp chunk_failed(6) err]
    chunk_failed(6) err last
  show ?thesis by blast
next
  case (progress_threw uploadId m e)
  let ?init = "init_request url file headers metadata (length chunks)"
  let ?q = "\<lambda>j. chunk_request url headers uploadId (chunks ! j) j"
  have resp: "responses trace = fetch ?init # map (\<lambda>j. fetch (?q j)) [0..<Suc m]"
    unfolding progress_threw(6) by simp
  have err: "error_calls trace = [e]" unfolding progress_threw(6) by simp
  have last: "last trace = OnError e" unfolding progress_threw(6) by simp
  have acked: "\<forall>j<Suc m. chunk_outcome j (fetch (?q j)) = Inr ()"
    using progress_threw(3,4) by (auto simp: less_Suc_eq)
  have good: "\<forall>s\<in>set (responses trace). \<exists>r. s = Inr r \<and> ok r"
    unfolding resp using init_outcome_acked[OF progress_threw(1)] rounds_acked[OF acked]
    by simp
  from no_failure_to_surface[OF good, of result onError] progress_threw(7) err last
  show ?thesis by blast
next
  case (complete_failed uploadId e)
  let ?init = "init_request url file headers metadata (length chunks)"
  let ?q = "\<lambda>j. chunk_request url headers uploadId (chunks ! j) j"
  let ?complete = "complete_request url headers uploadId"
  have resp: "responses trace
      = (fetch ?init # map (\<lambda>j. fetch (?q j)) [0..<length chunks]) @ [fetch ?complete]"
    unfolding complete_failed(4) by simp
  have err: "error_calls trace = [e]" unfolding complete_failed(4) by simp
  have last: "last trace = OnError e" unfolding complete_failed(4) by simp
  have acked: "\<forall>j<length chunks. chunk_outcome j (fetch (?q j)) = Inr ()"
    using complete_failed(2) by blast
  have good: "\<forall>s\<in>set (fetch ?init # map (\<lambda>j. fetch (?q j)) [0..<length chunks]).
                \<exists>r. s = Inr r \<and> ok r"
    using init_outcome_acked[OF complete_failed(1)] rounds_acked[OF acked] by simp
  from last_failure_surfaces[OF good complete_outcome_Inl[OF complete_failed(3)] resp
         complete_failed(5) err]
    complete_failed(5) err last
  show ?thesis by blast
next
  case (success_threw uploadId v e)
  let ?init = "init_request url file headers metadata (length chunks)"
  let ?q = "\<lambda>j. chunk_request url headers uploadId (chunks ! j) j"
  let ?complete = "complete_request url headers uploadId"
  have resp: "responses trace
      = fetch ?init # map (\<lambda>j. fetch (?q j)) [0..<length chunks] @ [fetch ?complete]"
    unfolding success_threw(5) by simp
  have err: "error_calls trace = [e]" unfolding success_threw(5) by simp
  have last: "last trace = OnError e" unfolding success_threw(5) by simp
  have acked: "\<forall>j<length chunks. chunk_outcome j (fetch (?q j)) = Inr ()"
    using success_threw(2) by blast
  have good: "\<forall>s\<in>set (responses trace). \<exists>r. s = Inr r \<and> ok r"
    unfolding resp
    using init_outcome_acked[OF success_threw(1)] rounds_acked[OF acked]
      complete_outcome_Inr[OF success_threw(3)]
    by simp
  from no_failure_to_surface[OF good, of result onError] success_threw(6) err last
  show ?thesis by blast
next
  case (succeeded uploadId v)
  let ?init = "init_request url file headers metadata (length chunks)"
  let ?q = "\<lambda>j. chunk_request url headers uploadId (chunks ! j) j"
  let ?complete = "complete_request url headers uploadId"
  have resp: "responses trace
      = fetch ?init # map (\<lambda>j. fetch (?q j)) [0..<length chunks] @ [fetch ?complete]"
    unfolding succeeded(5) by simp
  have err: "error_calls trace = []" unfolding succeeded(5) by simp
  have acked: "\<forall>j<length chunks. chunk_outcome j (fetch (?q j)) = Inr ()"
    using succeeded(2) by blast
  have good: "\<forall>s\<in>set (responses trace). \<exists>r. s = Inr r \<and> ok r"
    unfolding resp
    using init_outcome_acked[OF succeeded(1)] rounds_acked[OF acked]
      complete_outcome_Inr[OF succeeded(3)]
    by simp
  then have good': "\<forall>x. Received x \<in> set trace \<longrightarrow> (\<exists>r. x = Inr r \<and> ok r)"
    unfolding Received_responses by blast
  from no_failure_to_surface[OF good, of result onError] succeeded(6) err good'
  show ?thesis by blast
qed

lemma run_has_chunks:
  assumes "uploadFileInChunks fetch url file headers metadata onProgress onError onSuccess
             chunkSize = Some run"
  shows "\<exists>chunks. createFileChunks file chunkSize = Some chunks"
  using assms by (cases "createFileChunks file chunkSize") (simp_all add: uploadFileInChunks_def)

text \<open>
  \<^bold>\<open>Claim C4, amended.\<close>  When the abort request fails, by a transport failure or by a
  response that is not a success, \<^verbatim>\<open>abortChunkedUpload\<close> logs the error with
  \<^verbatim>\<open>console.error\<close> and then rejects with the same error; its promise rejects with an
  error exactly when that error was logged.  No failure of \<^verbatim>\<open>uploadFileInChunks\<close> is kept
  from the caller either: a run either resolves, and then \<^verbatim>\<open>onError\<close> was not called and
  every request of the run was answered by a success, or it ends with the call of
  \<^verbatim>\<open>onError\<close> on the error that was thrown, \<^verbatim>\<open>onError\<close> is called exactly once, and the
  promise rejects with that error (with what \<^verbatim>\<open>onError\<close> throws, if it throws).  A
  transport failure of any request of the run is that error, and a response that is not a
  success gives an error whose message ends with the status text of the response.
\<close>

theorem failures_reach_the_caller:
  "(\<forall>e. fetch (abort_request url headers uploadId) = Inl e \<longrightarrow>
        abortChunkedUpload fetch url uploadId headers =
          ([Sent (abort_request url headers uploadId), Received (Inl e),
            ConsoleError ''Error aborting upload:'' e],
           Inl e))
   \<and> (\<forall>response. fetch (abort_request url headers uploadId) = Inr response \<longrightarrow> \<not> ok response \<longrightarrow>
        abortChunkedUpload fetch url uploadId headers =
          ([Sent (abort_request url headers uploadId), Received (Inr response),
            ConsoleError ''Error aborting upload:''
              (Error (''Failed to abort upload: '' @ statusText response))],
           Inl (Error (''Failed to abort upload: '' @ statusText response))))
   \<and> (\<forall>e. snd (abortChunkedUpload fetch url uploadId headers) = Inl e \<longleftrightarrow>
            ConsoleError ''Error aborting upload:'' e
              \<in> set (fst (abortChunkedUpload fetch url uploadId headers)))
   \<and> (\<forall>trace result.
        uploadFileInChunks fetch url file headers metadata onProgress onError onSuccess chunkSize
          = Some (trace, result) \<longrightarrow>
          ((\<exists>v. result = Inr v \<and> error_calls trace = []
               \<and> (\<forall>x. Received x \<in> set trace \<longrightarrow> (\<exists>r. x = Inr r \<and> ok r)))
          \<or> (\<exists>e. result = Inl (rethrown onError e) \<and> error_calls trace = [e]
               \<and> last trace = OnError e))
        \<and> (\<forall>x. Received (Inl x) \<in> set trace \<longrightarrow>
              result = Inl (rethrown onError x) \<and> error_calls trace = [x])
        \<and> (\<forall>r. Received (Inr r) \<in> set trace \<longrightarrow> \<not> ok r \<longrightarrow>
              (\<exists>msg. result = Inl (rethrown onError (Error (msg @ statusText r)))
                   \<and> error_calls trace = [Error (msg @ statusText r)])))"
proof -
  have abort: "(\<forall>e. fetch (abort_request url headers uploadId) = Inl e \<longrightarrow>
        abortChunkedUpload fetch url uploadId headers =
          ([Sent (abort_request url headers uploadId), Received (Inl e),
            ConsoleError ''Error aborting upload:'' e],
           Inl e))
   \<and> (\<forall>response. fetch (abort_request url headers uploadId) = Inr response \<longrightarrow> \<not> ok response \<longrightarrow>
        abortChunkedUpload fetch url uploadId headers =
          ([Sent (abort_request url headers uploadId), Received (Inr response),
            ConsoleError ''Error aborting upload:''
              (Error (''Failed to abort upload: '' @ statusText response))],
           Inl (Error (''Failed to abort upload: '' @ statusText response))))
   \<and> (\<forall>e. snd (abortChunkedUpload fetch url uploadId headers) = Inl e \<longleftrightarrow>
            ConsoleError ''Error aborting upload:'' e
              \<in> set (fst (abortChunkedUpload fetch url uploadId headers)))"
    by (auto simp: abortChunkedUpload_unfold exchange_def split: sum.splits)
  have upload: "\<forall>trace result.
        uploadFileInChunks fetch url file headers metadata onProgress onError onSuccess chunkSize
          = Some (trace, result) \<longrightarrow>
          ((\<exists>v. result = Inr v \<and> error_calls trace = []
               \<and> (\<forall>x. Received x \<in> set trace \<longrightarrow> (\<exists>r. x = Inr r \<and> ok r)))
          \<or> (\<exists>e. result = Inl (rethrown onError e) \<and> error_calls trace = [e]
               \<and> last trace = OnError e))
        \<and> (\<forall>x. Received (Inl x) \<in> set trace \<longrightarrow>
              result = Inl (rethrown onError x) \<and> error_calls trace = [x])
        \<and> (\<forall>r. Received (Inr r) \<in> set trace \<longrightarrow> \<not> ok r \<longrightarrow>
              (\<exists>msg. result = Inl (rethrown onError (Error (msg @ statusText r)))
                   \<and> error_calls trace = [Error (msg @ statusText r)]))"
  proof (intro allI impI)
    fix trace result
    assume run: "uploadFileInChunks fetch url file headers metadata onProgress onError onSuccess
                   chunkSize = Some (trace, result)"
    from run_has_chunks[OF run] obtain chunks where
      chunks: "createFileChunks file chunkSize = Some chunks" ..
    show "((\<exists>v. result = Inr v \<and> error_calls trace = []
               \<and> (\<forall>x. Received x \<in> set trace \<longrightarrow> (\<exists>r. x = Inr r \<and> ok r)))
          \<or> (\<exists>e. result = Inl (rethrown onError e) \<and> error_calls trace = [e]
               \<and> last trace = OnError e))
        \<and> (\<forall>x. Received (Inl x) \<in> set trace \<longrightarrow>
              result = Inl (rethrown onError x) \<and> error_calls trace = [x])
        \<and> (\<forall>r. Received (Inr r) \<in> set trace \<longrightarrow> \<not> ok r \<longrightarrow>
              (\<exists>msg. result = Inl (rethrown onError (Error (msg @ statusText r)))
                   \<and> error_calls trace = [Error (msg @ statusText r)]))"
      by (rule upload_failures_surface[OF chunks run])
  qed
  from abort upload show ?thesis by (intro conjI) (elim conjE, assumption)+
qed

text \<open>
  An abort request on a network that is down, and one answered with status 500; the
  upload of the example file when chunk 1 is answered with status 500.
\<close>

theorem failures_reach_the_caller_witness:
  "offline (abort_request ''/api/upload'' [] (Val (JStr ''upload-1'')))
     = Inl (TypeError ''Failed to fetch'')
   \<and> abortChunkedUpload offline ''/api/upload'' (Val (JStr ''upload-1'')) []
     = ([Sent (abort_request ''/api/upload'' [] (Val (JStr ''upload-1''))),
         Received (Inl (TypeError ''Failed to fetch'')),
         ConsoleError ''Error aborting upload:'' (TypeError ''Failed to fetch'')],
        Inl (TypeError ''Failed to fetch''))
   \<and> unavailable (abort_request ''/api/upload'' [] (Val (JStr ''upload-1'')))
     = Inr error_response
   \<and> \<not> ok error_response
   \<and> abortChunkedUpload unavailable ''/api/upload'' (Val (JStr ''upload-1'')) []
     = ([Sent (abort_request ''/api/upload'' [] (Val (JStr ''upload-1''))),
         Received (Inr error_response),
         ConsoleError ''Error aborting upload:''
           (Error (''Failed to abort upload: '' @ statusText error_response))],
        Inl (Error (''Failed to abort upload: '' @ statusText error_response)))
   \<and> (\<exists>trace.
         uploadFileInChunks (example_server (Some 1)) ''/api/upload'' example_file [] (JObj [])
           no_callback no_callback no_callback DEFAULT_CHUNK_SIZE
           = Some (trace, Inl (Error ''Failed to upload chunk 1: Internal Server Error''))
       \<and> Received (Inr error_response) \<in> set trace
       \<and> error_calls trace = [Error ''Failed to upload chunk 1: Internal Server Error'']
       \<and> last trace = OnError (Error ''Failed to upload chunk 1: Internal Server Error''))"
proof -
  let ?abort = "abort_request ''/api/upload'' [] (Val (JStr ''upload-1''))"
  let ?error = "Error ''Failed to upload chunk 1: Internal Server Error''"
  let ?trace = "[Sent (init_request ''/api/upload'' example_file [] (JObj []) 3),
            Received (Inr (ok_response (JObj [(''uploadId'', JStr ''upload-1'')]))),
            Sent (chunk_request ''/api/upload'' [] (Val (JStr ''upload-1''))
                    \<lparr>blob_start = 0, blob_end = 1048576\<rparr> 0),
            Received (Inr (ok_response (JObj []))),
            OnProgress \<lparr>p_uploadId = Val (JStr ''upload-1''), p_totalChunks = 3,
                         p_uploadedChunks = 1, p_progress = 33\<rparr>,
            Sent (chunk_request ''/api/upload'' [] (Val (JStr ''upload-1''))
                    \<lparr>blob_start = 1048576, blob_end = 2097152\<rparr> 1),
            Received (Inr error_response),
            OnError ?error]"
  have h1: "offline ?abort = Inl (TypeError ''Failed to fetch'')"
    by (simp add: offline_def)
  have h2: "unavailable ?abort = Inr error_response"
    by (simp add: unavailable_def)
  have h3: "\<not> ok error_response"
    by (simp add: error_response_def)
  note rejected = failures_reach_the_caller[where fetch = offline
      and url = "''/api/upload''" and headers = "[]" and uploadId = "Val (JStr ''upload-1'')",
      THEN conjunct1, rule_format, OF h1]
  note not_ok = failures_reach_the_caller[where fetch = unavailable
      and url = "''/api/upload''" and headers = "[]" and uploadId = "Val (JStr ''upload-1'')",
      THEN conjunct2, THEN conjunct1, rule_format, OF h2 h3]
  note upload = failures_reach_the_caller[where fetch = "example_server (Some 1)"
      and onError = no_callback,
      THEN conjunct2, THEN conjunct2, THEN conjunct2, rule_format,
      OF example_run_chunk_1_fails, THEN conjunct2, THEN conjunct2, rule_format,
      unfolded rethrown_no_callback]
  have member: "Received (Inr error_response) \<in> set ?trace" by simp
  from upload[OF member h3] obtain msg where
    result: "(Inl ?error :: exn + json) = Inl (Error (msg @ statusText error_response))"
    and calls: "error_calls ?trace = [Error (msg @ statusText error_response)]"
    by blast
  from result have "Error (msg @ statusText error_response) = ?error" by simp
  with calls have calls': "error_calls ?trace = [?error]" by (simp only:)
  have last: "last ?trace = OnError ?error" by simp
  show ?thesis
    by (intro conjI h1 h2 h3 rejected not_ok, rule exI[of _ ?trace],
        intro conjI example_run_chunk_1_fails member calls' last)
qed

section \<open>Progress reports\<close>

subsection \<open>Rounding to a double\<close>

lemma round_half_even_error: "\<bar>of_int (round_half_even y) - y\<bar> \<le> 1 / 2"
proof -
  define f where "f = \<lfloor>y\<rfloor>"
  define r where "r = y - of_int f"
  have r: "0 \<le> r" "r < 1" unfolding r_def f_def by linarith+
  have y: "y = of_int f + r" by (simp add: r_def)
  have "round_half_even y = (if r < 1 / 2 then f else if 1 / 2 < r then f + 1
                             else if even f then f else f + 1)"
    by (simp add: round_half_even_def Let_def f_def r_def)
  then consider "round_half_even y = f" "r \<le> 1 / 2" | "round_half_even y = f + 1" "1 / 2 \<le> r"
    by (auto split: if_splits)
  then show ?thesis
  proof cases
    case 1
    then show ?thesis using r y by simp
  next
    case 2
    then show ?thesis using r y by simp
  qed
qed

lemma ilog2_lower:
  assumes "0 < x"
  shows "power_int 2 (ilog2 x) \<le> x"
proof -
  obtain p q where pq: "quotient_of x = (p, q)" by (cases "quotient_of x")
  have q: "0 < q" using quotient_of_denom_pos[OF pq] .
  have x: "x = of_int p / of_int q" using quotient_of_div[OF pq] .
  have p: "0 < p" using assms q unfolding x by (simp add: zero_less_divide_iff)
  define d where "d = bitlen p - bitlen q"
  show ?thesis
  proof (cases "power_int 2 d \<le> x")
    case True
    then show ?thesis by (simp add: ilog2_def pq d_def)
  next
    case False
    then have e: "ilog2 x = d - 1" by (simp add: ilog2_def pq d_def)
    have bp: "1 \<le> bitlen p" using p by (simp add: bitlen_alt_def)
    have bq: "0 \<le> bitlen q" by (rule bitlen_nonneg)
    have lo: "(2::int) ^ nat (bitlen p - 1) \<le> p" using bitlen_bounds[OF p] by simp
    have hi: "q < (2::int) ^ nat (bitlen q)" using bitlen_bounds[OF q] by simp
    have lo': "power_int (2::rat) (bitlen p - 1) \<le> of_int p"
    proof -
      have "power_int (2::rat) (bitlen p - 1) = 2 ^ nat (bitlen p - 1)"
        using bp by (simp add: power_int_def)
      also have "\<dots> = of_int (2 ^ nat (bitlen p - 1))" by simp
      also have "\<dots> \<le> of_int p" using lo by (simp only: of_int_le_iff)
      finally show ?thesis .
    qed
    have hi': "of_int q \<le> power_int (2::rat) (bitlen q)"
    proof -
      have "of_int q \<le> (of_int (2 ^ nat (bitlen q)) :: rat)"
        using hi by (simp only: of_int_le_iff less_imp_le)
      also have "\<dots> = 2 ^ nat (bitlen q)" by simp
      also have "\<dots> = power_int (2::rat) (bitlen q)" using bq by (simp add: power_int_def)
      finally show ?thesis .
    qed
    have "power_int (2::rat) (d - 1) = power_int 2 (bitlen p - 1) / power_int 2 (bitlen q)"
      unfolding d_def by (simp add: power_int_diff)
    also have "\<dots> \<le> of_int p / power_int 2 (bitlen q)"
      using lo' by (simp add: divide_right_mono)
    also have "\<dots> \<le> of_int p / of_int q"
      using hi' p q by (simp add: divide_left_mono)
    also have "\<dots> = x" by (simp only: x)
    finally show ?thesis unfolding e .
  qed
qed

lemma float64_error:
  assumes "0 < x"
  shows "\<bar>float64 x - x\<bar> \<le> x / 2 ^ 53"
proof -
  define ulp :: rat where "ulp = power_int 2 (ilog2 x - 52)"
  define m where "m = round_half_even (x / ulp)"
  have ulp: "0 < ulp" by (simp add: ulp_def)
  have f: "float64 x = of_int m * ulp"
    using assms by (simp add: float64_def Let_def ulp_def m_def)
  have "\<bar>of_int m * ulp - x\<bar> = \<bar>of_int m - x / ulp\<bar> * ulp"
  proof -
    have "of_int m * ulp - x = (of_int m - x / ulp) * ulp"
      using ulp by (simp add: field_simps)
    then show ?thesis using ulp by (simp add: abs_mult)
  qed
  also have "\<dots> \<le> (1 / 2) * ulp"
    using round_half_even_error[of "x / ulp"] ulp unfolding m_def
    by (intro mult_right_mono) simp_all
  also have "\<dots> = power_int 2 (ilog2 x) / 2 ^ 53"
  proof -
    have "ulp = power_int 2 (ilog2 x) / power_int 2 52"
      unfolding ulp_def by (simp add: power_int_diff)
    then show ?thesis by simp
  qed
  also have "\<dots> \<le> x / 2 ^ 53"
    using ilog2_lower[OF assms] by (simp add: divide_right_mono)
  finally show ?thesis unfolding f .
qed

lemma float64_bounds:
  assumes "0 < x"
  shows "x * (1 - 1 / 2 ^ 53) \<le> float64 x" and "float64 x \<le> x * (1 + 1 / 2 ^ 53)"
proof -
  define u :: rat where "u = x / 2 ^ 53"
  have e: "\<bar>float64 x - x\<bar> \<le> u" using float64_error[OF assms] by (simp only: u_def)
  have lo: "x * (1 - 1 / 2 ^ 53) = x - u" by (simp add: u_def algebra_simps)
  have hi: "x * (1 + 1 / 2 ^ 53) = x + u" by (simp add: u_def algebra_simps)
  have "x - u \<le> float64 x" and "float64 x \<le> x + u" using e by linarith+
  then show "x * (1 - 1 / 2 ^ 53) \<le> float64 x" and "float64 x \<le> x * (1 + 1 / 2 ^ 53)"
    by (simp_all only: lo hi)
qed

lemma float64_pos:
  assumes "0 < x"
  shows "0 < float64 x"
proof -
  have "(0::rat) < 1 - 1 / 2 ^ 53" by simp
  then have "0 < x * (1 - 1 / 2 ^ 53)" using assms by (rule mult_pos_pos[rotated])
  then show ?thesis using float64_bounds(1)[OF assms] by (rule less_le_trans)
qed

subsection \<open>The reported percentage\<close>

lemma progress_percent_unfold:
  "progress_percent k n = \<lfloor>float64 (float64 (of_nat k / of_nat n) * 100) + 1 / 2\<rfloor>"
  by (simp add: progress_percent_def Math_round_def js_mul_def js_div_def)

lemma float64_1: "float64 1 = 1"
  by code_simp

lemma float64_100: "float64 100 = 100"
  by code_simp

lemma progress_percent_complete:
  assumes "0 < n"
  shows "progress_percent n n = 100"
proof -
  have one: "(of_nat n :: rat) / of_nat n = 1" using assms by simp
  have "\<lfloor>(100::rat) + 1 / 2\<rfloor> = 100" by (simp add: floor_eq_iff)
  then show ?thesis
    by (simp only: progress_percent_unfold one float64_1 float64_100 mult_1)
qed

lemma progress_percent_zero: "progress_percent 0 n = 0"
proof -
  have zero: "float64 0 = 0" by (simp add: float64_def)
  have "\<lfloor>(0::rat) + 1 / 2\<rfloor> = 0" by (simp add: floor_eq_iff)
  then show ?thesis
    by (simp only: progress_percent_unfold of_nat_0 div_0 zero mult_zero_left)
qed

text \<open>
  The double computed for \<open>k / n * 100\<close> is at most the exact value times \<open>(1 + 2\<^sup>-\<^sup>5\<^sup>3)\<^sup>2\<close>.
\<close>

lemma scaled_ratio_upper:
  assumes k: "0 < k"
  and n: "0 < n"
  shows "float64 (float64 (of_nat k / of_nat n) * 100)
           \<le> 100 * (of_nat k / of_nat n) * ((1 + 1 / 2 ^ 53) * (1 + 1 / 2 ^ 53))"
proof -
  define x :: rat where "x = of_nat k / of_nat n"
  define w :: rat where "w = 1 + 1 / 2 ^ 53"
  have w: "0 < w" by (simp add: w_def)
  have x: "0 < x" using k n by (simp add: x_def)
  have a: "float64 x \<le> x * w" using float64_bounds(2)[OF x] by (simp only: w_def)
  have apos: "0 < float64 x * 100" using float64_pos[OF x] by simp
  have "float64 (float64 x * 100) \<le> (float64 x * 100) * w"
    using float64_bounds(2)[OF apos] by (simp only: w_def)
  also have "\<dots> \<le> ((x * w) * 100) * w"
    using a w by (intro mult_right_mono) simp_all
  also have "\<dots> = 100 * x * (w * w)" by (simp add: algebra_simps)
  finally show ?thesis unfolding x_def w_def .
qed

lemma progress_percent_100_only_near_end:
  assumes k: "0 < k"
    and n: "n \<le> 2 ^ 32"
    and less: "200 * k < 199 * n"
  shows "progress_percent k n < 100"
proof -
  define c :: rat where "c = (1 + 1 / 2 ^ 53) * (1 + 1 / 2 ^ 53)"
  define K :: rat where "K = of_nat k"
  define N :: rat where "N = of_nat n"
  have npos: "0 < n" using less by (cases n) simp_all
  have N: "0 < N" "N \<le> 2 ^ 32"
  proof -
    show "0 < N" using npos by (simp add: N_def)
    have "(of_nat n :: rat) \<le> of_nat (2 ^ 32)" using n by (simp only: of_nat_le_iff)
    then show "N \<le> 2 ^ 32" by (simp add: N_def)
  qed
  have c1: "1 < c" by (simp add: c_def)
  have c2: "199 * 2 ^ 32 * (c - 1) < 1" by (simp add: c_def)
  have "200 * k + 1 \<le> 199 * n" using less by simp
  then have "(of_nat (200 * k + 1) :: rat) \<le> of_nat (199 * n)" by (simp only: of_nat_le_iff)
  then have kn: "200 * K + 1 \<le> 199 * N" by (simp add: K_def N_def)
  have "199 * N * (c - 1) \<le> 199 * 2 ^ 32 * (c - 1)"
    using N c1 by (intro mult_right_mono mult_left_mono) simp_all
  from this c2 have d: "199 * N * (c - 1) < 1" by (rule le_less_trans)
  have "200 * K * c \<le> (199 * N - 1) * c"
    using kn c1 by (intro mult_right_mono) simp_all
  also have "\<dots> = 199 * N + (199 * N * (c - 1) - c)" by (simp add: algebra_simps)
  also have "\<dots> < 199 * N" using d c1 by simp
  finally have e: "200 * K * c < 199 * N" .
  have "100 * (K / N) * c = (200 * K * c) / (2 * N)" using N by (simp add: field_simps)
  also have "\<dots> < (199 * N) / (2 * N)"
    using e N by (intro divide_strict_right_mono) simp_all
  also have "\<dots> = 199 / 2" using N by simp
  finally have "100 * (K / N) * c < 199 / 2" .
  moreover have "float64 (float64 (K / N) * 100) \<le> 100 * (K / N) * c"
    using scaled_ratio_upper[OF k npos] by (simp only: K_def N_def c_def)
  ultimately have "float64 (float64 (K / N) * 100) + 1 / 2 < 100" by simp
  then have "\<lfloor>float64 (float64 (K / N) * 100) + 1 / 2\<rfloor> < 100" by (simp add: floor_less_iff)
  then show ?thesis by (simp only: progress_percent_unfold K_def N_def)
qed

lemma progress_percent_below_200_chunks:
  assumes "k < n" and "n < 200"
  shows "progress_percent k n < 100"
proof (cases "k = 0")
  case True
  then show ?thesis by (simp add: progress_percent_zero)
next
  case False
  then have k: "0 < k" by simp
  have "n \<le> 2 ^ 32" using assms(2) by simp
  moreover have "200 * k < 199 * n" using assms by simp
  ultimately show ?thesis using k by (intro progress_percent_100_only_near_end)
qed

text \<open>
  It is at least the exact value times \<open>(1 - 2\<^sup>-\<^sup>5\<^sup>3)\<^sup>2\<close>, so from a ratio of 0.995 on the
  percentage is 100.
\<close>

lemma scaled_ratio_lower:
  assumes k: "0 < k"
  and n: "0 < n"
  shows "100 * (of_nat k / of_nat n) * ((1 - 1 / 2 ^ 53) * (1 - 1 / 2 ^ 53))
           \<le> float64 (float64 (of_nat k / of_nat n) * 100)"
proof -
  define x :: rat where "x = of_nat k / of_nat n"
  define w :: rat where "w = 1 - 1 / 2 ^ 53"
  have w: "0 < w" by (simp add: w_def)
  have x: "0 < x" using k n by (simp add: x_def)
  have a: "x * w \<le> float64 x" using float64_bounds(1)[OF x] by (simp only: w_def)
  have apos: "0 < float64 x * 100" using float64_pos[OF x] by simp
  have "100 * x * (w * w) = ((x * w) * 100) * w" by (simp add: algebra_simps)
  also have "\<dots> \<le> (float64 x * 100) * w"
    using a w by (intro mult_right_mono) simp_all
  also have "\<dots> \<le> float64 (float64 x * 100)"
    using float64_bounds(1)[OF apos] by (simp only: w_def)
  finally show ?thesis unfolding x_def w_def .
qed

lemma percent_199_of_200: "progress_percent 199 200 = 100"
  by code_simp

lemma progress_percent_100_near_end:
  assumes k: "k \<le> n"
    and n: "n \<le> 2 ^ 32"
    and near: "199 * n \<le> 200 * k"
    and npos: "0 < n"
  shows "progress_percent k n = 100"
proof (cases "199 * n = 200 * k")
  case True
  then have "(of_nat (199 * n) :: rat) = of_nat (200 * k)" by (simp only:)
  then have "199 * (of_nat n :: rat) = 200 * of_nat k" by simp
  then have "(of_nat k :: rat) / of_nat n = of_nat 199 / of_nat 200"
    using npos by (simp add: field_simps)
  then have "progress_percent k n = progress_percent 199 200"
    by (simp only: progress_percent_unfold)
  then show ?thesis by (simp only: percent_199_of_200)
next
  case False
  define c :: rat where "c = (1 - 1 / 2 ^ 53) * (1 - 1 / 2 ^ 53)"
  define d :: rat where "d = (1 + 1 / 2 ^ 53) * (1 + 1 / 2 ^ 53)"
  define K :: rat where "K = of_nat k"
  define N :: rat where "N = of_nat n"
  have kpos: "0 < k" using near npos by (cases k) simp_all
  have N: "0 < N" "N \<le> 2 ^ 32"
  proof -
    show "0 < N" using npos by (simp add: N_def)
    have "(of_nat n :: rat) \<le> of_nat (2 ^ 32)" using n by (simp only: of_nat_le_iff)
    then show "N \<le> 2 ^ 32" by (simp add: N_def)
  qed
  have KN: "K \<le> N" unfolding K_def N_def using k by (simp only: of_nat_le_iff)
  have c1: "0 < c" "c < 1" by (simp_all add: c_def)
  have c2: "199 * 2 ^ 32 * (1 - c) < c" by (simp add: c_def)
  have d1: "100 * d < 201 / 2" by (simp add: d_def)
  have d0: "0 < d" by (simp add: d_def)
  have "199 * n + 1 \<le> 200 * k" using near False by simp
  then have "(of_nat (199 * n + 1) :: rat) \<le> of_nat (200 * k)" by (simp only: of_nat_le_iff)
  then have kn: "199 * N + 1 \<le> 200 * K" by (simp add: K_def N_def)
  have "199 * N * (1 - c) \<le> 199 * 2 ^ 32 * (1 - c)"
    using N c1 by (intro mult_right_mono mult_left_mono) simp_all
  from this c2 have e: "199 * N * (1 - c) < c" by (rule le_less_trans)
  have "199 * N = (199 * N + 1) * c + (199 * N * (1 - c) - c)" by (simp add: algebra_simps)
  also have "\<dots> < (199 * N + 1) * c" using e by simp
  also have "\<dots> \<le> 200 * K * c" using kn c1 by (intro mult_right_mono) simp_all
  finally have f: "199 * N < 200 * K * c" .
  have "(199::rat) / 2 = (199 * N) / (2 * N)" using N by simp
  also have "\<dots> < (200 * K * c) / (2 * N)"
    using f N by (intro divide_strict_right_mono) simp_all
  also have "\<dots> = 100 * (K / N) * c" using N by (simp add: field_simps)
  finally have lower: "199 / 2 < 100 * (K / N) * c" .
  have ratio: "K / N \<le> 1" using KN N by simp
  have "100 * (K / N) * d \<le> 100 * 1 * d"
    using ratio d0 by (intro mult_right_mono mult_left_mono) simp_all
  then have upper: "100 * (K / N) * d < 201 / 2" using d1 by simp
  define p where "p = float64 (float64 (K / N) * 100)"
  have "100 * (K / N) * c \<le> p"
    unfolding p_def using scaled_ratio_lower[OF kpos npos] by (simp only: K_def N_def c_def)
  with lower have lo: "100 \<le> p + 1 / 2" by simp
  have "p \<le> 100 * (K / N) * d"
    unfolding p_def using scaled_ratio_upper[OF kpos npos] by (simp only: K_def N_def d_def)
  with upper have hi: "p + 1 / 2 < 101" by simp
  have "\<lfloor>p + 1 / 2\<rfloor> = 100" using lo hi by (simp add: floor_eq_iff)
  then show ?thesis by (simp only: progress_percent_unfold K_def N_def p_def)
qed

lemma progress_percent_100_iff:
  assumes "0 < k" and "k \<le> n" and "n \<le> 2 ^ 32"
  shows "progress_percent k n = 100 \<longleftrightarrow> 199 * n \<le> 200 * k"
proof
  assume h: "progress_percent k n = 100"
  show "199 * n \<le> 200 * k"
  proof (rule ccontr)
    assume "\<not> 199 * n \<le> 200 * k"
    then have "200 * k < 199 * n" by simp
    from progress_percent_100_only_near_end[OF assms(1,3) this] h show False by simp
  qed
next
  assume "199 * n \<le> 200 * k"
  moreover have "0 < n" using assms by simp
  ultimately show "progress_percent k n = 100"
    using assms by (intro progress_percent_100_near_end)
qed

lemma percent_200_of_201: "progress_percent 200 201 = 100"
  by code_simp

lemma long_file_chunks:
  "createFileChunks long_file DEFAULT_CHUNK_SIZE
     = Some (map (chunk_at 210763776 1048576 0) [0..<201])"
proof -
  have "(0::int) < 1048576" by simp
  from createFileChunks_closed_form[OF this, of long_file]
  show ?thesis by (simp add: long_file_def DEFAULT_CHUNK_SIZE_def)
qed

lemma example_server_init:
  "init_outcome (example_server failing (init_request ''/api/upload'' file headers metadata n))
     = Inr (Val (JStr ''upload-1''))"
  by (simp add: example_server_def init_request_def init_outcome_def ok_response_def)

lemma example_server_other_chunk:
  assumes "j \<noteq> i"
  shows "chunk_outcome j
           (example_server (Some i) (chunk_request ''/api/upload'' headers uploadId c j)) = Inr ()"
  using assms
  by (simp add: example_server_def chunk_request_def chunk_outcome_def ok_response_def)

lemma example_server_failing_chunk:
  "chunk_outcome i
     (example_server (Some i) (chunk_request ''/api/upload'' headers uploadId c i))
   = Inl (chunk_error i error_response)"
  by (simp add: example_server_def chunk_request_def chunk_outcome_def error_response_def)

lemma chunk_error_200:
  "chunk_error 200 error_response = Error ''Failed to upload chunk 200: Internal Server Error''"
  by code_simp

text \<open>
  Claim C2 says that the reported percentage reaches 100 only after the last chunk has
  been acknowledged.  \<^verbatim>\<open>Math.round\<close> rounds to the nearest integer, so with 201 chunks the
  report after the 200th acknowledgment already says 100 (200 / 201 is 99.5 percent).  In
  the run below the last chunk is then rejected: 100 percent was reported, the last chunk
  was never acknowledged and the upload failed.
\<close>

theorem percent_100_before_last_chunk_counterexample:
  "map_option snd
     (uploadFileInChunks (example_server (Some 200)) ''/api/upload'' long_file [] (JObj [])
        no_callback no_callback no_callback DEFAULT_CHUNK_SIZE)
     = Some (Inl (Error ''Failed to upload chunk 200: Internal Server Error''))
   \<and> map_option (\<lambda>run. last (progress_reports (fst run)))
     (uploadFileInChunks (example_server (Some 200)) ''/api/upload'' long_file [] (JObj [])
        no_callback no_callback no_callback DEFAULT_CHUNK_SIZE)
     = Some \<lparr>p_uploadId = Val (JStr ''upload-1''), p_totalChunks = 201,
              p_uploadedChunks = 200, p_progress = 100\<rparr>"
proof -
  let ?chunks = "map (chunk_at 210763776 1048576 0) [0..<201]"
  let ?id = "Val (JStr ''upload-1'')"
  let ?fetch = "example_server (Some 200)"
  have len: "length ?chunks = 201" by simp
  have i: "200 < length ?chunks" by simp
  have before: "\<forall>j<200.
      chunk_outcome j (?fetch (chunk_request ''/api/upload'' [] ?id (?chunks ! j) j)) = Inr ()
    \<and> no_callback (progress_report ?id (length ?chunks) (j + 1)) = None"
    by (simp add: example_server_other_chunk no_callback_def)
  have fail: "chunk_outcome 200 (?fetch (chunk_request ''/api/upload'' [] ?id (?chunks ! 200) 200))
                = Inl (chunk_error 200 error_response)"
    by (rule example_server_failing_chunk)
  define T where "T =
      exchange ?fetch (init_request ''/api/upload'' long_file [] (JObj []) (length ?chunks))
        @ chunk_rounds ?fetch ''/api/upload'' [] ?id ?chunks 200
        @ exchange ?fetch (chunk_request ''/api/upload'' [] ?id (?chunks ! 200) 200)
        @ [OnError (chunk_error 200 error_response)]"
  have run: "uploadFileInChunks ?fetch ''/api/upload'' long_file [] (JObj [])
        no_callback no_callback no_callback DEFAULT_CHUNK_SIZE
      = Some (T, Inl (rethrown no_callback (chunk_error 200 error_response)))"
    unfolding T_def
    by (rule run_chunk_failed[where fetch = ?fetch and onProgress = no_callback,
          OF long_file_chunks example_server_init i before fail])
  have reports: "progress_reports T = map (progress_report ?id 201) [1..<Suc 200]"
    unfolding T_def
    by (simp only: progress_reports_simps exchange_projections progress_reports_chunk_rounds
          len append_Nil append_Nil2)
  have "last (map (progress_report ?id 201) [1..<Suc 200]) = progress_report ?id 201 200"
    by (simp add: last_map)
  also have "\<dots> = \<lparr>p_uploadId = ?id, p_totalChunks = 201, p_uploadedChunks = 200,
                      p_progress = 100\<rparr>"
    by (simp add: progress_report_def percent_200_of_201)
  finally have last: "last (progress_reports T)
      = \<lparr>p_uploadId = ?id, p_totalChunks = 201, p_uploadedChunks = 200, p_progress = 100\<rparr>"
    unfolding reports .
  have res: "rethrown no_callback (chunk_error 200 error_response)
      = Error ''Failed to upload chunk 200: Internal Server Error''"
    by (simp only: rethrown_no_callback chunk_error_200)
  show ?thesis
    unfolding run by (simp only: option.map snd_conv fst_conv last res simp_thms)
qed

text \<open>
  The run of the counterexample, event by event: 200 complete rounds, then the request for
  chunk 200 and its rejection.
\<close>

lemma long_file_run:
  "uploadFileInChunks (example_server (Some 200)) ''/api/upload'' long_file [] (JObj [])
     no_callback no_callback no_callback DEFAULT_CHUNK_SIZE
   = Some (exchange (example_server (Some 200))
             (init_request ''/api/upload'' long_file [] (JObj [])
                (length (map (chunk_at 210763776 1048576 0) [0..<201])))
           @ chunk_rounds (example_server (Some 200)) ''/api/upload'' [] (Val (JStr ''upload-1''))
               (map (chunk_at 210763776 1048576 0) [0..<201]) 200
           @ exchange (example_server (Some 200))
               (chunk_request ''/api/upload'' [] (Val (JStr ''upload-1''))
                  (map (chunk_at 210763776 1048576 0) [0..<201] ! 200) 200)
           @ [OnError (chunk_error 200 error_response)],
           Inl (Error ''Failed to upload chunk 200: Internal Server Error''))"
proof -
  let ?chunks = "map (chunk_at 210763776 1048576 0) [0..<201]"
  let ?id = "Val (JStr ''upload-1'')"
  let ?fetch = "example_server (Some 200)"
  have i: "200 < length ?chunks" by simp
  have before: "\<forall>j<200.
      chunk_outcome j (?fetch (chunk_request ''/api/upload'' [] ?id (?chunks ! j) j)) = Inr ()
    \<and> no_callback (progress_report ?id (length ?chunks) (j + 1)) = None"
    by (simp add: example_server_other_chunk no_callback_def)
  have fail: "chunk_outcome 200 (?fetch (chunk_request ''/api/upload'' [] ?id (?chunks ! 200) 200))
                = Inl (chunk_error 200 error_response)"
    by (rule example_server_failing_chunk)
  have res: "rethrown no_callback (chunk_error 200 error_response)
      = Error ''Failed to upload chunk 200: Internal Server Error''"
    by (simp only: rethrown_no_callback chunk_error_200)
  show ?thesis
    using run_chunk_failed[where fetch = ?fetch and onProgress = no_callback
          and onError = no_callback and onSuccess = no_callback,
          OF long_file_chunks example_server_init i before fail]
    unfolding res .
qed

lemma long_file_acks:
  "chunk_acks ''/api/upload''
     (exchange (example_server (Some 200))
        (init_request ''/api/upload'' long_file [] (JObj [])
           (length (map (chunk_at 210763776 1048576 0) [0..<201])))
      @ chunk_rounds (example_server (Some 200)) ''/api/upload'' [] (Val (JStr ''upload-1''))
          (map (chunk_at 210763776 1048576 0) [0..<201]) 200
      @ exchange (example_server (Some 200))
          (chunk_request ''/api/upload'' [] (Val (JStr ''upload-1''))
             (map (chunk_at 210763776 1048576 0) [0..<201] ! 200) 200)
      @ [OnError (chunk_error 200 error_response)]) = 200"
proof -
  let ?chunks = "map (chunk_at 210763776 1048576 0) [0..<201]"
  let ?id = "Val (JStr ''upload-1'')"
  let ?fetch = "example_server (Some 200)"
  have before: "\<forall>j<200.
      chunk_outcome j (?fetch (chunk_request ''/api/upload'' [] ?id (?chunks ! j) j)) = Inr ()"
    by (simp add: example_server_other_chunk)
  have fail: "chunk_outcome 200 (?fetch (chunk_request ''/api/upload'' [] ?id (?chunks ! 200) 200))
                = Inl (chunk_error 200 error_response)"
    by (rule example_server_failing_chunk)
  show ?thesis
    using chunk_acks_chunk_rounds[where fetch = ?fetch, OF before]
      chunk_acks_failed_chunk[where fetch = ?fetch, OF fail]
    by simp
qed

lemma run_rounds:
  assumes chunks: "createFileChunks file chunkSize = Some chunks"
    and run: "uploadFileInChunks fetch url file headers metadata onProgress onError onSuccess
                chunkSize = Some (trace, result)"
  shows "\<exists>uploadId m rest.
      m \<le> length chunks
    \<and> trace = exchange fetch (init_request url file headers metadata (length chunks))
              @ chunk_rounds fetch url headers uploadId chunks m @ rest
    \<and> (\<forall>j<m. chunk_outcome j (fetch (chunk_request url headers uploadId (chunks ! j) j))
                 = Inr ())
    \<and> chunk_acks url rest = 0
    \<and> progress_reports rest = []
    \<and> ((\<exists>q\<in>set (sent_requests trace). req_url q = url @ ''/complete'') \<longrightarrow>
          m = length chunks \<and> sent_requests rest = [complete_request url headers uploadId])"
  using chunks run
proof (cases rule: upload_run_cases)
  case (init_failed e)
  show ?thesis
    by (rule exI[of _ Undefined], rule exI[of _ 0], rule exI[of _ "[OnError e]"])
       (simp add: init_failed)
next
  case (chunk_failed uploadId m e)
  show ?thesis
    by (rule exI[of _ uploadId], rule exI[of _ m],
        rule exI[of _ "exchange fetch (chunk_request url headers uploadId (chunks ! m) m)
                         @ [OnError e]"])
       (use chunk_failed chunk_acks_failed_chunk[where fetch = fetch and es = "[OnError e]",
              OF chunk_failed(4)] in auto)
next
  case (progress_threw uploadId m e)
  show ?thesis
    by (rule exI[of _ uploadId], rule exI[of _ "Suc m"], rule exI[of _ "[OnError e]"])
       (use progress_threw in \<open>auto simp: less_Suc_eq\<close>)
next
  case (complete_failed uploadId e)
  show ?thesis
    by (rule exI[of _ uploadId], rule exI[of _ "length chunks"],
        rule exI[of _ "exchange fetch (complete_request url headers uploadId) @ [OnError e]"])
       (use complete_failed in simp)
next
  case (success_threw uploadId v e)
  show ?thesis
    by (rule exI[of _ uploadId], rule exI[of _ "length chunks"],
        rule exI[of _ "exchange fetch (complete_request url headers uploadId)
                         @ [OnSuccess v, OnError e]"])
       (use success_threw in simp)
next
  case (succeeded uploadId v)
  show ?thesis
    by (rule exI[of _ uploadId], rule exI[of _ "length chunks"],
        rule exI[of _ "exchange fetch (complete_request url headers uploadId) @ [OnSuccess v]"])
       (use succeeded in simp)
qed

lemma progress_report_formula:
  "progress_report uploadId n =
     (\<lambda>k. \<lparr>p_uploadId = uploadId, p_totalChunks = n, p_uploadedChunks = k,
             p_progress = Math_round (js_mul (js_div (of_nat k) (of_nat n)) 100)\<rparr>)"
  by (rule ext) (simp add: progress_report_def progress_percent_def)

lemma percent_scenario:
  "progress_percent 1 3 = 33" "progress_percent 2 3 = 67" "progress_percent 3 3 = 100"
  by code_simp+

lemma scenario_chunk_count:
  assumes "createFileChunks file DEFAULT_CHUNK_SIZE = Some chunks"
    and "file_size file = 2621440"
  shows "length chunks = 3"
proof -
  have "(0::int) < DEFAULT_CHUNK_SIZE" by (simp add: DEFAULT_CHUNK_SIZE_def)
  from createFileChunks_closed_form[OF this, of "file"] assms
  have "chunks = map (chunk_at 2621440 DEFAULT_CHUNK_SIZE 0)
                   [0..<nat ((2621440 + DEFAULT_CHUNK_SIZE - 1) div DEFAULT_CHUNK_SIZE)]"
    by simp
  then show ?thesis by (simp add: DEFAULT_CHUNK_SIZE_def)
qed

text \<open>
  \<^bold>\<open>Claim C2, amended.\<close>  Every run starts with the init request and its response,
  followed by \<open>m\<close> complete rounds and a rest.  A round is a chunk request, its response,
  which is a success, and directly after it the call of the progress callback with the
  record of \<^verbatim>\<open>uploadId\<close>, \<^verbatim>\<open>totalChunks\<close>, \<^verbatim>\<open>uploadedChunks\<close> and
  \<^verbatim>\<open>progress = Math.round((uploadedChunks / totalChunks) * 100)\<close>, computed on doubles; the
  rest has no acknowledged chunk and no progress call.  So the callback is called after
  every acknowledged chunk and only then.  The report after the last chunk says exactly
  100, and the complete request, if it is sent at all, comes after all rounds.  A report
  says 100 exactly when \<open>uploadedChunks / totalChunks \<ge> 0.995\<close> (for up to \<open>2\<^sup>3\<^sup>2\<close> chunks,
  the bound on the length of an array): with fewer than 200 chunks only the report after
  the last chunk says 100, and from 200 chunks on the report after the last chunk but one
  already says 100.  For a file of 2.5 MiB and chunks of 1 MiB there are 3 chunks, and
  when all three are acknowledged the reported percentages are 33, 67, 100.
\<close>

theorem progress_reported_after_each_acknowledged_chunk:
  assumes chunks: "createFileChunks file chunkSize = Some chunks"
    and run: "uploadFileInChunks fetch url file headers metadata onProgress onError onSuccess
                chunkSize = Some (trace, result)"
  shows "\<exists>uploadId m rest.
      m \<le> length chunks
    \<and> trace = exchange fetch (init_request url file headers metadata (length chunks))
              @ chunk_rounds fetch url headers uploadId chunks m @ rest
    \<and> (\<forall>j<m. \<exists>r. fetch (chunk_request url headers uploadId (chunks ! j) j) = Inr r \<and> ok r)
    \<and> chunk_acks url rest = 0
    \<and> progress_reports rest = []
    \<and> chunk_acks url trace = m
    \<and> progress_reports trace
        = map (\<lambda>k. \<lparr>p_uploadId = uploadId, p_totalChunks = length chunks,
                      p_uploadedChunks = k,
                      p_progress = Math_round (js_mul (js_div (of_nat k)
                                                  (of_nat (length chunks))) 100)\<rparr>)
            [1..<Suc m]
    \<and> (0 < m \<longrightarrow> m = length chunks \<longrightarrow> p_progress (last (progress_reports trace)) = 100)
    \<and> ((\<exists>q\<in>set (sent_requests trace). req_url q = url @ ''/complete'') \<longrightarrow>
          m = length chunks \<and> sent_requests rest = [complete_request url headers uploadId])
    \<and> (length chunks < 200 \<longrightarrow>
          (\<forall>p\<in>set (progress_reports trace).
             p_progress p = 100 \<longrightarrow> p_uploadedChunks p = length chunks))
    \<and> (length chunks \<le> 2 ^ 32 \<longrightarrow>
          (\<forall>p\<in>set (progress_reports trace).
             p_progress p = 100 \<longleftrightarrow> 199 * length chunks \<le> 200 * p_uploadedChunks p))
    \<and> (200 \<le> length chunks \<longrightarrow> length chunks \<le> 2 ^ 32 \<longrightarrow> length chunks - 1 \<le> m \<longrightarrow>
          progress_reports trace ! (length chunks - 2)
            = \<lparr>p_uploadId = uploadId, p_totalChunks = length chunks,
               p_uploadedChunks = length chunks - 1, p_progress = 100\<rparr>)
    \<and> (file_size file = 2621440 \<longrightarrow> chunkSize = DEFAULT_CHUNK_SIZE \<longrightarrow>
          length chunks = 3
        \<and> (m = 3 \<longrightarrow> map p_progress (progress_reports trace) = [33, 67, 100]))"
proof -
  let ?n = "length chunks"
  from run_rounds[OF chunks run] obtain uploadId m rest where
    m: "m \<le> ?n" and
    trace: "trace = exchange fetch (init_request url file headers metadata ?n)
              @ chunk_rounds fetch url headers uploadId chunks m @ rest" and
    acked: "\<forall>j<m. chunk_outcome j (fetch (chunk_request url headers uploadId (chunks ! j) j))
                  = Inr ()" and
    rest: "chunk_acks url rest = 0" "progress_reports rest = []" and
    complete: "(\<exists>q\<in>set (sent_requests trace). req_url q = url @ ''/complete'') \<longrightarrow>
          m = ?n \<and> sent_requests rest = [complete_request url headers uploadId]"
    by (elim exE conjE) (rule that; assumption)
  have acked': "\<forall>j<m. \<exists>r. fetch (chunk_request url headers uploadId (chunks ! j) j) = Inr r \<and> ok r"
    using acked by (simp add: chunk_outcome_acked)
  have acks: "chunk_acks url trace = m"
    unfolding trace using chunk_acks_chunk_rounds[where fetch = fetch and es = rest, OF acked] rest
    by simp
  have reports: "progress_reports trace = map (progress_report uploadId ?n) [1..<Suc m]"
    unfolding trace using rest by simp
  have reports': "progress_reports trace
        = map (\<lambda>k. \<lparr>p_uploadId = uploadId, p_totalChunks = ?n, p_uploadedChunks = k,
                      p_progress = Math_round (js_mul (js_div (of_nat k) (of_nat ?n)) 100)\<rparr>)
            [1..<Suc m]"
    unfolding reports by (simp only: progress_report_formula)
  have final: "0 < m \<longrightarrow> m = ?n \<longrightarrow> p_progress (last (progress_reports trace)) = 100"
  proof (intro impI)
    assume "0 < m" and "m = ?n"
    have "[1..<Suc m] = [1..<m] @ [m]" using \<open>0 < m\<close> by (simp add: Suc_le_eq)
    then have "last (progress_reports trace) = progress_report uploadId ?n m"
      unfolding reports by simp
    then have "last (progress_reports trace) = progress_report uploadId ?n ?n"
      using \<open>m = ?n\<close> by simp
    then show "p_progress (last (progress_reports trace)) = 100"
      using \<open>0 < m\<close> \<open>m = ?n\<close> by (simp add: progress_percent_complete)
  qed
  have member: "\<exists>k. 0 < k \<and> k \<le> ?n \<and> p = progress_report uploadId ?n k"
    if "p \<in> set (progress_reports trace)" for p
  proof -
    from that obtain k where k: "k \<in> set [1..<Suc m]" "p = progress_report uploadId ?n k"
      unfolding reports by auto
    from k(1) m have "0 < k" "k \<le> ?n" by auto
    with k(2) show ?thesis by blast
  qed
  have small: "?n < 200 \<longrightarrow>
          (\<forall>p\<in>set (progress_reports trace). p_progress p = 100 \<longrightarrow> p_uploadedChunks p = ?n)"
  proof (intro impI ballI)
    fix p
    assume n: "?n < 200" and p: "p \<in> set (progress_reports trace)" and hundred: "p_progress p = 100"
    from member[OF p] obtain k where k: "0 < k" "k \<le> ?n" "p = progress_report uploadId ?n k"
      by blast
    have "\<not> k < ?n"
    proof
      assume "k < ?n"
      from progress_percent_below_200_chunks[OF this n] hundred k(3) show False by simp
    qed
    then show "p_uploadedChunks p = ?n" using k by simp
  qed
  have general: "?n \<le> 2 ^ 32 \<longrightarrow>
          (\<forall>p\<in>set (progress_reports trace).
             p_progress p = 100 \<longleftrightarrow> 199 * ?n \<le> 200 * p_uploadedChunks p)"
  proof (intro impI ballI)
    fix p
    assume n: "?n \<le> 2 ^ 32" and p: "p \<in> set (progress_reports trace)"
    from member[OF p] obtain k where k: "0 < k" "k \<le> ?n" "p = progress_report uploadId ?n k"
      by blast
    show "p_progress p = 100 \<longleftrightarrow> 199 * ?n \<le> 200 * p_uploadedChunks p"
      unfolding k(3) using progress_percent_100_iff[OF k(1,2) n] by simp
  qed
  have early: "200 \<le> ?n \<longrightarrow> ?n \<le> 2 ^ 32 \<longrightarrow> ?n - 1 \<le> m \<longrightarrow>
          progress_reports trace ! (?n - 2)
            = \<lparr>p_uploadId = uploadId, p_totalChunks = ?n, p_uploadedChunks = ?n - 1,
               p_progress = 100\<rparr>"
  proof (intro impI)
    assume big: "200 \<le> ?n" and n: "?n \<le> 2 ^ 32" and reached: "?n - 1 \<le> m"
    have less: "?n - 2 < m" using big reached by arith
    then have idx: "?n - 2 < length [1..<Suc m]" by simp
    have "1 + (?n - 2) < Suc m" using less by simp
    then have "[1..<Suc m] ! (?n - 2) = 1 + (?n - 2)" by (rule nth_upt)
    moreover have "1 + (?n - 2) = ?n - 1" using big by arith
    ultimately have upt: "[1..<Suc m] ! (?n - 2) = ?n - 1" by (simp only:)
    have "199 * ?n \<le> 200 * (?n - 1)" using big by linarith
    moreover have "?n - 1 \<le> ?n" by linarith
    moreover have "0 < ?n" using big by linarith
    ultimately have hundred: "progress_percent (?n - 1) ?n = 100"
      using n by (intro progress_percent_100_near_end)
    have "progress_reports trace ! (?n - 2) = progress_report uploadId ?n (?n - 1)"
      unfolding reports using idx upt by (simp only: nth_map)
    then show "progress_reports trace ! (?n - 2)
            = \<lparr>p_uploadId = uploadId, p_totalChunks = ?n, p_uploadedChunks = ?n - 1,
               p_progress = 100\<rparr>"
      by (simp only: progress_report_def hundred)
  qed
  have scenario: "file_size file = 2621440 \<longrightarrow> chunkSize = DEFAULT_CHUNK_SIZE \<longrightarrow>
          ?n = 3 \<and> (m = 3 \<longrightarrow> map p_progress (progress_reports trace) = [33, 67, 100])"
  proof (intro impI conjI)
    assume size: "file_size file = 2621440" and default: "chunkSize = DEFAULT_CHUNK_SIZE"
    show n3: "?n = 3" using scenario_chunk_count[of "file" chunks] chunks size default by simp
    assume m3: "m = 3"
    have upt: "[1..<Suc 3] = [1, 2, 3::nat]" by code_simp
    show "map p_progress (progress_reports trace) = [33, 67, 100]"
      unfolding reports m3 n3 upt
      by (simp only: list.map p_uploadedChunks_progress_report percent_scenario)
  qed
  show ?thesis
    by (rule exI[of _ uploadId], rule exI[of _ m], rule exI[of _ rest])
       (intro conjI m trace acked' rest acks reports' final complete small general early
          scenario)
qed

text \<open>
  The example file on the example server: three acknowledged chunks, 33, 67, 100.  The
  file of 201 chunks: the report after 200 acknowledged chunks says 100.
\<close>

theorem progress_reported_after_each_acknowledged_chunk_witness:
  "createFileChunks example_file DEFAULT_CHUNK_SIZE
     = Some [\<lparr>blob_start = 0, blob_end = 1048576\<rparr>,
             \<lparr>blob_start = 1048576, blob_end = 2097152\<rparr>,
             \<lparr>blob_start = 2097152, blob_end = 2621440\<rparr>]
   \<and> file_size example_file = 2621440
   \<and> (\<exists>trace.
         uploadFileInChunks (example_server None) ''/api/upload'' example_file [] (JObj [])
           no_callback no_callback no_callback DEFAULT_CHUNK_SIZE
           = Some (trace, Inr example_artifact)
       \<and> chunk_acks ''/api/upload'' trace = 3
       \<and> map p_progress (progress_reports trace) = [33, 67, 100])
   \<and> createFileChunks long_file DEFAULT_CHUNK_SIZE
       = Some (map (chunk_at 210763776 1048576 0) [0..<201])
   \<and> (\<exists>trace.
         uploadFileInChunks (example_server (Some 200)) ''/api/upload'' long_file [] (JObj [])
           no_callback no_callback no_callback DEFAULT_CHUNK_SIZE
           = Some (trace, Inl (Error ''Failed to upload chunk 200: Internal Server Error''))
       \<and> chunk_acks ''/api/upload'' trace = 200
       \<and> p_uploadedChunks (progress_reports trace ! 199) = 200
       \<and> p_progress (progress_reports trace ! 199) = 100)"
proof -
  let ?chunks = "[\<lparr>blob_start = 0, blob_end = 1048576\<rparr>,
             \<lparr>blob_start = 1048576, blob_end = 2097152\<rparr>,
             \<lparr>blob_start = 2097152, blob_end = 2621440\<rparr>]"
  let ?trace = "[Sent (init_request ''/api/upload'' example_file [] (JObj []) 3),
            Received (Inr (ok_response (JObj [(''uploadId'', JStr ''upload-1'')]))),
            Sent (chunk_request ''/api/upload'' [] (Val (JStr ''upload-1''))
                    \<lparr>blob_start = 0, blob_end = 1048576\<rparr> 0),
            Received (Inr (ok_response (JObj []))),
            OnProgress \<lparr>p_uploadId = Val (JStr ''upload-1''), p_totalChunks = 3,
                         p_uploadedChunks = 1, p_progress = 33\<rparr>,
            Sent (chunk_request ''/api/upload'' [] (Val (JStr ''upload-1''))
                    \<lparr>blob_start = 1048576, blob_end = 2097152\<rparr> 1),
            Received (Inr (ok_response (JObj []))),
            OnProgress \<lparr>p_uploadId = Val (JStr ''upload-1''), p_totalChunks = 3,
                         p_uploadedChunks = 2, p_progress = 67\<rparr>,
            Sent (chunk_request ''/api/upload'' [] (Val (JStr ''upload-1''))
                    \<lparr>blob_start = 2097152, blob_end = 2621440\<rparr> 2),
            Received (Inr (ok_response (JObj []))),
            OnProgress \<lparr>p_uploadId = Val (JStr ''upload-1''), p_totalChunks = 3,
                         p_uploadedChunks = 3, p_progress = 100\<rparr>,
            Sent (complete_request ''/api/upload'' [] (Val (JStr ''upload-1''))),
            Received (Inr (ok_response example_artifact)),
            OnSuccess example_artifact]"
  let ?long = "map (chunk_at 210763776 1048576 0) [0..<201]"
  let ?fetch = "example_server (Some 200)"
  let ?T = "exchange ?fetch (init_request ''/api/upload'' long_file [] (JObj []) (length ?long))
           @ chunk_rounds ?fetch ''/api/upload'' [] (Val (JStr ''upload-1'')) ?long 200
           @ exchange ?fetch
               (chunk_request ''/api/upload'' [] (Val (JStr ''upload-1'')) (?long ! 200) 200)
           @ [OnError (chunk_error 200 error_response)]"
  have size: "file_size example_file = 2621440" by (simp add: example_file_def)
  have acks: "chunk_acks ''/api/upload'' ?trace = 3" by code_simp
  from progress_reported_after_each_acknowledged_chunk[OF example_chunks example_run_succeeds]
  obtain m where
    m: "chunk_acks ''/api/upload'' ?trace = m" and
    scenario: "file_size example_file = 2621440 \<longrightarrow> DEFAULT_CHUNK_SIZE = DEFAULT_CHUNK_SIZE \<longrightarrow>
          length ?chunks = 3
        \<and> (m = 3 \<longrightarrow> map p_progress (progress_reports ?trace) = [33, 67, 100])"
    by (elim exE conjE) (rule that; assumption)
  from m acks have "m = 3" by simp
  with scenario size have reports: "map p_progress (progress_reports ?trace) = [33, 67, 100]"
    by blast
  from progress_reported_after_each_acknowledged_chunk[OF long_file_chunks long_file_run]
  obtain uploadId k where
    k: "chunk_acks ''/api/upload'' ?T = k" and
    early: "200 \<le> length ?long \<longrightarrow> length ?long \<le> 2 ^ 32 \<longrightarrow> length ?long - 1 \<le> k \<longrightarrow>
          progress_reports ?T ! (length ?long - 2)
            = \<lparr>p_uploadId = uploadId, p_totalChunks = length ?long,
               p_uploadedChunks = length ?long - 1, p_progress = 100\<rparr>"
    by (elim exE conjE) (rule that; assumption)
  have len: "length ?long = 201" by simp
  have k200: "k = 200" using k long_file_acks by simp
  have "progress_reports ?T ! 199
            = \<lparr>p_uploadId = uploadId, p_totalChunks = 201, p_uploadedChunks = 200,
               p_progress = 100\<rparr>"
    using early unfolding len k200 by simp
  then have last: "p_uploadedChunks (progress_reports ?T ! 199) = 200"
      "p_progress (progress_reports ?T ! 199) = 100"
    by simp_all
  show ?thesis
    by (intro conjI example_chunks size long_file_chunks, rule exI[of _ ?trace],
        intro conjI example_run_succeeds acks reports, rule exI[of _ ?T],
        intro conjI long_file_run long_file_acks last)
qed

end
